(* ===== verification/Prelude.thy ===== *)
theory Prelude
  imports Complex_Main "HOL-Library.Sublist"
begin

text \<open>
  Shared vocabulary of the development. The program is one Python class whose methods
  mutate the instance, call Tk, pygame and psutil, and may raise at any of those calls.
  A method is modelled as a state transformer that returns either the exception it
  raised (\<open>Inl\<close>) or its value (\<open>Inr\<close>), together with the state reached at that point:
  Python keeps every assignment made before a raise, so the state is returned on both
  branches. The combinators below are straight-line code (\<open>py_block\<close>), value passing
  (\<open>py_bind\<close>), \<open>if\<close> (\<open>py_if\<close>, \<open>py_when\<close>) and \<open>try/except\<close> (\<open>py_try\<close>).
  Their evaluation equations are declared \<open>[simp]\<close> and collected in \<open>py_simps\<close>, so
  that a concrete run or a run without faults evaluates by \<open>simp\<close>.
\<close>

named_theorems py_simps "evaluation equations of the Python statement combinators"

section \<open>Exceptions\<close>

text \<open>
  The exception classes that the library calls of the program can raise: a Tcl error
  from a widget call (for example when Tk is driven from the monitoring thread), a
  pygame error from the audio mixer (a missing \<open>alarm.mp3\<close>), a psutil error from a
  sensor read, an OS error from a file write, and the \<open>IndexError\<close> of a list index
  out of range.
\<close>

datatype exc = Tcl_error | Pygame_error | Psutil_error | Os_error | Index_error

type_synonym ('s, 'a) py = "'s \<Rightarrow> (exc + 'a) \<times> 's"

section \<open>Statement combinators\<close>

definition py_return :: "'a \<Rightarrow> ('s, 'a) py" where
  "py_return a = (\<lambda>s. (Inr a, s))"

definition py_raise :: "exc \<Rightarrow> ('s, 'a) py" where
  "py_raise e = (\<lambda>s. (Inl e, s))"

definition py_bind :: "('s, 'a) py \<Rightarrow> ('a \<Rightarrow> ('s, 'b) py) \<Rightarrow> ('s, 'b) py" where
  "py_bind m f = (\<lambda>s. case m s of (Inl e, s') \<Rightarrow> (Inl e, s') | (Inr a, s') \<Rightarrow> f a s')"

definition py_then :: "('s, unit) py \<Rightarrow> ('s, 'b) py \<Rightarrow> ('s, 'b) py" where
  "py_then m n = py_bind m (\<lambda>_. n)"

fun py_block :: "('s, unit) py list \<Rightarrow> ('s, unit) py" where
  "py_block [] = py_return ()"
| "py_block (m # ms) = py_then m (py_block ms)"

definition py_try :: "('s, 'a) py \<Rightarrow> (exc \<Rightarrow> ('s, 'a) py) \<Rightarrow> ('s, 'a) py" where
  "py_try m h = (\<lambda>s. case m s of (Inl e, s') \<Rightarrow> h e s' | (Inr a, s') \<Rightarrow> (Inr a, s'))"

definition py_modify :: "('s \<Rightarrow> 's) \<Rightarrow> ('s, unit) py" where
  "py_modify f = (\<lambda>s. (Inr (), f s))"

definition py_gets :: "('s \<Rightarrow> 'a) \<Rightarrow> ('s, 'a) py" where
  "py_gets f = (\<lambda>s. (Inr (f s), s))"

definition py_if :: "('s \<Rightarrow> bool) \<Rightarrow> ('s, 'a) py \<Rightarrow> ('s, 'a) py \<Rightarrow> ('s, 'a) py" where
  "py_if c m n = (\<lambda>s. if c s then m s else n s)"

definition py_when :: "('s \<Rightarrow> bool) \<Rightarrow> ('s, unit) py \<Rightarrow> ('s, unit) py" where
  "py_when c m = py_if c m (py_return ())"

section \<open>Evaluation equations\<close>

lemma py_return_apply [simp, py_simps]: "py_return a s = (Inr a, s)"
  by (simp add: py_return_def)

lemma py_raise_apply [simp, py_simps]: "py_raise e s = (Inl e, s)"
  by (simp add: py_raise_def)

lemma py_modify_apply [simp, py_simps]: "py_modify f s = (Inr (), f s)"
  by (simp add: py_modify_def)

lemma py_gets_apply [simp, py_simps]: "py_gets f s = (Inr (f s), s)"
  by (simp add: py_gets_def)

lemma py_if_apply [simp, py_simps]: "py_if c m n s = (if c s then m s else n s)"
  by (simp add: py_if_def)

lemma py_when_apply [simp, py_simps]: "py_when c m s = (if c s then m s else (Inr (), s))"
  by (simp add: py_when_def)

lemma py_bind_apply [simp, py_simps]:
  "py_bind m f s = (case m s of (Inl e, s') \<Rightarrow> (Inl e, s') | (Inr a, s') \<Rightarrow> f a s')"
  by (simp add: py_bind_def)

lemma py_then_apply [simp, py_simps]:
  "py_then m n s = (case m s of (Inl e, s') \<Rightarrow> (Inl e, s') | (Inr _, s') \<Rightarrow> n s')"
  by (simp add: py_then_def)

lemma py_try_apply [simp, py_simps]:
  "py_try m h s = (case m s of (Inl e, s') \<Rightarrow> h e s' | (Inr a, s') \<Rightarrow> (Inr a, s'))"
  by (simp add: py_try_def)

text \<open>Evaluation after a known first step: the forms used once a callee is summarised.\<close>

lemma py_bind_Inr [py_simps]: "m s = (Inr a, s') \<Longrightarrow> py_bind m f s = f a s'"
  by simp

lemma py_bind_Inl [py_simps]: "m s = (Inl e, s') \<Longrightarrow> py_bind m f s = (Inl e, s')"
  by simp

lemma py_then_Inr [py_simps]: "m s = (Inr u, s') \<Longrightarrow> py_then m n s = n s'"
  by simp

lemma py_then_Inl [py_simps]: "m s = (Inl e, s') \<Longrightarrow> py_then m n s = (Inl e, s')"
  by simp

lemma py_try_Inr [py_simps]: "m s = (Inr a, s') \<Longrightarrow> py_try m h s = (Inr a, s')"
  by simp

lemma py_try_Inl [py_simps]: "m s = (Inl e, s') \<Longrightarrow> py_try m h s = h e s'"
  by simp

section \<open>Laws of sequential composition\<close>

lemma py_block_append: "py_block (xs @ ys) = py_then (py_block xs) (py_block ys)"
proof (induction xs)
  case Nil
  show ?case by (simp add: fun_eq_iff)
next
  case (Cons x xs)
  then show ?case by (simp add: fun_eq_iff split: prod.splits sum.splits)
qed

lemma py_then_assoc: "py_then (py_then m n) k = py_then m (py_then n k)"
  by (simp add: fun_eq_iff split: prod.splits sum.splits)

lemma py_then_return_left [simp]: "py_then (py_return ()) m = m"
  by (simp add: fun_eq_iff)

lemma py_bind_return_left [simp]: "py_bind (py_return a) f = f a"
  by (simp add: fun_eq_iff)

lemma py_then_modify_modify:
  "py_then (py_modify f) (py_then (py_modify g) m) = py_then (py_modify (g \<circ> f)) m"
  by (simp add: fun_eq_iff)

lemma py_block_single [simp]: "py_block [m] = m"
  by (simp add: fun_eq_iff split: prod.splits sum.splits)

section \<open>Relations kept by a computation\<close>

text \<open>
  \<open>keeps R m\<close>: whatever \<open>m\<close> returns or raises, the state it ends in is related by
  \<open>R\<close> to the state it started in. For a reflexive and transitive \<open>R\<close> this is closed
  under every combinator, so that a property such as "the log file only grows" is
  proved once per primitive and then for whole methods by the rules \<open>keeps_intros\<close>.
\<close>

named_theorems keeps_intros "closure rules and primitive facts of keeps"

definition keeps :: "('s \<Rightarrow> 's \<Rightarrow> bool) \<Rightarrow> ('s, 'a) py \<Rightarrow> bool" where
  "keeps R m \<longleftrightarrow> (\<forall>s. R s (snd (m s)))"

lemma keepsD: "keeps R m \<Longrightarrow> m s = (r, s') \<Longrightarrow> R s s'"
  unfolding keeps_def by (metis snd_conv)

lemma keeps_mono: "keeps R m \<Longrightarrow> (\<And>s t. R s t \<Longrightarrow> Q s t) \<Longrightarrow> keeps Q m"
  by (simp add: keeps_def)

lemma keeps_return [keeps_intros]: "(\<And>s. R s s) \<Longrightarrow> keeps R (py_return a)"
  by (simp add: keeps_def)

lemma keeps_raise [keeps_intros]: "(\<And>s. R s s) \<Longrightarrow> keeps R (py_raise e)"
  by (simp add: keeps_def)

lemma keeps_gets [keeps_intros]: "(\<And>s. R s s) \<Longrightarrow> keeps R (py_gets g)"
  by (simp add: keeps_def)

lemma keeps_modify [keeps_intros]: "(\<And>s. R s (f s)) \<Longrightarrow> keeps R (py_modify f)"
  by (simp add: keeps_def)

lemma keeps_bind [keeps_intros]:
  assumes "\<And>s t u. R s t \<Longrightarrow> R t u \<Longrightarrow> R s u" "\<And>s. R s s"
    and "keeps R m" "\<And>a. keeps R (f a)"
  shows "keeps R (py_bind m f)"
  unfolding keeps_def
proof
  fix s
  obtain r t where mt: "m s = (r, t)" by (cases "m s")
  with assms(3) have "R s t" by (rule keepsD)
  show "R s (snd (py_bind m f s))"
  proof (cases r)
    case (Inl e)
    with mt \<open>R s t\<close> show ?thesis by simp
  next
    case (Inr a)
    with mt have "py_bind m f s = f a t" by simp
    moreover have "R t (snd (f a t))" using assms(4) by (simp add: keeps_def)
    ultimately show ?thesis using assms(1) \<open>R s t\<close> by metis
  qed
qed

lemma keeps_then [keeps_intros]:
  "(\<And>s t u. R s t \<Longrightarrow> R t u \<Longrightarrow> R s u) \<Longrightarrow> (\<And>s. R s s) \<Longrightarrow> keeps R m \<Longrightarrow> keeps R n \<Longrightarrow>
   keeps R (py_then m n)"
  unfolding py_then_def by (rule keeps_bind) auto

lemma keeps_block [keeps_intros]:
  "(\<And>s t u. R s t \<Longrightarrow> R t u \<Longrightarrow> R s u) \<Longrightarrow> (\<And>s. R s s) \<Longrightarrow> (\<forall>m \<in> set ms. keeps R m) \<Longrightarrow>
   keeps R (py_block ms)"
  by (induction ms) (auto intro: keeps_then keeps_return)

lemma keeps_try [keeps_intros]:
  assumes "\<And>s t u. R s t \<Longrightarrow> R t u \<Longrightarrow> R s u"
    and "keeps R m" "\<And>e. keeps R (h e)"
  shows "keeps R (py_try m h)"
  unfolding keeps_def
proof
  fix s
  obtain r t where mt: "m s = (r, t)" by (cases "m s")
  with assms(2) have "R s t" by (rule keepsD)
  show "R s (snd (py_try m h s))"
  proof (cases r)
    case (Inl e)
    with mt have "py_try m h s = h e t" by simp
    moreover have "R t (snd (h e t))" using assms(3) by (simp add: keeps_def)
    ultimately show ?thesis using assms(1) \<open>R s t\<close> by metis
  next
    case (Inr a)
    with mt \<open>R s t\<close> show ?thesis by simp
  qed
qed

lemma keeps_if [keeps_intros]: "keeps R m \<Longrightarrow> keeps R n \<Longrightarrow> keeps R (py_if c m n)"
  by (simp add: keeps_def)

lemma keeps_when [keeps_intros]: "(\<And>s. R s s) \<Longrightarrow> keeps R m \<Longrightarrow> keeps R (py_when c m)"
  by (simp add: keeps_def)

section \<open>Lists\<close>

text \<open>
  Bounded histories keep the last \<open>n\<close> elements of what was appended; the suffix of
  length \<open>n\<close> is \<open>drop (length xs - n) xs\<close>.
\<close>

definition last_n :: "nat \<Rightarrow> 'a list \<Rightarrow> 'a list" where
  "last_n n xs = drop (length xs - n) xs"

lemma length_last_n [simp]: "length (last_n n xs) = min n (length xs)"
  by (simp add: last_n_def)

lemma last_n_id [simp]: "length xs \<le> n \<Longrightarrow> last_n n xs = xs"
  by (simp add: last_n_def)

lemma last_n_snoc:
  "0 < n \<Longrightarrow> last_n n (xs @ [x]) =
     (if n < length (last_n n xs @ [x]) then tl (last_n n xs @ [x]) else last_n n xs @ [x])"
proof (cases "length xs < n")
  case True
  then show ?thesis by (simp add: last_n_def)
next
  case False
  assume "0 < n"
  with False have "drop (Suc (length xs) - n) (xs @ [x]) = tl (drop (length xs - n) xs @ [x])"
    by (simp add: Suc_diff_le drop_Suc tl_drop)
  with False show ?thesis by (simp add: last_n_def)
qed

end
