(* ===== verification/Policy.thy ===== *)
theory Policy
  imports Prelude
begin

text \<open>
  The security policy of \<open>check_security\<close> (src/alarm.py, lines 342--347): how one
  battery reading and the sensitivity slider decide whether the machine is secure.
  psutil's \<open>sensors_battery()\<close> returns \<open>None\<close> on a machine without a battery, or a
  record whose \<open>power_plugged\<close> is \<open>True\<close>, \<open>False\<close> or \<open>None\<close> (not determinable); the
  percentage and the slider value are Python floats, modelled as reals. The theory
  proves what the policy decides on every kind of reading and the range and
  monotonicity of the threshold.
\<close>

section \<open>Readings\<close>

text \<open>psutil's \<open>sbattery\<close> named tuple, with the fields the program reads.\<close>

record battery =
  percent :: real
  power_plugged :: "bool option"

text \<open>Python truth value of \<open>battery.power_plugged\<close>: \<open>None\<close> is false.\<close>

definition plugged_truthy :: "battery \<Rightarrow> bool" where
  "plugged_truthy b = (power_plugged b = Some True)"

section \<open>The threshold and the verdict\<close>

text \<open>\<open>(11 - self.sensitivity.get()) * 10\<close>, line 346.\<close>

definition threshold :: "real \<Rightarrow> real" where
  "threshold sens = (11 - sens) * 10"

text \<open>
  Lines 343--347 as one function of the reading and of the slider value read on
  line 346: the plug state decides first, then a charge below the threshold
  overrides it to insecure.
\<close>

definition secure_verdict :: "battery option \<Rightarrow> real \<Rightarrow> bool" where
  "secure_verdict bat sens =
     (let is_secure = (case bat of Some b \<Rightarrow> plugged_truthy b | None \<Rightarrow> True) in
      case bat of
        Some b \<Rightarrow> (if percent b < threshold sens then False else is_secure)
      | None \<Rightarrow> is_secure)"

section \<open>Properties\<close>

lemma secure_verdict_None [simp]: "secure_verdict None sens"
  by (simp add: secure_verdict_def)

lemma secure_verdict_Some [simp]:
  "secure_verdict (Some b) sens = (plugged_truthy b \<and> threshold sens \<le> percent b)"
  by (auto simp: secure_verdict_def)

text \<open>C39: the policy as the spec states it.\<close>

theorem secure_verdict_iff:
  "secure_verdict bat sens =
     (case bat of None \<Rightarrow> True
      | Some b \<Rightarrow> power_plugged b = Some True \<and> \<not> percent b < (11 - sens) * 10)"
  by (cases bat) (auto simp: plugged_truthy_def threshold_def)

text \<open>C19: an unplugged battery, or one whose plug state psutil cannot determine, is
  insecure whatever its charge and whatever the sensitivity.\<close>

theorem unplugged_insecure:
  "power_plugged b \<noteq> Some True \<Longrightarrow> \<not> secure_verdict (Some b) sens"
  by (simp add: plugged_truthy_def)

theorem unplugged_insecure_witness:
  "power_plugged \<lparr>percent = 100, power_plugged = Some False\<rparr> \<noteq> Some True \<and>
   power_plugged \<lparr>percent = 100, power_plugged = None\<rparr> \<noteq> Some True \<and>
   \<not> secure_verdict (Some \<lparr>percent = 100, power_plugged = Some False\<rparr>) 10 \<and>
   \<not> secure_verdict (Some \<lparr>percent = 100, power_plugged = None\<rparr>) 1"
  using unplugged_insecure [of "\<lparr>percent = 100, power_plugged = Some False\<rparr>" 10]
        unplugged_insecure [of "\<lparr>percent = 100, power_plugged = None\<rparr>" 1]
  by simp

text \<open>C20: for a slider in its range \<open>[1, 10]\<close> the threshold lies in \<open>[10, 100]\<close>, and
  it strictly decreases as the sensitivity grows past \<open>s\<close>.\<close>

theorem threshold_range_antimono:
  "1 \<le> s \<Longrightarrow> s \<le> 10 \<Longrightarrow> s < t \<Longrightarrow>
   10 \<le> threshold s \<and> threshold s \<le> 100 \<and> threshold t < threshold s"
  by (simp add: threshold_def)

theorem threshold_range_antimono_witness:
  "threshold 5 = 60 \<and> threshold 6 = 50 \<and> 10 \<le> threshold 5 \<and> threshold 5 \<le> 100 \<and>
   threshold 6 < threshold 5"
  using threshold_range_antimono [of 5 6] by (simp add: threshold_def)

end
