(* ===== verification/App.thy ===== *)
theory App
  imports Policy
begin

text \<open>
  The state of one \<open>SecurityMonitorGUI\<close> instance (src/alarm.py): the fields set in
  \<open>setup_system\<close> (lines 24--44), and the part of each Tk widget, of the pygame mixer and
  of the Tk timer queue that the methods read or write. Widget texts that carry emoji
  or accented literals are datatypes with one constructor per literal of the source.
  Time is the wall clock in milliseconds. Every call into Tk, pygame, psutil or the file
  system goes through \<open>fault_point\<close>, which consumes one entry of the environment's fault
  oracle \<open>faults\<close>: \<open>None\<close> lets the call succeed, \<open>Some e\<close> makes it raise \<open>e\<close>, and
  an empty oracle lets every call succeed. A run with \<open>faults = []\<close> is the run in which
  no library call fails.
\<close>

section \<open>Values shown by the widgets\<close>

text \<open>The icons of the \<open>styles\<close> table of \<open>log_event\<close> (lines 511--515).\<close>

datatype icon = Icon_info | Icon_warning | Icon_alert

text \<open>The message literals passed to \<open>log_event\<close>, in source order.\<close>

datatype message =
    Msg_log_cleared          \<comment> \<open>line 333\<close>
  | Msg_monitor_error exc    \<comment> \<open>line 368\<close>
  | Msg_security_alert       \<comment> \<open>line 352\<close>
  | Msg_back_to_normal       \<comment> \<open>line 355\<close>
  | Msg_audio_error exc      \<comment> \<open>line 382\<close>
  | Msg_alert_disabled       \<comment> \<open>line 419\<close>
  | Msg_monitoring_on        \<comment> \<open>line 454\<close>
  | Msg_monitoring_off       \<comment> \<open>line 499\<close>
  | Msg_shutdown             \<comment> \<open>line 549\<close>
  | Msg_ready                \<comment> \<open>line 619\<close>

text \<open>
  What \<open>log_event\<close> inserts into the \<open>tk.Text\<close> widget: a timestamp piece tagged
  \<open>"timestamp"\<close> and a message line tagged with the level (lines 524--525).
\<close>

datatype piece =
    Piece_stamp nat
  | Piece_line string icon message

text \<open>A record of the durable log: time, logging level name, icon, message (line 529).\<close>

datatype log_record = Log_record nat string icon message

text \<open>The toast notifications the program shows, one constructor per call site.\<close>

datatype toast =
    Toast_export nat
  | Toast_alert message
  | Toast_alert_off
  | Toast_monitoring_on
  | Toast_monitoring_off
  | Toast_ready

text \<open>Callbacks registered with \<open>root.after\<close>.\<close>

datatype callback =
    Cb_update_metrics
  | Cb_flash_warning
  | Cb_animate_progress nat
  | Cb_finish_startup

datatype face = Face_start | Face_stop

datatype status_text = Status_inactive | Status_active

datatype progress_mode = Determinate | Indeterminate

datatype card_value = Card_placeholder | Card_percent real

text \<open>One entry of \<open>self.system_metrics\<close> (lines 294--298).\<close>

record metric_sample =
  sample_time :: nat
  sample_cpu :: real
  sample_memory :: real

section \<open>The application state\<close>

record app =
  monitoring_active :: bool
  alert_active :: bool
  incident_count :: nat
  system_metrics :: "metric_sample list"
  last_check :: nat
  clock :: nat
  faults :: "exc option list"
  cpu_label :: real
  memory_label :: real
  status_text :: status_text
  status_fg :: string
  start_button :: face
  stop_alert_enabled :: bool
  incident_label :: nat
  time_label :: nat
  sensitivity :: real
  sound_var :: bool
  metric_cards :: "card_value list"
  log_text :: "piece list"
  log_tags :: "string \<rightharpoonup> string"
  log_bg :: string
  log_file :: "log_record list"
  progress_mode :: progress_mode
  progress_value :: nat
  progress_running :: bool
  mixer_ready :: bool
  music_loaded :: bool
  music_playing :: bool
  toasts :: "toast list"
  exports :: "nat \<rightharpoonup> piece list"
  after_queue :: "(nat \<times> callback) list"
  window_open :: bool
  exit_status :: "nat option"
  monitor_thread :: nat
  splash_open :: bool
  splash_size :: "int \<times> int"
  splash_pos :: "int \<times> int"
  splash_spinning :: bool
  screen_size :: "int \<times> int"

text \<open>Colours the program writes (lines 226, 399, 404, 416, 417, 447).\<close>

definition red :: string where "red = ''#F44336''"
definition white :: string where "white = ''#FFFFFF''"
definition green :: string where "green = ''#4CAF50''"
definition log_base_bg :: string where "log_base_bg = ''#2b3e50''"
definition log_alert_bg :: string where "log_alert_bg = ''#3B1A1A''"

text \<open>Lines 237--240: the tags \<open>create_main_content\<close> configures on the log widget.\<close>

definition initial_tags :: "string \<rightharpoonup> string" where
  "initial_tags = [''timestamp'' \<mapsto> ''#888888'', ''info'' \<mapsto> ''#4CAF50'',
                   ''warning'' \<mapsto> ''#FFC107'', ''alert'' \<mapsto> ''#F44336'']"

text \<open>
  The state after \<open>__init__\<close> up to \<open>setup_charts\<close>, that theory Init proves the
  constructor builds: slider at 5, sound on, the alert button disabled, the log
  background \<open>#2b3e50\<close> with its four tags, four placeholder cards. The status label's
  foreground is the theme's, written \<open>''''\<close> (not set). \<open>monitor_thread\<close> stands
  for the object \<open>self.monitor_thread\<close> refers to: the number of threads started so
  far, 0 before the first.
\<close>

definition initial_app :: "nat \<Rightarrow> app" where
  "initial_app now = \<lparr>
     monitoring_active = False, alert_active = False, incident_count = 0,
     system_metrics = [], last_check = now, clock = now, faults = [],
     cpu_label = 0, memory_label = 0, status_text = Status_inactive, status_fg = '''',
     start_button = Face_start, stop_alert_enabled = False, incident_label = 0,
     time_label = 0, sensitivity = 5, sound_var = True,
     metric_cards = [Card_placeholder, Card_placeholder, Card_placeholder, Card_placeholder],
     log_text = [], log_tags = initial_tags, log_bg = log_base_bg, log_file = [],
     progress_mode = Indeterminate, progress_value = 0, progress_running = False,
     mixer_ready = True, music_loaded = False, music_playing = False, toasts = [],
     exports = Map.empty, after_queue = [], window_open = True, exit_status = None,
     monitor_thread = 0, splash_open = False, splash_size = (0, 0), splash_pos = (0, 0),
     splash_spinning = False, screen_size = (1920, 1080)\<rparr>"

section \<open>Library calls\<close>

text \<open>One library call's chance to raise: it consumes one entry of the fault oracle.\<close>

definition fault_point :: "(app, unit) py" where
  "fault_point s =
     (case faults s of
        [] \<Rightarrow> (Inr (), s)
      | r # rest \<Rightarrow>
          (case r of
             None \<Rightarrow> (Inr (), s\<lparr>faults := rest\<rparr>)
           | Some e \<Rightarrow> (Inl e, s\<lparr>faults := rest\<rparr>)))"

text \<open>A library call with an effect on the widgets or the devices, and one that reads.\<close>

definition ext_call :: "(app \<Rightarrow> app) \<Rightarrow> (app, unit) py" where
  "ext_call f = py_then fault_point (py_modify f)"

definition ext_read :: "(app \<Rightarrow> 'a) \<Rightarrow> (app, 'a) py" where
  "ext_read g = py_then fault_point (py_gets g)"

text \<open>\<open>time.sleep(secs)\<close>: the clock advances; it raises nothing in a worker thread.\<close>

definition sleep :: "nat \<Rightarrow> (app, unit) py" where
  "sleep ms = py_modify (\<lambda>s. s\<lparr>clock := clock s + ms\<rparr>)"

text \<open>\<open>root.after(ms, cb)\<close>: a Tk call that queues \<open>cb\<close> to run \<open>ms\<close> milliseconds later.\<close>

definition after :: "nat \<Rightarrow> callback \<Rightarrow> (app, unit) py" where
  "after ms cb = ext_call (\<lambda>s. s\<lparr>after_queue := after_queue s @ [(clock s + ms, cb)]\<rparr>)"

text \<open>The definitions to unfold when a run meets a concrete fault oracle.\<close>

lemmas fault_defs = ext_call_def ext_read_def fault_point_def after_def

text \<open>\<open>n\<close> statements that call Tk and change nothing the program reads later
  (frames, layout, labels nobody reads again).\<close>

definition tk_calls :: "nat \<Rightarrow> (app, unit) py" where
  "tk_calls n = py_block (replicate n (ext_call id))"

section \<open>Calls when no library call fails\<close>

lemma tk_calls_no_faults [simp]: "faults s = [] \<Longrightarrow> tk_calls n s = (Inr (), s)"
  by (induction n) (simp_all add: tk_calls_def ext_call_def fault_point_def)

lemma fault_point_no_faults [simp]: "faults s = [] \<Longrightarrow> fault_point s = (Inr (), s)"
  by (simp add: fault_point_def)

lemma ext_call_no_faults [simp]: "faults s = [] \<Longrightarrow> ext_call f s = (Inr (), f s)"
  by (simp add: ext_call_def)

lemma ext_read_no_faults [simp]: "faults s = [] \<Longrightarrow> ext_read g s = (Inr (g s), s)"
  by (simp add: ext_read_def)

lemma sleep_apply [simp]: "sleep ms s = (Inr (), s\<lparr>clock := clock s + ms\<rparr>)"
  by (simp add: sleep_def)

lemma after_no_faults [simp]:
  "faults s = [] \<Longrightarrow> after ms cb s = (Inr (), s\<lparr>after_queue := after_queue s @ [(clock s + ms, cb)]\<rparr>)"
  by (simp add: after_def)

text \<open>A call consumes the head of the oracle and does what that entry says.\<close>

lemma fault_point_Cons:
  "faults s = r # rest \<Longrightarrow>
   fault_point s = (case r of None \<Rightarrow> Inr () | Some e \<Rightarrow> Inl e, s\<lparr>faults := rest\<rparr>)"
  by (simp add: fault_point_def split: option.splits)

lemma ext_call_Cons [simp]:
  "faults s = r # rest \<Longrightarrow>
   ext_call f s = (case r of None \<Rightarrow> (Inr (), f (s\<lparr>faults := rest\<rparr>))
                          | Some e \<Rightarrow> (Inl e, s\<lparr>faults := rest\<rparr>))"
  by (simp add: ext_call_def fault_point_Cons split: option.splits)

lemma ext_read_Cons [simp]:
  "faults s = r # rest \<Longrightarrow>
   ext_read g s = (case r of None \<Rightarrow> (Inr (g (s\<lparr>faults := rest\<rparr>)), s\<lparr>faults := rest\<rparr>)
                          | Some e \<Rightarrow> (Inl e, s\<lparr>faults := rest\<rparr>))"
  by (simp add: ext_read_def fault_point_Cons split: option.splits)

lemma after_Cons [simp]:
  "faults s = r # rest \<Longrightarrow>
   after ms cb s = (case r of
       None \<Rightarrow> (Inr (), s\<lparr>faults := rest, after_queue := after_queue s @ [(clock s + ms, cb)]\<rparr>)
     | Some e \<Rightarrow> (Inl e, s\<lparr>faults := rest\<rparr>))"
  by (simp add: after_def split: option.splits)

section \<open>Relations kept by library calls\<close>

text \<open>
  The primitives of the \<open>keeps\<close> library of the prelude: a relation that holds
  when a call consumes the head of the fault oracle is kept by every library call that
  keeps it on success.
\<close>

lemma keeps_fault_point [keeps_intros]:
  "(\<And>s. R s s) \<Longrightarrow> (\<And>s. R s (s\<lparr>faults := tl (faults s)\<rparr>)) \<Longrightarrow> keeps R fault_point"
proof (unfold keeps_def, intro allI)
  fix s
  assume refl: "\<And>s. R s s" and tl: "\<And>s. R s (s\<lparr>faults := tl (faults s)\<rparr>)"
  show "R s (snd (fault_point s))"
  proof (cases "faults s")
    case Nil
    then show ?thesis using refl by (simp add: fault_point_def)
  next
    case (Cons r rest)
    then show ?thesis using tl [of s] by (simp add: fault_point_def split: option.splits)
  qed
qed

lemma keeps_ext_call [keeps_intros]:
  "(\<And>s t u. R s t \<Longrightarrow> R t u \<Longrightarrow> R s u) \<Longrightarrow> (\<And>s. R s s) \<Longrightarrow> (\<And>s. R s (s\<lparr>faults := tl (faults s)\<rparr>)) \<Longrightarrow>
   (\<And>s. R s (f s)) \<Longrightarrow> keeps R (ext_call f)"
  unfolding ext_call_def by (intro keeps_then keeps_fault_point keeps_modify)

lemma keeps_ext_read [keeps_intros]:
  "(\<And>s t u. R s t \<Longrightarrow> R t u \<Longrightarrow> R s u) \<Longrightarrow> (\<And>s. R s s) \<Longrightarrow> (\<And>s. R s (s\<lparr>faults := tl (faults s)\<rparr>)) \<Longrightarrow>
   keeps R (ext_read g)"
  unfolding ext_read_def by (intro keeps_then keeps_fault_point keeps_gets)

lemma keeps_sleep [keeps_intros]: "(\<And>s. R s (s\<lparr>clock := clock s + ms\<rparr>)) \<Longrightarrow> keeps R (sleep ms)"
  unfolding sleep_def by (rule keeps_modify)

lemma keeps_tk_calls [keeps_intros]:
  "(\<And>s t u. R s t \<Longrightarrow> R t u \<Longrightarrow> R s u) \<Longrightarrow> (\<And>s. R s s) \<Longrightarrow>
   (\<And>s. R s (s\<lparr>faults := tl (faults s)\<rparr>)) \<Longrightarrow> keeps R (tk_calls n)"
  unfolding tk_calls_def by (rule keeps_block) (auto intro!: keeps_ext_call)

lemma keeps_after [keeps_intros]:
  "(\<And>s t u. R s t \<Longrightarrow> R t u \<Longrightarrow> R s u) \<Longrightarrow> (\<And>s. R s s) \<Longrightarrow> (\<And>s. R s (s\<lparr>faults := tl (faults s)\<rparr>)) \<Longrightarrow>
   (\<And>s. R s (s\<lparr>after_queue := after_queue s @ [(clock s + ms, cb)]\<rparr>)) \<Longrightarrow> keeps R (after ms cb)"
  unfolding after_def by (rule keeps_ext_call)

end
