(* ===== verification/EventLog.thy ===== *)
theory EventLog
  imports App
begin

text \<open>
  The event log (src/alarm.py): \<open>log_event\<close> (lines 506--529) writes a timestamped line
  to the \<open>tk.Text\<close> widget and a record to the durable log file through \<open>logging\<close>;
  \<open>clear_logs\<close> (lines 325--333) empties the widget after a confirmation dialog;
  \<open>export_logs\<close> (lines 312--323) writes the widget's contents to a file named after the
  current second. The lemmas give each operation's effect when no library call fails,
  show that the durable file only grows whatever fails, and record two behaviours the
  spec does not describe: every file record has level \<open>INFO\<close>, and the confirmation of
  \<open>clear_logs\<close> is read by Python truthiness, so a "No" answer clears too.
\<close>

section \<open>log_event\<close>

text \<open>The \<open>styles\<close> dictionary of lines 511--515 and \<open>styles.get(level, styles["info"])\<close>.\<close>

definition styles :: "string \<rightharpoonup> icon \<times> string" where
  "styles = [''info'' \<mapsto> (Icon_info, ''#4CAF50''), ''warning'' \<mapsto> (Icon_warning, ''#FFC107''),
             ''alert'' \<mapsto> (Icon_alert, ''#F44336'')]"

definition style_get :: "string \<Rightarrow> icon \<times> string" where
  "style_get level = (case styles level of Some st \<Rightarrow> st | None \<Rightarrow> the (styles ''info''))"

text \<open>\<open>datetime.now().strftime("%H:%M:%S")\<close>: the second of the day.\<close>

definition day_seconds :: "nat \<Rightarrow> nat" where
  "day_seconds ms = (ms div 1000) mod 86400"

text \<open>
  Lines 508--529: four Tk calls (\<open>tag_configure\<close>, two \<open>insert\<close>s, \<open>see\<close>), each of
  which may raise, then \<open>logging.info\<close>, which reports its own I/O errors on stderr
  and does not raise. The record is logged at level \<open>INFO\<close> whatever \<open>level\<close> is.
\<close>

definition log_event :: "message \<Rightarrow> string \<Rightarrow> (app, unit) py" where
  "log_event msg level = py_bind (py_gets clock) (\<lambda>now.
     (case style_get level of (icon, colour) \<Rightarrow>
      py_block [
        ext_call (\<lambda>s. s\<lparr>log_tags := (log_tags s)(level \<mapsto> colour)\<rparr>),
        ext_call (\<lambda>s. s\<lparr>log_text := log_text s @ [Piece_stamp (day_seconds now)]\<rparr>),
        ext_call (\<lambda>s. s\<lparr>log_text := log_text s @ [Piece_line level icon msg]\<rparr>),
        ext_call id,
        py_modify (\<lambda>s. s\<lparr>log_file := log_file s @ [Log_record now ''INFO'' icon msg]\<rparr>)]))"

text \<open>The two pieces one call of \<open>log_event\<close> appends to the widget, and its file record.\<close>

definition log_pieces :: "nat \<Rightarrow> message \<Rightarrow> string \<Rightarrow> piece list" where
  "log_pieces now msg level = [Piece_stamp (day_seconds now), Piece_line level (fst (style_get level)) msg]"

definition log_record_of :: "nat \<Rightarrow> message \<Rightarrow> string \<Rightarrow> log_record" where
  "log_record_of now msg level = Log_record now ''INFO'' (fst (style_get level)) msg"

lemma log_event_no_faults [simp]:
  "faults s = [] \<Longrightarrow> log_event msg level s =
     (Inr (), s\<lparr>log_tags := (log_tags s)(level \<mapsto> snd (style_get level)),
               log_text := log_text s @ log_pieces (clock s) msg level,
               log_file := log_file s @ [log_record_of (clock s) msg level]\<rparr>)"
  by (simp add: log_event_def log_pieces_def log_record_of_def split: prod.splits)

section \<open>clear_logs and export_logs\<close>

text \<open>
  Python truth value of the string \<open>Messagebox.show_question\<close> returns: the label of
  the button pressed, or \<open>None\<close> when the dialog is closed.
\<close>

definition py_truthy_str :: "string option \<Rightarrow> bool" where
  "py_truthy_str r = (case r of None \<Rightarrow> False | Some str \<Rightarrow> str \<noteq> [])"

text \<open>Lines 325--333; \<open>answer\<close> is what the dialog returns.\<close>

definition clear_logs :: "string option \<Rightarrow> (app, unit) py" where
  "clear_logs answer = py_bind (ext_read (\<lambda>_. answer)) (\<lambda>response.
     py_when (\<lambda>_. py_truthy_str response)
       (py_block [ext_call (\<lambda>s. s\<lparr>log_text := []\<rparr>), log_event Msg_log_cleared ''info'']))"

text \<open>
  Lines 312--323: the file \<open>security_logs_<date>_<time>.txt\<close> is named to the second and
  opened in mode \<open>"w"\<close>, so it is a map from the second to the text written; the
  \<open>open\<close>/\<open>write\<close> block and the toast are one library call each.
\<close>

definition export_logs :: "(app, unit) py" where
  "export_logs = py_bind (py_gets clock) (\<lambda>now.
     py_block [ext_call (\<lambda>s. s\<lparr>exports := (exports s)(now div 1000 \<mapsto> [])\<rparr>),
               py_bind (ext_read log_text) (\<lambda>content.
                 ext_call (\<lambda>s. s\<lparr>exports := (exports s)(now div 1000 \<mapsto> content)\<rparr>)),
               ext_call (\<lambda>s. s\<lparr>toasts := toasts s @ [Toast_export (now div 1000)]\<rparr>)])"

section \<open>Properties\<close>

lemma style_get_levels [simp]:
  "style_get ''info'' = (Icon_info, ''#4CAF50'')"
  "style_get ''warning'' = (Icon_warning, ''#FFC107'')"
  "style_get ''alert'' = (Icon_alert, ''#F44336'')"
  by (simp_all add: style_get_def styles_def)

text \<open>C29: the level decides the icon and colour of the display line; a level the table
  does not know falls back to \<open>info\<close>; the durable record is \<open>INFO\<close> for every level.\<close>

theorem log_event_levels:
  assumes "faults s = []"
  shows "log_text (snd (log_event msg level s)) = log_text s @
          [Piece_stamp (day_seconds (clock s)),
           Piece_line level (if level = ''warning'' then Icon_warning
                             else if level = ''alert'' then Icon_alert else Icon_info) msg] \<and>
         log_file (snd (log_event msg level s)) = log_file s @
          [Log_record (clock s) ''INFO''
             (if level = ''warning'' then Icon_warning else if level = ''alert'' then Icon_alert else Icon_info) msg]"
  using assms by (auto simp: log_pieces_def log_record_of_def style_get_def styles_def)

text \<open>C26: when no library call fails, \<open>clear_logs\<close> acts on the truth value of the dialog's
  answer: any non-empty answer, "No" included, empties the widget, which then holds only
  the "log cleared" line, and appends that line to the durable file; a dialog closed
  without an answer changes nothing.\<close>

theorem clear_logs_effect:
  assumes "faults s = []"
  shows "clear_logs answer s =
    (Inr (), if py_truthy_str answer
             then s\<lparr>log_tags := (log_tags s)(''info'' \<mapsto> ''#4CAF50''),
                    log_text := log_pieces (clock s) Msg_log_cleared ''info'',
                    log_file := log_file s @ [log_record_of (clock s) Msg_log_cleared ''info'']\<rparr>
             else s)"
  using assms by (simp add: clear_logs_def)

text \<open>C27: when no library call fails, the export file of the current second holds exactly
  the widget's contents, and the files of other seconds are untouched.\<close>

theorem export_logs_roundtrip:
  assumes "faults s = []" and "export_logs s = (r, s')"
  shows "r = Inr () \<and> exports s' (clock s div 1000) = Some (log_text s) \<and>
         (\<forall>k. k \<noteq> clock s div 1000 \<longrightarrow> exports s' k = exports s k) \<and> log_text s' = log_text s"
  using assms by (auto simp: export_logs_def)

text \<open>C28: when reading the widget's contents raises after \<open>open(filename, "w")\<close>
  succeeded, the export file of that second is left empty, whatever it held, and no
  toast announces it: the exception leaves the \<open>with\<close> block after the truncation.\<close>

theorem export_logs_failed_read_truncates:
  assumes "faults s = [None, Some e]"
  shows "export_logs s = (Inl e, s\<lparr>faults := [], exports := (exports s)(clock s div 1000 \<mapsto> [])\<rparr>)"
  using assms by (simp add: export_logs_def fault_defs)

section \<open>What only grows\<close>

text \<open>
  \<open>grows s t\<close>: the durable file of \<open>s\<close> is a prefix of that of \<open>t\<close>, the incident
  counter and the number of threads started have not decreased, the fault oracle of
  \<open>t\<close> is what remains of that of \<open>s\<close> (library calls only consume it), and a metrics
  history within its capacity of 100 samples is still within it. Every method of the program keeps it whatever fails
  (facts \<open>grows_ops\<close>, here and in the theories of the callers).
\<close>

definition grows :: "app \<Rightarrow> app \<Rightarrow> bool" where
  "grows s t \<longleftrightarrow> prefix (log_file s) (log_file t) \<and> incident_count s \<le> incident_count t \<and>
                suffix (faults t) (faults s) \<and> monitor_thread s \<le> monitor_thread t \<and>
                (length (system_metrics s) \<le> 100 \<longrightarrow> length (system_metrics t) \<le> 100)"

lemma grows_refl [simp]: "grows s s"
  by (simp add: grows_def)

lemma grows_trans: "grows s t \<Longrightarrow> grows t u \<Longrightarrow> grows s u"
  unfolding grows_def using prefix_order.trans suffix_order.trans by (blast intro: le_trans)

lemmas grows_closure = grows_trans grows_refl

named_theorems grows_ops "methods that keep grows"

lemma log_event_grows [grows_ops]: "keeps grows (log_event msg level)"
  unfolding log_event_def
  by (auto intro!: keeps_intros intro: grows_trans simp: grows_def split: prod.splits)

lemma export_logs_grows [grows_ops]: "keeps grows export_logs"
  unfolding export_logs_def
  by (auto intro!: keeps_intros intro: grows_trans simp: grows_def)

lemma clear_logs_grows [grows_ops]: "keeps grows (clear_logs answer)"
  unfolding clear_logs_def
  by (auto intro!: keeps_intros grows_ops intro: grows_trans simp: grows_def)

text \<open>C25: whatever the dialog answers and whichever library call raises, \<open>clear_logs\<close>
  leaves every record of the durable file in place (spec section 8).\<close>

theorem clear_logs_keeps_file:
  "prefix (log_file s) (log_file (snd (clear_logs answer s)))"
  using clear_logs_grows by (simp add: keeps_def grows_def)

section \<open>Witnesses\<close>

theorem log_event_levels_witness:
  "log_text (snd (log_event Msg_ready ''debug'' (initial_app 0))) =
     [Piece_stamp 0, Piece_line ''debug'' Icon_info Msg_ready] \<and>
   log_file (snd (log_event Msg_security_alert ''alert'' (initial_app 0))) =
     [Log_record 0 ''INFO'' Icon_alert Msg_security_alert]"
  using log_event_levels [of "initial_app 0" Msg_ready "''debug''"]
        log_event_levels [of "initial_app 0" Msg_security_alert "''alert''"]
  by (simp add: initial_app_def day_seconds_def)

theorem clear_logs_effect_witness:
  "clear_logs (Some ''No'') ((initial_app 0)\<lparr>log_text := [Piece_stamp 1]\<rparr>) =
     (Inr (), (initial_app 0)\<lparr>log_tags := initial_tags(''info'' \<mapsto> ''#4CAF50''),
        log_text := log_pieces 0 Msg_log_cleared ''info'',
        log_file := [log_record_of 0 Msg_log_cleared ''info'']\<rparr>)"
  using clear_logs_effect [of "(initial_app 0)\<lparr>log_text := [Piece_stamp 1]\<rparr>" "Some ''No''"]
  by (simp add: initial_app_def py_truthy_str_def)

theorem export_logs_roundtrip_witness:
  "exports (snd (export_logs ((initial_app 4500)\<lparr>log_text := [Piece_stamp 4]\<rparr>))) 4 = Some [Piece_stamp 4]"
  using export_logs_roundtrip [of "(initial_app 4500)\<lparr>log_text := [Piece_stamp 4]\<rparr>"
      "fst (export_logs ((initial_app 4500)\<lparr>log_text := [Piece_stamp 4]\<rparr>))"
      "snd (export_logs ((initial_app 4500)\<lparr>log_text := [Piece_stamp 4]\<rparr>))"]
  by (simp add: initial_app_def)

theorem export_logs_failed_read_truncates_witness:
  "export_logs ((initial_app 4500)\<lparr>exports := [4 \<mapsto> [Piece_stamp 4]], faults := [None, Some Tcl_error]\<rparr>) =
     (Inl Tcl_error, (initial_app 4500)\<lparr>exports := [4 \<mapsto> []]\<rparr>)"
  using export_logs_failed_read_truncates
     [of "(initial_app 4500)\<lparr>exports := [4 \<mapsto> [Piece_stamp 4]], faults := [None, Some Tcl_error]\<rparr>" Tcl_error]
  by (simp add: initial_app_def)

end
