(* ===== verification/Alert.thy ===== *)
theory Alert
  imports EventLog
begin

text \<open>
  The alert controller (src/alarm.py): \<open>trigger_alert\<close> (lines 371--392) raises the
  alert, starts the looping alarm sound when sound is on and starts the red/white
  flashing; \<open>flash_warning\<close> (lines 394--407) is the flashing step, which re-queues
  itself with \<open>root.after(500, ...)\<close> while the alert is active; \<open>stop_alert\<close> (lines
  409--426) ends it. The lemmas give each operation's effect when no library call fails,
  show that \<open>stop_alert\<close> clears the alert even when a later call of it raises, that it
  is idempotent on the alert's state, and that the flashing keeps the status label red
  (its \<open>cget\<close> comparison is always true) while the log background alternates.
\<close>

section \<open>Operations\<close>

text \<open>
  What \<open>cget\<close> returns. Tkinter hands a Tcl result to Python as a \<open>str\<close> when the
  Tcl object is a plain string and as a \<open>_tkinter.Tcl_Obj\<close> otherwise. A ttk widget
  keeps its options as the objects Tk has converted (the label's foreground is a colour
  object once the label has been drawn), so \<open>ttk.Label.cget("foreground")\<close> returns a
  \<open>Tcl_Obj\<close> for a colour that was set, and the empty string for none; the classic
  \<open>tk.Text\<close> widget rebuilds the string of its background, a \<open>str\<close>.
\<close>

datatype tcl_value = Py_str string | Tcl_obj string

definition ttk_cget :: "string \<Rightarrow> tcl_value" where
  "ttk_cget c = (if c = '''' then Py_str c else Tcl_obj c)"

definition tk_cget :: "string \<Rightarrow> tcl_value" where
  "tk_cget c = Py_str c"

text \<open>Python's \<open>v != "..."\<close> on such a value: \<open>Tcl_Obj\<close> defines no comparison with a
  \<open>str\<close>, so Python falls back to identity and \<open>!=\<close> is true.\<close>

fun py_ne_str :: "tcl_value \<Rightarrow> string \<Rightarrow> bool" where
  "py_ne_str (Py_str a) b = (a \<noteq> b)"
| "py_ne_str (Tcl_obj a) b = True"

text \<open>\<open>"#F44336" if current != "#F44336" else "#FFFFFF"\<close> and its background twin.\<close>

definition toggle_fg :: "tcl_value \<Rightarrow> string" where
  "toggle_fg c = (if py_ne_str c red then red else white)"

definition toggle_bg :: "tcl_value \<Rightarrow> string" where
  "toggle_bg c = (if py_ne_str c log_alert_bg then log_alert_bg else log_base_bg)"

text \<open>Lines 394--407: two \<open>cget\<close> reads, two \<open>configure\<close> writes, one \<open>after\<close>.\<close>

definition flash_warning :: "(app, unit) py" where
  "flash_warning = py_when alert_active (py_block [
     py_bind (ext_read (\<lambda>s. ttk_cget (status_fg s))) (\<lambda>current. ext_call (\<lambda>s. s\<lparr>status_fg := toggle_fg current\<rparr>)),
     py_bind (ext_read (\<lambda>s. tk_cget (log_bg s))) (\<lambda>current. ext_call (\<lambda>s. s\<lparr>log_bg := toggle_bg current\<rparr>)),
     after 500 Cb_flash_warning])"

text \<open>
  Lines 371--392. \<open>mixer.music.load\<close> stops any music playing and loads the file;
  \<open>play(-1)\<close> loops it until stopped. Errors of these two calls are caught and logged;
  every other call's error propagates to the caller.
\<close>

definition trigger_alert :: "message \<Rightarrow> (app, unit) py" where
  "trigger_alert msg = py_block [
     py_modify (\<lambda>s. s\<lparr>alert_active := True\<rparr>),
     ext_call (\<lambda>s. s\<lparr>stop_alert_enabled := True\<rparr>),
     log_event msg ''alert'',
     py_bind (ext_read sound_var) (\<lambda>sound. py_when (\<lambda>_. sound)
       (py_try (py_block [ext_call (\<lambda>s. s\<lparr>music_loaded := True, music_playing := False\<rparr>),
                          ext_call (\<lambda>s. s\<lparr>music_playing := True\<rparr>)])
               (\<lambda>e. log_event (Msg_audio_error e) ''warning''))),
     flash_warning,
     ext_call (\<lambda>s. s\<lparr>toasts := toasts s @ [Toast_alert msg]\<rparr>)]"

text \<open>Lines 409--426; the flag is cleared before the first library call.\<close>

definition stop_alert :: "(app, unit) py" where
  "stop_alert = py_block [
     py_modify (\<lambda>s. s\<lparr>alert_active := False\<rparr>),
     ext_call (\<lambda>s. s\<lparr>music_playing := False\<rparr>),
     ext_call (\<lambda>s. s\<lparr>stop_alert_enabled := False\<rparr>),
     ext_call (\<lambda>s. s\<lparr>status_fg := white\<rparr>),
     ext_call (\<lambda>s. s\<lparr>log_bg := log_base_bg\<rparr>),
     log_event Msg_alert_disabled ''info'',
     ext_call (\<lambda>s. s\<lparr>toasts := toasts s @ [Toast_alert_off]\<rparr>)]"

section \<open>Effects when no library call fails\<close>

text \<open>The status label's colour read back is never equal to a string, so the toggle
  always answers red; the log background, a \<open>str\<close>, alternates.\<close>

lemma toggle_fg_ttk [simp]: "toggle_fg (ttk_cget c) = red"
  by (cases "c = ''''") (simp_all add: toggle_fg_def ttk_cget_def red_def)

lemma toggle_bg_tk [simp]:
  "toggle_bg (tk_cget c) = (if c \<noteq> log_alert_bg then log_alert_bg else log_base_bg)"
  by (simp add: toggle_bg_def tk_cget_def)

lemma flash_warning_no_faults [simp]:
  "faults s = [] \<Longrightarrow> flash_warning s =
     (if alert_active s
      then (Inr (), s\<lparr>status_fg := red, log_bg := toggle_bg (tk_cget (log_bg s)),
                      after_queue := after_queue s @ [(clock s + 500, Cb_flash_warning)]\<rparr>)
      else (Inr (), s))"
  by (simp add: flash_warning_def)

lemma trigger_alert_no_faults [simp]:
  "faults s = [] \<Longrightarrow> trigger_alert msg s =
     (Inr (), s\<lparr>alert_active := True, stop_alert_enabled := True,
        log_tags := (log_tags s)(''alert'' \<mapsto> ''#F44336''),
        log_text := log_text s @ log_pieces (clock s) msg ''alert'',
        log_file := log_file s @ [log_record_of (clock s) msg ''alert''],
        music_loaded := (sound_var s \<or> music_loaded s),
        music_playing := (sound_var s \<or> music_playing s),
        status_fg := red, log_bg := toggle_bg (tk_cget (log_bg s)),
        after_queue := after_queue s @ [(clock s + 500, Cb_flash_warning)],
        toasts := toasts s @ [Toast_alert msg]\<rparr>)"
  by (simp add: trigger_alert_def)

lemma stop_alert_no_faults [simp]:
  "faults s = [] \<Longrightarrow> stop_alert s =
     (Inr (), s\<lparr>alert_active := False, music_playing := False, stop_alert_enabled := False,
        status_fg := white, log_bg := log_base_bg,
        log_tags := (log_tags s)(''info'' \<mapsto> ''#4CAF50''),
        log_text := log_text s @ log_pieces (clock s) Msg_alert_disabled ''info'',
        log_file := log_file s @ [log_record_of (clock s) Msg_alert_disabled ''info''],
        toasts := toasts s @ [Toast_alert_off]\<rparr>)"
  by (simp add: stop_alert_def)

section \<open>Properties\<close>

definition same_alert_flag :: "app \<Rightarrow> app \<Rightarrow> bool" where
  "same_alert_flag s t \<longleftrightarrow> alert_active t = alert_active s"

lemma log_event_same_alert_flag: "keeps same_alert_flag (log_event msg level)"
  unfolding log_event_def
  by (auto intro!: keeps_intros simp: same_alert_flag_def split: prod.splits)

text \<open>C21: \<open>stop_alert\<close> clears the alert flag whichever of its library calls raises:
  the flag is written before the first of them (spec 4.3: dismissal sets the alert
  inactive).\<close>

theorem stop_alert_clears_flag: "\<not> alert_active (snd (stop_alert s))"
proof -
  let ?rest = "py_block [
     ext_call (\<lambda>s. s\<lparr>music_playing := False\<rparr>),
     ext_call (\<lambda>s. s\<lparr>stop_alert_enabled := False\<rparr>),
     ext_call (\<lambda>s. s\<lparr>status_fg := white\<rparr>),
     ext_call (\<lambda>s. s\<lparr>log_bg := log_base_bg\<rparr>),
     log_event Msg_alert_disabled ''info'',
     ext_call (\<lambda>s. s\<lparr>toasts := toasts s @ [Toast_alert_off]\<rparr>)]"
  have "keeps same_alert_flag ?rest"
    by (auto intro!: keeps_intros log_event_same_alert_flag simp: same_alert_flag_def)
  then have "alert_active (snd (?rest (s\<lparr>alert_active := False\<rparr>))) = False"
    by (simp add: keeps_def same_alert_flag_def)
  moreover have "stop_alert s = ?rest (s\<lparr>alert_active := False\<rparr>)"
    by (simp add: stop_alert_def)
  ultimately show ?thesis by simp
qed

text \<open>C22: when no library call fails, a second \<open>stop_alert\<close> leaves the alert's state
  (flag, music, button, colours) as the first left it, but logs "alert disabled" and
  shows its toast once more: it is idempotent on the alert, not on the log.\<close>

theorem stop_alert_twice:
  assumes "faults s = []" and "stop_alert s = (r1, s1)" and "stop_alert s1 = (r2, s2)"
  shows "r1 = Inr () \<and> r2 = Inr () \<and>
     (alert_active s2, music_playing s2, stop_alert_enabled s2, status_fg s2, log_bg s2) =
     (alert_active s1, music_playing s1, stop_alert_enabled s1, status_fg s1, log_bg s1) \<and>
     \<not> alert_active s2 \<and>
     log_text s2 = log_text s1 @ log_pieces (clock s) Msg_alert_disabled ''info'' \<and>
     toasts s2 = toasts s1 @ [Toast_alert_off]"
  using assms by auto

text \<open>C23: when no library call fails, \<open>trigger_alert\<close> raises the flag, enables the
  dismiss button, records the alert in the durable file, starts the alarm when sound is
  on, queues the first flashing step half a second later and shows the toast.\<close>

theorem trigger_alert_effect:
  assumes "faults s = []" and "trigger_alert msg s = (r, s')"
  shows "r = Inr () \<and> alert_active s' \<and> stop_alert_enabled s' \<and>
     music_playing s' = (sound_var s \<or> music_playing s) \<and>
     log_file s' = log_file s @ [Log_record (clock s) ''INFO'' Icon_alert msg] \<and>
     after_queue s' = after_queue s @ [(clock s + 500, Cb_flash_warning)] \<and>
     toasts s' = toasts s @ [Toast_alert msg]"
  using assms by (auto simp: log_record_of_def)

text \<open>C24: while the alert is active and no library call fails, every flashing step
  leaves the status label red, whatever colour it had: \<open>cget\<close> of the ttk label
  returns a \<open>Tcl_Obj\<close>, which is never equal to the string \<open>"#F44336"\<close>, so the
  status colour does not alternate as spec 4.3 says. The log background does
  alternate: each step changes it and two steps restore it.\<close>

theorem flash_warning_twice:
  assumes "faults s = []" and "alert_active s" and "log_bg s \<in> {log_alert_bg, log_base_bg}"
  shows "status_fg (snd (flash_warning s)) = red \<and>
         status_fg (snd (flash_warning (snd (flash_warning s)))) = red \<and>
         log_bg (snd (flash_warning s)) \<noteq> log_bg s \<and>
         log_bg (snd (flash_warning (snd (flash_warning s)))) = log_bg s"
  using assms by (auto simp: log_alert_bg_def log_base_bg_def)

section \<open>Durable file and incident counter\<close>

text \<open>Facts \<open>keeps grows\<close> of this theory's methods: whatever fails, the durable log
  file is only appended to and the incident counter never decreases.\<close>

lemma flash_warning_grows [grows_ops]: "keeps grows flash_warning"
  unfolding flash_warning_def
  by (auto intro!: keeps_intros intro: grows_trans simp: grows_def)

lemma trigger_alert_grows [grows_ops]: "keeps grows (trigger_alert msg)"
  unfolding trigger_alert_def
  by (auto intro!: keeps_intros grows_ops intro: grows_trans simp: grows_def)

lemma stop_alert_grows [grows_ops]: "keeps grows stop_alert"
  unfolding stop_alert_def
  by (auto intro!: keeps_intros grows_ops intro: grows_trans simp: grows_def)

section \<open>Witnesses\<close>

theorem stop_alert_twice_witness:
  "\<not> alert_active (snd (stop_alert (snd (stop_alert ((initial_app 0)\<lparr>alert_active := True\<rparr>))))) \<and>
   toasts (snd (stop_alert (snd (stop_alert ((initial_app 0)\<lparr>alert_active := True\<rparr>))))) =
     [Toast_alert_off, Toast_alert_off]"
  using stop_alert_twice [of "(initial_app 0)\<lparr>alert_active := True\<rparr>"
     "fst (stop_alert ((initial_app 0)\<lparr>alert_active := True\<rparr>))"
     "snd (stop_alert ((initial_app 0)\<lparr>alert_active := True\<rparr>))"
     "fst (stop_alert (snd (stop_alert ((initial_app 0)\<lparr>alert_active := True\<rparr>))))"
     "snd (stop_alert (snd (stop_alert ((initial_app 0)\<lparr>alert_active := True\<rparr>))))"]
  by (simp add: initial_app_def)

theorem trigger_alert_effect_witness:
  "music_playing (snd (trigger_alert Msg_security_alert (initial_app 0))) \<and>
   after_queue (snd (trigger_alert Msg_security_alert (initial_app 0))) = [(500, Cb_flash_warning)]"
  using trigger_alert_effect [of "initial_app 0" Msg_security_alert
     "fst (trigger_alert Msg_security_alert (initial_app 0))" "snd (trigger_alert Msg_security_alert (initial_app 0))"]
  by (simp add: initial_app_def)

theorem flash_warning_twice_witness:
  "status_fg (snd (flash_warning ((initial_app 0)\<lparr>alert_active := True, status_fg := red\<rparr>))) = red \<and>
   log_bg (snd (flash_warning (snd (flash_warning ((initial_app 0)\<lparr>alert_active := True, status_fg := red\<rparr>))))) =
     log_base_bg"
  using flash_warning_twice [of "(initial_app 0)\<lparr>alert_active := True, status_fg := red\<rparr>"]
  by (simp add: initial_app_def)

end
