(* ===== verification/Monitor.thy ===== *)
theory Monitor
  imports Alert
begin

text \<open>
  The monitoring loop \<open>check_security\<close> (src/alarm.py, lines 335--369), run by the
  worker thread that \<open>start_monitoring\<close> spawns. The thread's locals \<open>was_secure\<close> and
  \<open>start_time\<close> are the record \<open>worker\<close>. One iteration reads the battery and the
  slider (\<open>read_security\<close>), reacts to an edge of the verdict
  (\<open>security_transition\<close>), stores the verdict in \<open>was_secure\<close>, updates the elapsed
  time label and sleeps one second; an exception anywhere in it is caught, logged as a
  warning, and followed by a five second sleep (\<open>monitor_error\<close>), and the iteration
  ends with the locals as they were when it raised. An exception raised by the handler
  itself leaves the loop and ends the thread. \<open>check_security_loop\<close> runs the loop over
  the readings that successive iterations obtain, testing \<open>monitoring_active\<close> before
  each one.
\<close>

section \<open>The worker's locals\<close>

record worker =
  was_secure :: bool
  start_time :: nat

text \<open>Lines 337--338.\<close>

definition worker_start :: "nat \<Rightarrow> worker" where
  "worker_start now = \<lparr>was_secure = True, start_time = now\<rparr>"

section \<open>One iteration\<close>

text \<open>Lines 342--347: the psutil read, then the slider read only when there is a battery.\<close>

definition read_security :: "battery option \<Rightarrow> (app, bool) py" where
  "read_security bat = py_bind (ext_read (\<lambda>_. bat)) (\<lambda>battery.
     (let is_secure = (case battery of Some b \<Rightarrow> plugged_truthy b | None \<Rightarrow> True) in
      case battery of
        None \<Rightarrow> py_return is_secure
      | Some b \<Rightarrow> py_bind (ext_read sensitivity) (\<lambda>sens.
          py_return (if percent b < threshold sens then False else is_secure))))"

text \<open>Lines 349--357.\<close>

definition security_transition :: "bool \<Rightarrow> bool \<Rightarrow> (app, unit) py" where
  "security_transition was_sec is_sec =
     (if was_sec \<and> \<not> is_sec then py_block [
        py_modify (\<lambda>s. s\<lparr>incident_count := incident_count s + 1\<rparr>),
        py_bind (py_gets incident_count) (\<lambda>n. ext_call (\<lambda>s. s\<lparr>incident_label := n\<rparr>)),
        trigger_alert Msg_security_alert]
      else if \<not> was_sec \<and> is_sec then py_block [
        log_event Msg_back_to_normal ''info'',
        py_when alert_active stop_alert]
      else py_return ())"

text \<open>Lines 367--369.\<close>

definition monitor_error :: "exc \<Rightarrow> (app, unit) py" where
  "monitor_error e = py_block [log_event (Msg_monitor_error e) ''warning'', sleep 5000]"

text \<open>
  Lines 341--369. The assignment \<open>was_secure = is_secure\<close> (line 359) happens after the
  transition and before the time label update (lines 362--363) and the sleep: an
  exception before it leaves \<open>was_secure\<close> unchanged, one after it does not.
\<close>

definition check_security_iteration :: "worker \<Rightarrow> battery option \<Rightarrow> (app, worker) py" where
  "check_security_iteration w bat s =
     (case py_bind (read_security bat)
             (\<lambda>is_sec. py_then (security_transition (was_secure w) is_sec) (py_return is_sec)) s of
        (Inl e, s1) \<Rightarrow> py_then (monitor_error e) (py_return w) s1
      | (Inr is_sec, s1) \<Rightarrow>
          (let w' = w\<lparr>was_secure := is_sec\<rparr> in
           case py_block [
                  py_bind (py_gets clock)
                    (\<lambda>now. ext_call (\<lambda>s. s\<lparr>time_label := (now - start_time w) div 1000\<rparr>)),
                  sleep 1000] s1 of
             (Inl e, s2) \<Rightarrow> py_then (monitor_error e) (py_return w') s2
           | (Inr _, s2) \<Rightarrow> (Inr w', s2)))"

section \<open>The loop\<close>

text \<open>
  \<open>while self.monitoring_active:\<close> over the readings of successive iterations. The list
  bounds the number of iterations observed; the loop stops earlier when the flag is
  found false, and an exception that escapes the handler ends the thread.
\<close>

fun check_security_loop :: "worker \<Rightarrow> battery option list \<Rightarrow> (app, worker) py" where
  "check_security_loop w [] = py_return w"
| "check_security_loop w (bat # bats) =
     py_if monitoring_active
       (py_bind (check_security_iteration w bat) (\<lambda>w'. check_security_loop w' bats))
       (py_return w)"

text \<open>Lines 335--369: the thread body, from its start.\<close>

definition check_security :: "battery option list \<Rightarrow> (app, worker) py" where
  "check_security bats = py_bind (py_gets clock) (\<lambda>now. check_security_loop (worker_start now) bats)"

section \<open>Effects when no library call fails\<close>

lemma read_security_no_faults [simp]:
  "faults s = [] \<Longrightarrow> read_security bat s = (Inr (secure_verdict bat (sensitivity s)), s)"
  by (cases bat) (auto simp: read_security_def secure_verdict_def)

text \<open>The state after an edge's reaction, when nothing fails.\<close>

definition transition_state :: "bool \<Rightarrow> bool \<Rightarrow> app \<Rightarrow> app" where
  "transition_state was_sec is_sec s =
     (if was_sec \<and> \<not> is_sec
      then snd (trigger_alert Msg_security_alert
              (s\<lparr>incident_count := incident_count s + 1, incident_label := incident_count s + 1\<rparr>))
      else if \<not> was_sec \<and> is_sec
      then (let s1 = snd (log_event Msg_back_to_normal ''info'' s) in
            if alert_active s1 then snd (stop_alert s1) else s1)
      else s)"

lemma security_transition_no_faults [simp]:
  "faults s = [] \<Longrightarrow> security_transition was_sec is_sec s = (Inr (), transition_state was_sec is_sec s)"
  by (simp add: security_transition_def transition_state_def)

lemma transition_state_fields [simp]:
  assumes "faults s = []"
  shows "faults (transition_state was_sec is_sec s) = []"
    and "monitoring_active (transition_state was_sec is_sec s) = monitoring_active s"
    and "sensitivity (transition_state was_sec is_sec s) = sensitivity s"
    and "incident_count (transition_state was_sec is_sec s) =
           (if was_sec \<and> \<not> is_sec then incident_count s + 1 else incident_count s)"
    and "alert_active (transition_state was_sec is_sec s) =
           (if was_sec \<and> \<not> is_sec then True else if \<not> was_sec \<and> is_sec then False
            else alert_active s)"
  using assms by (simp_all add: transition_state_def Let_def)

text \<open>The state after a whole iteration, when nothing fails.\<close>

definition iteration_state :: "worker \<Rightarrow> battery option \<Rightarrow> app \<Rightarrow> app" where
  "iteration_state w bat s =
     (let s1 = transition_state (was_secure w) (secure_verdict bat (sensitivity s)) s in
      s1\<lparr>time_label := (clock s1 - start_time w) div 1000, clock := clock s1 + 1000\<rparr>)"

lemma check_security_iteration_no_faults [simp]:
  "faults s = [] \<Longrightarrow> check_security_iteration w bat s =
     (Inr (w\<lparr>was_secure := secure_verdict bat (sensitivity s)\<rparr>), iteration_state w bat s)"
  by (simp add: check_security_iteration_def iteration_state_def Let_def)

lemma iteration_state_fields [simp]:
  assumes "faults s = []"
  shows "faults (iteration_state w bat s) = []"
    and "monitoring_active (iteration_state w bat s) = monitoring_active s"
    and "sensitivity (iteration_state w bat s) = sensitivity s"
    and "incident_count (iteration_state w bat s) =
           (if was_secure w \<and> \<not> secure_verdict bat (sensitivity s)
            then incident_count s + 1 else incident_count s)"
    and "alert_active (iteration_state w bat s) =
           (if was_secure w \<and> \<not> secure_verdict bat (sensitivity s) then True
            else if \<not> was_secure w \<and> secure_verdict bat (sensitivity s) then False
            else alert_active s)"
  using assms by (simp_all add: iteration_state_def Let_def)

section \<open>Durable file and incident counter\<close>

text \<open>Facts \<open>keeps grows\<close> of this theory's methods: whatever fails, the durable log
  file is only appended to and the incident counter never decreases.\<close>

lemma read_security_grows [grows_ops]: "keeps grows (read_security bat)"
  unfolding read_security_def
  by (auto intro!: keeps_intros intro: grows_trans simp: grows_def split: option.splits)

lemma security_transition_grows [grows_ops]: "keeps grows (security_transition was_sec is_sec)"
  unfolding security_transition_def
  by (auto intro!: keeps_intros grows_ops intro: grows_trans simp: grows_def)

lemma monitor_error_grows [grows_ops]: "keeps grows (monitor_error e)"
  unfolding monitor_error_def
  by (auto intro!: keeps_intros grows_ops intro: grows_trans simp: grows_def)

text \<open>A relation kept by the sensor read, by the reactions to an edge and by the except
  handler, and by the time label update and the sleep, is kept by the whole iteration,
  whichever call raises and wherever.\<close>

lemma keeps_check_security_iteration:
  assumes trans: "\<And>s t u. R s t \<Longrightarrow> R t u \<Longrightarrow> R s u" and refl: "\<And>s. R s s"
    and tl: "\<And>s. R s (s\<lparr>faults := tl (faults s)\<rparr>)"
    and label: "\<And>s x. R s (s\<lparr>time_label := x\<rparr>)" and clk: "\<And>s. R s (s\<lparr>clock := clock s + 1000\<rparr>)"
    and read: "keeps R (read_security bat)" and react: "\<And>a b. keeps R (security_transition a b)"
    and handler: "\<And>e. keeps R (monitor_error e)"
  shows "keeps R (check_security_iteration w bat)"
proof -
  let ?body = "py_bind (read_security bat)
             (\<lambda>is_sec. py_then (security_transition (was_secure w) is_sec) (py_return is_sec))"
  let ?tail = "\<lambda>w. py_block [
                  py_bind (py_gets clock)
                    (\<lambda>now. ext_call (\<lambda>s. s\<lparr>time_label := (now - start_time w) div 1000\<rparr>)),
                  sleep 1000]"
  have body: "keeps R ?body"
    using trans refl read react by (auto intro!: keeps_intros)
  have tail: "keeps R (?tail w')" for w'
    using trans refl tl label clk by (auto intro!: keeps_intros)
  have exc: "keeps R (py_then (monitor_error e) (py_return x))" for e and x :: worker
    using trans refl handler by (auto intro!: keeps_intros)
  show ?thesis
    unfolding keeps_def
  proof
    fix s
    obtain r1 s1 where r1: "?body s = (r1, s1)" by (cases "?body s")
    with body have g1: "R s s1" by (rule keepsD)
    show "R s (snd (check_security_iteration w bat s))"
    proof (cases r1)
      case (Inl e)
      with r1 have "check_security_iteration w bat s = py_then (monitor_error e) (py_return w) s1"
        by (simp add: check_security_iteration_def)
      with g1 exc show ?thesis by (metis trans keeps_def)
    next
      case (Inr is_sec)
      obtain r2 s2 where r2: "?tail w s1 = (r2, s2)" by (cases "?tail w s1")
      with tail have g2: "R s1 s2" by (rule keepsD)
      show ?thesis
      proof (cases r2)
        case (Inl e)
        with r1 r2 Inr have "check_security_iteration w bat s =
            py_then (monitor_error e) (py_return (w\<lparr>was_secure := is_sec\<rparr>)) s2"
          by (simp add: check_security_iteration_def Let_def)
        with g1 g2 exc show ?thesis by (metis trans keeps_def)
      next
        case (Inr u)
        with r1 r2 \<open>r1 = Inr is_sec\<close> have "snd (check_security_iteration w bat s) = s2"
          by (simp add: check_security_iteration_def Let_def)
        with g1 g2 show ?thesis by (metis trans)
      qed
    qed
  qed
qed

lemma check_security_iteration_grows [grows_ops]: "keeps grows (check_security_iteration w bat)"
  by (rule keeps_check_security_iteration) (auto intro: grows_trans grows_ops simp: grows_def)

end
