(* ===== verification/SecuritySpec.thy ===== *)
theory SecuritySpec
  imports Monitor
begin

text \<open>
  The abstract security state machine of the specification (spec.md, sections 3,
  4.2 and 4.3): a status \<open>Secure\<close>/\<open>Compromised\<close>, an incident counter and the alert
  flag, with one evaluation step per sample. It is stated from the spec, not from the
  code. The refinement lemmas show that the worker's loop implements it: when no library
  call fails, one iteration of \<open>check_security\<close> moves the abstraction of the concrete
  state exactly as \<open>spec_evaluate\<close> moves the abstract one, and so does a whole run.
  From the abstract machine follow the counting properties of spec section 8; the
  scenario of that section (\<open>scenario_start\<close>, \<open>scenario_readings\<close>) is the
  witness of the refinement theorems.
\<close>

section \<open>The abstract machine\<close>

datatype security_status = Secure | Compromised

record spec_state =
  status :: security_status
  incidents :: nat
  alert_on :: bool

lemma security_status_neq [simp]:
  "(x \<noteq> Compromised) = (x = Secure)" "(x \<noteq> Secure) = (x = Compromised)"
  by (cases x; simp)+

text \<open>Spec 4.2: the policy, in the spec's words.\<close>

definition spec_policy :: "battery option \<Rightarrow> real \<Rightarrow> bool" where
  "spec_policy bat sens =
     (case bat of None \<Rightarrow> True
      | Some b \<Rightarrow> power_plugged b = Some True \<and> (11 - sens) * 10 \<le> percent b)"

text \<open>Spec 4.2 and 4.3: an edge to \<open>Compromised\<close> counts an incident and raises the
  alert; an edge to \<open>Secure\<close> clears it; no edge, no change.\<close>

definition spec_evaluate :: "real \<Rightarrow> battery option \<Rightarrow> spec_state \<Rightarrow> spec_state" where
  "spec_evaluate sens bat st =
     (let secure = spec_policy bat sens in
      if status st = Secure \<and> \<not> secure
      then st\<lparr>status := Compromised, incidents := incidents st + 1, alert_on := True\<rparr>
      else if status st = Compromised \<and> secure
      then st\<lparr>status := Secure, alert_on := False\<rparr>
      else st)"

definition spec_run :: "real \<Rightarrow> battery option list \<Rightarrow> spec_state \<Rightarrow> spec_state" where
  "spec_run sens bats st = fold (spec_evaluate sens) bats st"

text \<open>The number of \<open>Secure \<rightarrow> Compromised\<close> edges of a sequence of verdicts.\<close>

fun rising_edges :: "bool \<Rightarrow> bool list \<Rightarrow> nat" where
  "rising_edges prev [] = 0"
| "rising_edges prev (x # xs) = (if prev \<and> \<not> x then 1 else 0) + rising_edges x xs"

section \<open>Abstraction of the concrete state\<close>

definition abs_monitor :: "app \<Rightarrow> worker \<Rightarrow> spec_state" where
  "abs_monitor s w =
     \<lparr>status = (if was_secure w then Secure else Compromised),
      incidents = incident_count s, alert_on = alert_active s\<rparr>"

lemma abs_monitor_eq_iff:
  "abs_monitor s w = st \<longleftrightarrow>
     status st = (if was_secure w then Secure else Compromised) \<and>
     incidents st = incident_count s \<and> alert_on st = alert_active s"
  by (cases st) (auto simp: abs_monitor_def)

lemma spec_policy_secure_verdict [simp]: "spec_policy bat sens = secure_verdict bat sens"
  by (cases bat) (auto simp: spec_policy_def plugged_truthy_def threshold_def)

lemma spec_run_Cons [simp]:
  "spec_run sens (bat # bats) st = spec_run sens bats (spec_evaluate sens bat st)"
  by (simp add: spec_run_def)

lemma spec_run_Nil [simp]: "spec_run sens [] st = st"
  by (simp add: spec_run_def)

section \<open>Refinement\<close>

lemma iteration_refines:
  "faults s = [] \<Longrightarrow>
   abs_monitor (iteration_state w bat s) (w\<lparr>was_secure := secure_verdict bat (sensitivity s)\<rparr>) =
   spec_evaluate (sensitivity s) bat (abs_monitor s w)"
  by (auto simp: abs_monitor_def spec_evaluate_def Let_def)

text \<open>C37: one iteration of the worker's loop refines one step of the abstract machine.\<close>

theorem check_security_iteration_refines:
  assumes "faults s = []"
  shows "\<exists>w' s'. check_security_iteration w bat s = (Inr w', s') \<and> faults s' = [] \<and>
           abs_monitor s' w' = spec_evaluate (sensitivity s) bat (abs_monitor s w)"
  using assms iteration_refines by simp

text \<open>A run of the loop, while the flag stays set, when nothing fails.\<close>

lemma check_security_loop_no_faults:
  "faults s = [] \<Longrightarrow> monitoring_active s \<Longrightarrow>
   \<exists>w' s'. check_security_loop w bats s = (Inr w', s') \<and> faults s' = [] \<and>
     monitoring_active s' \<and> sensitivity s' = sensitivity s \<and>
     abs_monitor s' w' = spec_run (sensitivity s) bats (abs_monitor s w)"
proof (induction bats arbitrary: w s)
  case Nil
  then show ?case by simp
next
  case (Cons bat bats)
  let ?w1 = "w\<lparr>was_secure := secure_verdict bat (sensitivity s)\<rparr>"
  let ?s1 = "iteration_state w bat s"
  have s1: "faults ?s1 = []" "monitoring_active ?s1" "sensitivity ?s1 = sensitivity s"
    using Cons.prems by simp_all
  from Cons.IH [OF s1(1,2)] obtain w' s' where
    run: "check_security_loop ?w1 bats ?s1 = (Inr w', s')" "faults s' = []"
      "monitoring_active s'" "sensitivity s' = sensitivity ?s1"
      "abs_monitor s' w' = spec_run (sensitivity ?s1) bats (abs_monitor ?s1 ?w1)"
    by blast
  have "check_security_loop w (bat # bats) s = (Inr w', s')"
    using Cons.prems run(1) by simp
  with run s1 Cons.prems show ?case
    by (simp add: iteration_refines)
qed

lemma check_security_abs_run:
  assumes "faults s = []" and "monitoring_active s"
  shows "\<exists>w' s'. check_security bats s = (Inr w', s') \<and>
           abs_monitor s' w' = spec_run (sensitivity s) bats
                                 \<lparr>status = Secure, incidents = incident_count s, alert_on = alert_active s\<rparr>"
proof -
  obtain w' s' where "check_security_loop (worker_start (clock s)) bats s = (Inr w', s')"
      "abs_monitor s' w' = spec_run (sensitivity s) bats (abs_monitor s (worker_start (clock s)))"
    using check_security_loop_no_faults [OF assms] by blast
  then show ?thesis
    by (simp add: check_security_def abs_monitor_def worker_start_def)
qed

text \<open>C1: when no library call fails, the thread body \<open>check_security\<close>, started
  with monitoring on, refines the abstract machine run from \<open>Secure\<close> over the same
  readings: it returns normally, and its verdict, incident count and alert flag are
  those of \<open>spec_run\<close>.\<close>

theorem check_security_refines:
  assumes "faults s = []" and "monitoring_active s"
  shows "\<exists>w' s'. check_security bats s = (Inr w', s') \<and>
           abs_monitor s' w' = spec_run (sensitivity s) bats
                                 \<lparr>status = Secure, incidents = incident_count s, alert_on = alert_active s\<rparr>"
  using assms by (rule check_security_abs_run)

section \<open>Counting incidents\<close>

lemma spec_run_incidents:
  "incidents (spec_run sens bats st) =
     incidents st + rising_edges (status st = Secure) (map (\<lambda>b. spec_policy b sens) bats)"
  by (induction bats arbitrary: st) (auto simp: spec_evaluate_def Let_def)

lemma spec_run_all_insecure:
  "\<forall>b \<in> set bats. \<not> secure_verdict b sens \<Longrightarrow> bats \<noteq> [] \<Longrightarrow>
   spec_run sens bats st =
     (if status st = Secure then st\<lparr>status := Compromised, incidents := incidents st + 1, alert_on := True\<rparr>
      else st)"
proof (induction bats arbitrary: st)
  case Nil
  then show ?case by simp
next
  case (Cons b bats)
  then show ?case
    by (cases "bats = []") (auto simp: spec_evaluate_def Let_def)
qed

text \<open>C2: when no library call fails, the incident counter grows by exactly the number of
  \<open>Secure \<rightarrow> Compromised\<close> edges of the verdicts the loop computes, starting from
  \<open>Secure\<close> (the initial \<open>was_secure = True\<close>).\<close>

theorem check_security_counts_edges:
  assumes "faults s = []" and "monitoring_active s" and "check_security bats s = (r, s')"
  shows "incident_count s' =
           incident_count s + rising_edges True (map (\<lambda>b. secure_verdict b (sensitivity s)) bats)"
proof -
  obtain w' s'' where run: "check_security bats s = (Inr w', s'')"
      "abs_monitor s'' w' = spec_run (sensitivity s) bats
                              \<lparr>status = Secure, incidents = incident_count s, alert_on = alert_active s\<rparr>"
    using check_security_abs_run [OF assms(1,2)] by blast
  with assms(3) have "s'' = s'" by simp
  with run(2) show ?thesis by (simp add: abs_monitor_eq_iff spec_run_incidents)
qed

text \<open>C3: a run of compromised samples, however long, counts one incident and leaves the
  alert raised (spec section 8: no double counting on repeated compromised ticks).\<close>

theorem check_security_compromised_once:
  assumes "faults s = []" and "monitoring_active s" and "bats \<noteq> []"
    and "\<forall>b \<in> set bats. \<not> secure_verdict b (sensitivity s)"
    and "check_security bats s = (r, s')"
  shows "incident_count s' = incident_count s + 1 \<and> alert_active s'"
proof -
  obtain w' s'' where run: "check_security bats s = (Inr w', s'')"
      "abs_monitor s'' w' = spec_run (sensitivity s) bats
                              \<lparr>status = Secure, incidents = incident_count s, alert_on = alert_active s\<rparr>"
    using check_security_abs_run [OF assms(1,2)] by blast
  with assms(5) have "s'' = s'" by simp
  with run(2) spec_run_all_insecure [OF assms(4,3)] show ?thesis
    by (simp add: abs_monitor_def)
qed

section \<open>The scenario of spec section 8\<close>

text \<open>Monitoring running from a fresh start, slider at 5 (threshold 60).\<close>

definition scenario_start :: app where
  "scenario_start = (initial_app 0)\<lparr>monitoring_active := True\<rparr>"

definition scenario_readings :: "battery option list" where
  "scenario_readings = [Some \<lparr>percent = 70, power_plugged = Some True\<rparr>,
     Some \<lparr>percent = 50, power_plugged = Some True\<rparr>,
     Some \<lparr>percent = 50, power_plugged = Some False\<rparr>,
     Some \<lparr>percent = 80, power_plugged = Some True\<rparr>]"

lemma scenario_start_fields [simp]:
  "faults scenario_start = []" "monitoring_active scenario_start" "sensitivity scenario_start = 5"
  "incident_count scenario_start = 0" "alert_active scenario_start = False"
  by (simp_all add: scenario_start_def initial_app_def)

section \<open>Witnesses\<close>

theorem check_security_iteration_refines_witness:
  "faults scenario_start = [] \<and>
   (\<exists>w' s'. check_security_iteration (worker_start 0) (hd scenario_readings) scenario_start = (Inr w', s') \<and>
      faults s' = [] \<and> abs_monitor s' w' = spec_evaluate 5 (hd scenario_readings) (abs_monitor scenario_start (worker_start 0)))"
  using check_security_iteration_refines [of scenario_start "worker_start 0" "hd scenario_readings"] by simp

theorem check_security_refines_witness:
  "faults scenario_start = [] \<and> monitoring_active scenario_start \<and>
   (\<exists>w' s'. check_security scenario_readings scenario_start = (Inr w', s') \<and>
      abs_monitor s' w' = spec_run 5 scenario_readings \<lparr>status = Secure, incidents = 0, alert_on = False\<rparr>)"
  using check_security_refines [of scenario_start scenario_readings] by simp

theorem check_security_counts_edges_witness:
  "incident_count (snd (check_security scenario_readings scenario_start)) = 1"
  using check_security_counts_edges [of scenario_start scenario_readings
     "fst (check_security scenario_readings scenario_start)" "snd (check_security scenario_readings scenario_start)"]
  by (simp add: scenario_readings_def threshold_def plugged_truthy_def)

theorem check_security_compromised_once_witness:
  "incident_count (snd (check_security (replicate 3 (Some \<lparr>percent = 50, power_plugged = Some False\<rparr>)) scenario_start)) = 1 \<and>
   alert_active (snd (check_security (replicate 3 (Some \<lparr>percent = 50, power_plugged = Some False\<rparr>)) scenario_start))"
  using check_security_compromised_once [of scenario_start "replicate 3 (Some \<lparr>percent = 50, power_plugged = Some False\<rparr>)"
     "fst (check_security (replicate 3 (Some \<lparr>percent = 50, power_plugged = Some False\<rparr>)) scenario_start)"
     "snd (check_security (replicate 3 (Some \<lparr>percent = 50, power_plugged = Some False\<rparr>)) scenario_start)"]
  by (simp add: plugged_truthy_def)

end
