(* ===== verification/MonitorFaults.thy ===== *)
theory MonitorFaults
  imports SecuritySpec
begin

text \<open>
  What the monitoring loop does when library calls raise (src/alarm.py, lines
  335--392). The spec (section 7) promises that a failed sensor read is logged as a
  warning and followed by a five second back-off, that an audio error leaves the alert
  in its visual form, and that no error inside the loop ends it. The first two hold of
  the code. The other theorems show where the code departs from the spec's state
  machine: the \<open>was_secure\<close> assignment of line 359 is skipped when the edge's reaction
  raises, so the next compromised sample counts the same incident again, and an alert
  whose reaction raised late keeps sounding after the battery is secure again; and an
  exception raised by the handler's own \<open>log_event\<close> escapes the loop and ends the
  thread while \<open>monitoring_active\<close> stays true.
\<close>

lemma read_security_Some_ok:
  "faults s = None # None # rest \<Longrightarrow>
   read_security (Some b) s = (Inr (secure_verdict (Some b) (sensitivity s)), s\<lparr>faults := rest\<rparr>)"
  by (simp add: read_security_def fault_defs secure_verdict_def)

lemma replicate_16_None:
  "replicate 16 None @ [Some e] =
   [None, None, None, None, None, None, None, None, None, None, None, None, None, None, None, None, Some e]"
  by (simp add: eval_nat_numeral)

section \<open>The errors the spec describes\<close>

text \<open>C17: a sensor read that raises is caught: the warning is logged on screen and in the
  file, the loop sleeps five seconds, and the thread's locals are unchanged.\<close>

theorem sampling_error_backs_off:
  assumes "faults s = [Some e]"
  shows "check_security_iteration w bat s =
     (Inr w, s\<lparr>faults := [], log_tags := (log_tags s)(''warning'' \<mapsto> ''#FFC107''),
               log_text := log_text s @ log_pieces (clock s) (Msg_monitor_error e) ''warning'',
               log_file := log_file s @ [log_record_of (clock s) (Msg_monitor_error e) ''warning''],
               clock := clock s + 5000\<rparr>)"
  using assms by (simp add: check_security_iteration_def read_security_def monitor_error_def fault_defs)

text \<open>C18: when loading the alarm sound raises, the alert is still raised: the flag is set,
  the alert and the audio warning are logged, the flashing is queued; the music is left
  as it was.\<close>

theorem audio_error_keeps_alert:
  assumes "faults s = replicate 7 None @ [Some e]" and "sound_var s"
  shows "\<exists>s'. security_transition True False s = (Inr (), s') \<and> alert_active s' \<and>
     music_playing s' = music_playing s \<and>
     log_text s' = log_text s @ log_pieces (clock s) Msg_security_alert ''alert''
                              @ log_pieces (clock s) (Msg_audio_error e) ''warning'' \<and>
     (clock s + 500, Cb_flash_warning) \<in> set (after_queue s')"
  using assms
  by (simp add: security_transition_def trigger_alert_def flash_warning_def log_event_def fault_defs
      log_pieces_def numeral_eq_Suc)

section \<open>Where the code departs from the state machine\<close>

text \<open>C11: a Tk error while the first incident is reported (the incident label update)
  skips \<open>was_secure = is_secure\<close>, so the next compromised sample counts the same
  incident a second time.\<close>

theorem fault_in_report_counts_twice:
  assumes "faults s = [None, None, Some e]" and "monitoring_active s" and "was_secure w"
    and "\<not> secure_verdict (Some b) (sensitivity s)"
  shows "\<exists>w' s'. check_security_loop w [Some b, Some b] s = (Inr w', s') \<and>
           incident_count s' = incident_count s + 2"
  using assms
  by (simp add: read_security_Some_ok check_security_iteration_def security_transition_def
      monitor_error_def fault_defs iteration_state_def transition_state_def del: secure_verdict_Some)

lemma alert_raised_then_toast_fails:
  assumes "faults s = replicate 16 None @ [Some e]" and "sound_var s"
    and "was_secure w" and "\<not> secure_verdict (Some b) (sensitivity s)"
  shows "\<exists>s1. check_security_iteration w (Some b) s = (Inr w, s1) \<and> faults s1 = [] \<and>
     alert_active s1 \<and> music_playing s1 \<and> incident_count s1 = incident_count s + 1 \<and>
     monitoring_active s1 = monitoring_active s \<and> sensitivity s1 = sensitivity s"
  using assms
  by (simp add: replicate_16_None read_security_Some_ok check_security_iteration_def
      security_transition_def monitor_error_def trigger_alert_def flash_warning_def log_event_def
      fault_defs del: secure_verdict_Some)

text \<open>C12: when the alert's toast raises after the alarm has started, the thread still
  believes the machine secure; when the next sample is secure there is no edge, and the
  alert stays raised with the alarm looping although the battery is fine.\<close>

theorem fault_in_alert_leaves_alarm_on:
  assumes "faults s = replicate 16 None @ [Some e]" and "monitoring_active s" and "sound_var s"
    and "was_secure w" and "\<not> secure_verdict (Some b) (sensitivity s)"
    and "secure_verdict (Some b') (sensitivity s)"
  shows "\<exists>w' s'. check_security_loop w [Some b, Some b'] s = (Inr w', s') \<and>
           was_secure w' \<and> alert_active s' \<and> music_playing s' \<and>
           incident_count s' = incident_count s + 1"
proof -
  obtain s1 where s1: "check_security_iteration w (Some b) s = (Inr w, s1)" "faults s1 = []"
    "alert_active s1" "music_playing s1" "incident_count s1 = incident_count s + 1"
    "monitoring_active s1 = monitoring_active s" "sensitivity s1 = sensitivity s"
    using alert_raised_then_toast_fails [OF assms(1,3,4,5)] by blast
  have "music_playing (iteration_state w (Some b') s1)"
    using s1 assms(4,6) by (simp add: iteration_state_def transition_state_def)
  with s1 assms show ?thesis by simp
qed

text \<open>C13: an exception raised by the handler's own \<open>log_event\<close> leaves the loop: the
  thread ends with the exception while \<open>monitoring_active\<close> stays true.\<close>

theorem handler_error_ends_thread:
  assumes "faults s = [Some e1, Some e2]" and "monitoring_active s"
  shows "\<exists>s'. check_security_loop w (bat # bats) s = (Inl e2, s') \<and> monitoring_active s'"
  using assms
  by (simp add: check_security_iteration_def read_security_def monitor_error_def fault_defs log_event_def)

section \<open>Witnesses\<close>

definition low_unplugged :: battery where
  "low_unplugged = \<lparr>percent = 50, power_plugged = Some False\<rparr>"

definition full_plugged :: battery where
  "full_plugged = \<lparr>percent = 80, power_plugged = Some True\<rparr>"

theorem sampling_error_backs_off_witness:
  "check_security_iteration (worker_start 0) (Some low_unplugged) (scenario_start\<lparr>faults := [Some Psutil_error]\<rparr>) =
   (Inr (worker_start 0), scenario_start\<lparr>faults := [], log_tags := initial_tags(''warning'' \<mapsto> ''#FFC107''),
      log_text := log_pieces 0 (Msg_monitor_error Psutil_error) ''warning'',
      log_file := [log_record_of 0 (Msg_monitor_error Psutil_error) ''warning''], clock := 5000\<rparr>)"
  using sampling_error_backs_off [of "scenario_start\<lparr>faults := [Some Psutil_error]\<rparr>" Psutil_error
      "worker_start 0" "Some low_unplugged"]
  by (simp add: scenario_start_def initial_app_def)

theorem audio_error_keeps_alert_witness:
  "\<exists>s'. security_transition True False (scenario_start\<lparr>faults := replicate 7 None @ [Some Pygame_error]\<rparr>) = (Inr (), s') \<and>
     alert_active s' \<and> \<not> music_playing s' \<and> (500, Cb_flash_warning) \<in> set (after_queue s')"
  using audio_error_keeps_alert [of "scenario_start\<lparr>faults := replicate 7 None @ [Some Pygame_error]\<rparr>" Pygame_error]
  by (auto simp: scenario_start_def initial_app_def)

theorem fault_in_report_counts_twice_witness:
  "\<exists>w' s'. check_security_loop (worker_start 0) [Some low_unplugged, Some low_unplugged]
       (scenario_start\<lparr>faults := [None, None, Some Tcl_error]\<rparr>) = (Inr w', s') \<and> incident_count s' = 2"
  using fault_in_report_counts_twice [of "scenario_start\<lparr>faults := [None, None, Some Tcl_error]\<rparr>" Tcl_error
      "worker_start 0" low_unplugged]
  by (simp add: worker_start_def low_unplugged_def plugged_truthy_def numeral_2_eq_2)

theorem fault_in_alert_leaves_alarm_on_witness:
  "\<exists>w' s'. check_security_loop (worker_start 0) [Some low_unplugged, Some full_plugged]
       (scenario_start\<lparr>faults := replicate 16 None @ [Some Tcl_error]\<rparr>) = (Inr w', s') \<and>
     was_secure w' \<and> alert_active s' \<and> music_playing s' \<and> incident_count s' = 1"
  using fault_in_alert_leaves_alarm_on [of "scenario_start\<lparr>faults := replicate 16 None @ [Some Tcl_error]\<rparr>" Tcl_error
      "worker_start 0" low_unplugged full_plugged]
  by (simp add: worker_start_def low_unplugged_def full_plugged_def plugged_truthy_def threshold_def
      scenario_start_def initial_app_def)

theorem handler_error_ends_thread_witness:
  "\<exists>s'. check_security_loop (worker_start 0) [None] (scenario_start\<lparr>faults := [Some Psutil_error, Some Tcl_error]\<rparr>) =
     (Inl Tcl_error, s') \<and> monitoring_active s'"
  using handler_error_ends_thread [of "scenario_start\<lparr>faults := [Some Psutil_error, Some Tcl_error]\<rparr>"
      Psutil_error Tcl_error "worker_start 0" None "[]"]
  by simp

end
