(* ===== verification/Lifecycle.thy ===== *)
theory Lifecycle
  imports Alert
begin

text \<open>
  The monitoring lifecycle (src/alarm.py): \<open>toggle_monitoring\<close> (lines 428--433)
  switches between \<open>start_monitoring\<close> (lines 435--464), which sets the flag, updates
  the widgets, starts the progress animation \<open>animate_startup\<close> (lines 466--477) and
  the worker thread, and \<open>stop_monitoring\<close> (lines 479--504), which clears the flag,
  dismisses an active alert and logs. \<open>on_closing\<close> (lines 531--554) asks for
  confirmation while monitoring and then shuts the program down; \<open>run\<close>,
  \<open>show_splash_screen\<close> and \<open>finish_startup\<close> (lines 556--626) show the splash screen,
  centred on the screen, and log the start. Starting a thread is modelled by \<open>monitor_thread\<close>, the number of
  threads started; the thread itself is the worker of theory Monitor, run by the
  interleaving model of theory System.
\<close>

section \<open>Startup animation\<close>

text \<open>\<open>animate_progress(step)\<close>, lines 468--474: one callback of the chain.\<close>

definition animate_progress :: "nat \<Rightarrow> (app, unit) py" where
  "animate_progress step = py_if (\<lambda>s. step < 100 \<and> monitoring_active s)
     (py_block [ext_call (\<lambda>s. s\<lparr>progress_value := step\<rparr>),
                after 20 (Cb_animate_progress (step + 2))])
     (py_block [ext_call (\<lambda>s. s\<lparr>progress_mode := Indeterminate\<rparr>),
                ext_call (\<lambda>s. s\<lparr>progress_running := True\<rparr>)])"

text \<open>Lines 466--477.\<close>

definition animate_startup :: "(app, unit) py" where
  "animate_startup = py_block [
     ext_call (\<lambda>s. s\<lparr>progress_mode := Determinate, progress_value := 0\<rparr>),
     animate_progress 0]"


section \<open>Start, stop, toggle\<close>

text \<open>Lines 435--464. The thread's \<open>start()\<close> is a library call like the others.\<close>

definition start_monitoring :: "(app, unit) py" where
  "start_monitoring = py_block [
     py_modify (\<lambda>s. s\<lparr>monitoring_active := True\<rparr>),
     ext_call (\<lambda>s. s\<lparr>progress_running := True\<rparr>),
     ext_call (\<lambda>s. s\<lparr>start_button := Face_stop\<rparr>),
     ext_call (\<lambda>s. s\<lparr>status_text := Status_active, status_fg := green\<rparr>),
     animate_startup,
     log_event Msg_monitoring_on ''info'',
     ext_call (\<lambda>s. s\<lparr>toasts := toasts s @ [Toast_monitoring_on]\<rparr>),
     ext_call (\<lambda>s. s\<lparr>monitor_thread := monitor_thread s + 1\<rparr>)]"

text \<open>Lines 479--504.\<close>

definition stop_monitoring :: "(app, unit) py" where
  "stop_monitoring = py_block [
     py_modify (\<lambda>s. s\<lparr>monitoring_active := False\<rparr>),
     ext_call (\<lambda>s. s\<lparr>progress_running := False\<rparr>),
     ext_call (\<lambda>s. s\<lparr>start_button := Face_start\<rparr>),
     ext_call (\<lambda>s. s\<lparr>status_text := Status_inactive, status_fg := white\<rparr>),
     py_when alert_active stop_alert,
     log_event Msg_monitoring_off ''info'',
     ext_call (\<lambda>s. s\<lparr>toasts := toasts s @ [Toast_monitoring_off]\<rparr>)]"

text \<open>Lines 428--433.\<close>

definition toggle_monitoring :: "(app, unit) py" where
  "toggle_monitoring = py_if (\<lambda>s. \<not> monitoring_active s) start_monitoring stop_monitoring"

section \<open>Closing and startup\<close>

text \<open>
  Lines 543--554: the shutdown. \<open>mixer.quit()\<close> stops the music; \<open>sys.exit(0)\<close> raises
  \<open>SystemExit\<close>, which Tkinter lets through its callback wrapper: the process ends
  with status 0.
\<close>

definition shutdown :: "(app, unit) py" where
  "shutdown = py_block [
     py_modify (\<lambda>s. s\<lparr>monitoring_active := False\<rparr>),
     py_when alert_active stop_alert,
     log_event Msg_shutdown ''info'',
     ext_call (\<lambda>s. s\<lparr>mixer_ready := False, music_playing := False\<rparr>),
     ext_call (\<lambda>s. s\<lparr>window_open := False\<rparr>),
     py_modify (\<lambda>s. s\<lparr>exit_status := Some 0\<rparr>)]"

text \<open>Lines 531--554; \<open>answer\<close> is the label of the button pressed, \<open>None\<close> if the
  dialog was closed.\<close>

definition on_closing :: "string option \<Rightarrow> (app, unit) py" where
  "on_closing answer = py_if monitoring_active
     (py_bind (ext_read (\<lambda>_. answer)) (\<lambda>response.
        if response \<noteq> Some ''Oui'' then py_return () else shutdown))
     shutdown"

text \<open>
  Lines 567--608. The \<open>Toplevel\<close> starts at Tk's 1x1 size; \<open>geometry("300x200")\<close> sets
  its size, which \<open>winfo_width\<close>/\<open>winfo_height\<close> read back after
  \<open>update_idletasks\<close>; the position is computed with Python's floor division \<open>//\<close>
  (\<open>div\<close> on \<open>int\<close>) from the screen size; the frame, the two labels and the progress
  bar are calls without a modelled effect until \<open>progress.start(15)\<close>.
\<close>

definition show_splash_screen :: "(app, unit) py" where
  "show_splash_screen = py_block [
     ext_call (\<lambda>s. s\<lparr>splash_open := True, splash_size := (1, 1), splash_pos := (0, 0),
                        splash_spinning := False\<rparr>),
     tk_calls 1,
     ext_call (\<lambda>s. s\<lparr>splash_size := (300, 200)\<rparr>),
     tk_calls 2,
     py_bind (ext_read (\<lambda>s. fst (splash_size s))) (\<lambda>width.
     py_bind (ext_read (\<lambda>s. snd (splash_size s))) (\<lambda>height.
     py_bind (ext_read (\<lambda>s. fst (screen_size s))) (\<lambda>sw.
     py_bind (ext_read (\<lambda>s. snd (screen_size s))) (\<lambda>sh.
       ext_call (\<lambda>s. s\<lparr>splash_pos := (sw div 2 - width div 2, sh div 2 - height div 2)\<rparr>))))),
     tk_calls 6,
     ext_call (\<lambda>s. s\<lparr>splash_spinning := True\<rparr>)]"

text \<open>Lines 556--565: \<open>mainloop\<close> is the event loop of theory System.\<close>

definition run :: "(app, unit) py" where
  "run = py_block [show_splash_screen, after 2000 Cb_finish_startup]"

text \<open>Lines 610--626: destroying the splash window stops its progress bar; the main
  window was never withdrawn, so \<open>deiconify\<close> changes nothing.\<close>

definition finish_startup :: "(app, unit) py" where
  "finish_startup = py_block [
     ext_call (\<lambda>s. s\<lparr>splash_open := False, splash_spinning := False\<rparr>),
     ext_call id,
     log_event Msg_ready ''info'',
     ext_call (\<lambda>s. s\<lparr>toasts := toasts s @ [Toast_ready]\<rparr>)]"

section \<open>Effects when no library call fails\<close>

lemma animate_progress_no_faults [simp]:
  "faults s = [] \<Longrightarrow> animate_progress step s =
     (if step < 100 \<and> monitoring_active s
      then (Inr (), s\<lparr>progress_value := step,
                      after_queue := after_queue s @ [(clock s + 20, Cb_animate_progress (step + 2))]\<rparr>)
      else (Inr (), s\<lparr>progress_mode := Indeterminate, progress_running := True\<rparr>))"
  by (simp add: animate_progress_def)

lemma start_monitoring_no_faults [simp]:
  "faults s = [] \<Longrightarrow> start_monitoring s =
     (Inr (), s\<lparr>monitoring_active := True, progress_running := True, start_button := Face_stop,
        status_text := Status_active, status_fg := green, progress_mode := Determinate,
        progress_value := 0, after_queue := after_queue s @ [(clock s + 20, Cb_animate_progress 2)],
        log_tags := (log_tags s)(''info'' \<mapsto> ''#4CAF50''),
        log_text := log_text s @ log_pieces (clock s) Msg_monitoring_on ''info'',
        log_file := log_file s @ [log_record_of (clock s) Msg_monitoring_on ''info''],
        toasts := toasts s @ [Toast_monitoring_on], monitor_thread := monitor_thread s + 1\<rparr>)"
  by (simp add: start_monitoring_def animate_startup_def)

lemma stop_monitoring_no_faults [simp]:
  "faults s = [] \<Longrightarrow> stop_monitoring s =
     (let s1 = s\<lparr>monitoring_active := False, progress_running := False, start_button := Face_start,
                 status_text := Status_inactive, status_fg := white\<rparr>;
          s2 = (if alert_active s then snd (stop_alert s1) else s1)
      in (Inr (), s2\<lparr>log_tags := (log_tags s2)(''info'' \<mapsto> ''#4CAF50''),
                    log_text := log_text s2 @ log_pieces (clock s) Msg_monitoring_off ''info'',
                    log_file := log_file s2 @ [log_record_of (clock s) Msg_monitoring_off ''info''],
                    toasts := toasts s2 @ [Toast_monitoring_off]\<rparr>))"
  by (simp add: stop_monitoring_def Let_def)

lemma shutdown_no_faults [simp]:
  "faults s = [] \<Longrightarrow> shutdown s =
     (let s1 = (if alert_active s then snd (stop_alert (s\<lparr>monitoring_active := False\<rparr>))
                else s\<lparr>monitoring_active := False\<rparr>)
      in (Inr (), s1\<lparr>log_tags := (log_tags s1)(''info'' \<mapsto> ''#4CAF50''),
                    log_text := log_text s1 @ log_pieces (clock s) Msg_shutdown ''info'',
                    log_file := log_file s1 @ [log_record_of (clock s) Msg_shutdown ''info''],
                    mixer_ready := False, music_playing := False, window_open := False,
                    exit_status := Some 0\<rparr>))"
  by (cases "alert_active s") (simp_all add: shutdown_def)

lemma show_splash_screen_no_faults [simp]:
  "faults s = [] \<Longrightarrow> show_splash_screen s =
     (Inr (), s\<lparr>splash_open := True, splash_size := (300, 200),
        splash_pos := (fst (screen_size s) div 2 - 150, snd (screen_size s) div 2 - 100),
        splash_spinning := True\<rparr>)"
  by (simp add: show_splash_screen_def)

text \<open>Centring a window of size \<open>w\<close> on a screen of size \<open>sw\<close> with floor division:
  the window fits exactly when the screen is at least as large, and the right margin
  exceeds the left one by at most one pixel.\<close>

lemma centre_fits: "(0 \<le> sw div 2 - w div 2 \<and> sw div 2 - w div 2 + w \<le> sw) \<longleftrightarrow> w \<le> (sw :: int)"
  if "even w" "0 \<le> w"
  using that by presburger

lemma centre_margins:
  "even w \<Longrightarrow> 0 \<le> (sw - (sw div 2 - w div 2 + w)) - (sw div 2 - w div 2) \<and>
                (sw - (sw div 2 - w div 2 + w)) - (sw div 2 - w div 2) \<le> (1 :: int)"
  by presburger

section \<open>Properties\<close>



text \<open>C36: monitoring stopped right after it was started, before the first animation
  callback runs: the callback is still queued, and when it runs it finds the flag false
  and restarts the progress bar, which keeps running while monitoring is off.\<close>

theorem stop_during_animation_restarts_progress:
  assumes "faults s = []" and "\<not> monitoring_active s"
  shows "(clock s + 20, Cb_animate_progress 2) \<in> set (after_queue (snd (stop_monitoring (snd (start_monitoring s))))) \<and>
    progress_running (snd (animate_progress 2 (snd (stop_monitoring (snd (start_monitoring s)))))) \<and>
    \<not> monitoring_active (snd (animate_progress 2 (snd (stop_monitoring (snd (start_monitoring s))))))"
  using assms by (simp add: Let_def)

text \<open>C33: closing the window while monitoring, and answering anything but "Oui"
  (or closing the dialog), changes nothing (spec 7: cancel leaves state unchanged).\<close>

theorem on_closing_cancel:
  assumes "faults s = []" and "monitoring_active s" and "answer \<noteq> Some ''Oui''"
  shows "on_closing answer s = (Inr (), s)"
  using assms by (simp add: on_closing_def)

text \<open>C34: a confirmed close, or a close while not monitoring, stops monitoring and the
  alert, silences the mixer, destroys the window, logs the shutdown and exits with 0.\<close>

theorem on_closing_confirmed:
  assumes "faults s = []" and "\<not> monitoring_active s \<or> answer = Some ''Oui''"
    and "on_closing answer s = (r, s')"
  shows "r = Inr () \<and> exit_status s' = Some 0 \<and> \<not> monitoring_active s' \<and> \<not> alert_active s' \<and>
    \<not> music_playing s' \<and> \<not> window_open s' \<and> last (log_file s') = log_record_of (clock s) Msg_shutdown ''info''"
proof -
  have "on_closing answer s = shutdown s"
    using assms(1,2) by (auto simp: on_closing_def)
  with assms(1,3) show ?thesis
    by (cases "alert_active s") (auto simp: Let_def)
qed

text \<open>C32: when no library call fails, the start/stop button flips the monitoring flag;
  starting starts one more thread and keeps the alert as it was, stopping dismisses it;
  each logs its line last.\<close>

theorem toggle_monitoring_effect:
  assumes "faults s = []" and "toggle_monitoring s = (r, s')"
  shows "r = Inr () \<and> monitoring_active s' = (\<not> monitoring_active s) \<and>
    alert_active s' = (alert_active s \<and> \<not> monitoring_active s) \<and>
    monitor_thread s' = (if monitoring_active s then monitor_thread s else monitor_thread s + 1) \<and>
    last (log_file s') = log_record_of (clock s) (if monitoring_active s then Msg_monitoring_off else Msg_monitoring_on) ''info''"
  using assms by (cases "monitoring_active s"; cases "alert_active s") (auto simp: toggle_monitoring_def Let_def)

text \<open>C38: when no library call fails, the splash screen is open, 300 by 200 pixels, with
  its progress bar running, at the position lines 575--580 compute: on any screen at
  least that large it lies entirely on the screen, centred to the pixel (the right and
  bottom margins exceed the left and top ones by at most one pixel, from the floor
  division); on a smaller screen it starts off the screen's left or top edge.\<close>

theorem show_splash_screen_centred:
  assumes "faults s = []" and "show_splash_screen s = (r, t)" and "screen_size s = (sw, sh)"
    and "splash_pos t = (x, y)"
  shows "r = Inr () \<and> splash_open t \<and> splash_spinning t \<and> splash_size t = (300, 200) \<and>
         ((0 \<le> x \<and> x + 300 \<le> sw) \<longleftrightarrow> 300 \<le> sw) \<and> ((0 \<le> y \<and> y + 200 \<le> sh) \<longleftrightarrow> 200 \<le> sh) \<and>
         0 \<le> (sw - (x + 300)) - x \<and> (sw - (x + 300)) - x \<le> 1 \<and>
         0 \<le> (sh - (y + 200)) - y \<and> (sh - (y + 200)) - y \<le> 1"
proof -
  have t: "r = Inr ()" "splash_open t" "splash_spinning t" "splash_size t = (300, 200)"
    "x = sw div 2 - 300 div 2" "y = sh div 2 - 200 div 2"
    using assms by auto
  show ?thesis
    unfolding t(5,6) using t(1-4) centre_fits [of 300 sw] centre_fits [of 200 sh]
      centre_margins [of 300 sw] centre_margins [of 200 sh] by simp
qed

section \<open>Durable file and incident counter\<close>

text \<open>Facts \<open>keeps grows\<close> of this theory's methods: whatever fails, the durable log
  file is only appended to and the incident counter never decreases.\<close>

lemma animate_progress_grows [grows_ops]: "keeps grows (animate_progress step)"
  unfolding animate_progress_def
  by (auto intro!: keeps_intros intro: grows_trans simp: grows_def)

lemma animate_startup_grows [grows_ops]: "keeps grows animate_startup"
  unfolding animate_startup_def
  by (auto intro!: keeps_intros grows_ops intro: grows_trans simp: grows_def)

lemma start_monitoring_grows [grows_ops]: "keeps grows start_monitoring"
  unfolding start_monitoring_def
  by (auto intro!: keeps_intros grows_ops intro: grows_trans simp: grows_def)

lemma stop_monitoring_grows [grows_ops]: "keeps grows stop_monitoring"
  unfolding stop_monitoring_def
  by (auto intro!: keeps_intros grows_ops intro: grows_trans simp: grows_def)

lemma toggle_monitoring_grows [grows_ops]: "keeps grows toggle_monitoring"
  unfolding toggle_monitoring_def
  by (auto intro!: keeps_intros grows_ops)

lemma shutdown_grows [grows_ops]: "keeps grows shutdown"
  unfolding shutdown_def
  by (auto intro!: keeps_intros grows_ops intro: grows_trans simp: grows_def)

lemma on_closing_grows [grows_ops]: "keeps grows (on_closing answer)"
  unfolding on_closing_def
  by (auto intro!: keeps_intros grows_ops intro: grows_trans simp: grows_def)

lemma run_grows [grows_ops]: "keeps grows run"
  unfolding run_def show_splash_screen_def
  by (auto intro!: keeps_intros intro: grows_trans simp: grows_def)

lemma finish_startup_grows [grows_ops]: "keeps grows finish_startup"
  unfolding finish_startup_def
  by (auto intro!: keeps_intros grows_ops intro: grows_trans simp: grows_def)

section \<open>Witnesses\<close>


theorem stop_during_animation_restarts_progress_witness:
  "(20, Cb_animate_progress 2) \<in> set (after_queue (snd (stop_monitoring (snd (start_monitoring (initial_app 0)))))) \<and>
   progress_running (snd (animate_progress 2 (snd (stop_monitoring (snd (start_monitoring (initial_app 0))))))) \<and>
   \<not> monitoring_active (snd (animate_progress 2 (snd (stop_monitoring (snd (start_monitoring (initial_app 0)))))))"
  using stop_during_animation_restarts_progress [of "initial_app 0"]
  by (simp add: initial_app_def)

theorem on_closing_cancel_witness:
  "on_closing (Some ''Non'') ((initial_app 0)\<lparr>monitoring_active := True\<rparr>) =
   (Inr (), (initial_app 0)\<lparr>monitoring_active := True\<rparr>)"
  using on_closing_cancel [of "(initial_app 0)\<lparr>monitoring_active := True\<rparr>" "Some ''Non''"]
  by (simp add: initial_app_def)

theorem on_closing_confirmed_witness:
  "exit_status (snd (on_closing (Some ''Oui'') ((initial_app 0)\<lparr>monitoring_active := True, alert_active := True\<rparr>))) = Some 0 \<and>
   \<not> alert_active (snd (on_closing (Some ''Oui'') ((initial_app 0)\<lparr>monitoring_active := True, alert_active := True\<rparr>)))"
  using on_closing_confirmed [of "(initial_app 0)\<lparr>monitoring_active := True, alert_active := True\<rparr>" "Some ''Oui''"
     "fst (on_closing (Some ''Oui'') ((initial_app 0)\<lparr>monitoring_active := True, alert_active := True\<rparr>))"
     "snd (on_closing (Some ''Oui'') ((initial_app 0)\<lparr>monitoring_active := True, alert_active := True\<rparr>))"]
  by (simp add: initial_app_def)

theorem toggle_monitoring_effect_witness:
  "monitoring_active (snd (toggle_monitoring (initial_app 0))) \<and>
   monitor_thread (snd (toggle_monitoring (initial_app 0))) = 1"
  using toggle_monitoring_effect [of "initial_app 0" "fst (toggle_monitoring (initial_app 0))"
     "snd (toggle_monitoring (initial_app 0))"]
  by (simp add: initial_app_def)

theorem show_splash_screen_centred_witness:
  "splash_pos (snd (show_splash_screen ((initial_app 0)\<lparr>screen_size := (1365, 767)\<rparr>))) = (532, 283) \<and>
   0 \<le> (1365 - (532 + 300)) - (532::int) \<and> (1365 - (532 + 300)) - (532::int) \<le> 1"
  using show_splash_screen_centred [of "(initial_app 0)\<lparr>screen_size := (1365, 767)\<rparr>"
      "Inr ()" "snd (show_splash_screen ((initial_app 0)\<lparr>screen_size := (1365, 767)\<rparr>))" 1365 767 532 283]
  by (simp add: initial_app_def)

end
