(* ===== verification/Metrics.thy ===== *)
theory Metrics
  imports EventLog
begin

text \<open>
  The metrics sampler \<open>update_metrics\<close> (src/alarm.py, lines 277--304), a Tk callback
  that re-queues itself every second: it reads CPU and memory load and the battery,
  shows them in the header labels and the metric cards (\<open>update_metric_card\<close>, lines
  306--310), appends a sample to \<open>system_metrics\<close> and drops the oldest one when there
  are more than 100. The theorems: the history never exceeds 100 samples whatever
  fails; when nothing fails it is the last 100 samples ever taken, oldest first (the
  spec's bounded FIFO), and the callback re-queues itself. That a library call that
  raises ends the chain for good is a property of runs, proved in theory Progress.
\<close>

text \<open>Lines 306--310: the card of column \<open>index\<close>; \<open>grid_slaves(column=index)[0]\<close> raises
  \<open>IndexError\<close> when there is no such card.\<close>

definition update_metric_card :: "nat \<Rightarrow> card_value \<Rightarrow> (app, unit) py" where
  "update_metric_card index value = py_then fault_point (\<lambda>s.
     if index < length (metric_cards s)
     then (Inr (), s\<lparr>metric_cards := (metric_cards s)[index := value]\<rparr>)
     else (Inl Index_error, s))"

text \<open>
  Lines 277--304, for the readings \<open>cpu\<close>, \<open>mem\<close> and \<open>bat\<close> of \<open>psutil\<close>. The guard
  \<open>hasattr(self, 'root')\<close> holds from \<open>create_window\<close> on and is not modelled.
  \<open>pop(0)\<close> on the non-empty list is \<open>tl\<close>.
\<close>

definition update_metrics :: "real \<Rightarrow> real \<Rightarrow> battery option \<Rightarrow> (app, unit) py" where
  "update_metrics cpu mem bat =
     py_bind (ext_read (\<lambda>_. cpu)) (\<lambda>cpu_percent.
     py_bind (ext_read (\<lambda>_. mem)) (\<lambda>memory.
     py_block [
       ext_call (\<lambda>s. s\<lparr>cpu_label := cpu_percent\<rparr>),
       ext_call (\<lambda>s. s\<lparr>memory_label := memory\<rparr>),
       py_bind (ext_read (\<lambda>_. bat)) (\<lambda>battery.
         case battery of None \<Rightarrow> py_return () | Some b \<Rightarrow> update_metric_card 0 (Card_percent (percent b))),
       update_metric_card 1 (Card_percent cpu_percent),
       update_metric_card 2 (Card_percent memory),
       py_modify (\<lambda>s. s\<lparr>system_metrics := system_metrics s @
          [\<lparr>sample_time = clock s, sample_cpu = cpu_percent, sample_memory = memory\<rparr>]\<rparr>),
       py_modify (\<lambda>s. if 100 < length (system_metrics s)
                      then s\<lparr>system_metrics := tl (system_metrics s)\<rparr> else s),
       after 1000 Cb_update_metrics]))"

section \<open>Properties\<close>

definition history_bounded :: "app \<Rightarrow> app \<Rightarrow> bool" where
  "history_bounded s t \<longleftrightarrow> (length (system_metrics s) \<le> 100 \<longrightarrow> length (system_metrics t) \<le> 100)"

lemma update_metric_card_keeps:
  "(\<And>s t u. R s t \<Longrightarrow> R t u \<Longrightarrow> R s u) \<Longrightarrow> (\<And>s. R s s) \<Longrightarrow> (\<And>s. R s (s\<lparr>faults := tl (faults s)\<rparr>)) \<Longrightarrow>
   (\<And>s x. R s (s\<lparr>metric_cards := x\<rparr>)) \<Longrightarrow> keeps R (update_metric_card i v)"
  unfolding update_metric_card_def
  by (intro keeps_then keeps_fault_point) (auto simp: keeps_def)

text \<open>C30: whatever library call raises, a history of at most 100 samples stays within
  100 samples after \<open>update_metrics\<close> (spec 3: the history never exceeds its capacity).\<close>

theorem update_metrics_bounded:
  "length (system_metrics s) \<le> 100 \<Longrightarrow> length (system_metrics (snd (update_metrics cpu mem bat s))) \<le> 100"
proof -
  have "keeps history_bounded (update_metrics cpu mem bat)"
    unfolding update_metrics_def py_block.simps py_then_modify_modify
    by (auto intro!: keeps_intros update_metric_card_keeps simp: history_bounded_def split: option.splits)
  then show "length (system_metrics s) \<le> 100 \<Longrightarrow> ?thesis"
    by (simp add: keeps_def history_bounded_def)
qed

lemma update_metrics_no_faults:
  "faults s = [] \<Longrightarrow> length (metric_cards s) = 4 \<Longrightarrow> update_metrics cpu mem bat s =
     (Inr (), s\<lparr>cpu_label := cpu, memory_label := mem,
       metric_cards := (case bat of None \<Rightarrow> metric_cards s | Some b \<Rightarrow> (metric_cards s)[0 := Card_percent (percent b)])
                        [1 := Card_percent cpu, 2 := Card_percent mem],
       system_metrics := (let h = system_metrics s @ [\<lparr>sample_time = clock s, sample_cpu = cpu, sample_memory = mem\<rparr>]
                          in if 100 < length h then tl h else h),
       after_queue := after_queue s @ [(clock s + 1000, Cb_update_metrics)]\<rparr>)"
  by (cases bat) (auto simp: update_metrics_def update_metric_card_def Let_def)

text \<open>C31: when no library call fails and the history holds the last 100 of the samples
  taken so far, after \<open>update_metrics\<close> it holds the last 100 of them with the new one:
  the oldest is evicted first. The callback re-queues itself one second later.\<close>

theorem update_metrics_fifo:
  assumes "faults s = []" and "length (metric_cards s) = 4"
    and "system_metrics s = last_n 100 hist"
    and "update_metrics cpu mem bat s = (r, s')"
  shows "r = Inr () \<and>
    system_metrics s' = last_n 100 (hist @ [\<lparr>sample_time = clock s, sample_cpu = cpu, sample_memory = mem\<rparr>]) \<and>
    after_queue s' = after_queue s @ [(clock s + 1000, Cb_update_metrics)]"
  using assms by (auto simp: update_metrics_no_faults last_n_snoc Let_def split: if_splits)

section \<open>Durable file and incident counter\<close>

text \<open>Facts \<open>keeps grows\<close> of this theory's methods: whatever fails, the durable log
  file is only appended to and the incident counter never decreases.\<close>

lemma update_metric_card_grows [grows_ops]: "keeps grows (update_metric_card i v)"
  by (rule update_metric_card_keeps) (auto intro: grows_trans simp: grows_def)

lemma update_metrics_grows [grows_ops]: "keeps grows (update_metrics cpu mem bat)"
  unfolding update_metrics_def py_block.simps py_then_modify_modify
  by (auto intro!: keeps_intros grows_ops intro: grows_trans simp: grows_def split: option.splits)

section \<open>Witnesses\<close>

definition sample0 :: metric_sample where
  "sample0 = \<lparr>sample_time = 0, sample_cpu = 0, sample_memory = 0\<rparr>"

theorem update_metrics_bounded_witness:
  "length (system_metrics (snd (update_metrics 10 20 None ((initial_app 0)\<lparr>system_metrics := replicate 100 sample0\<rparr>)))) \<le> 100"
  using update_metrics_bounded [of "(initial_app 0)\<lparr>system_metrics := replicate 100 sample0\<rparr>" 10 20 None]
  by simp

theorem update_metrics_fifo_witness:
  "system_metrics (snd (update_metrics 10 20 None (initial_app 0))) =
     [\<lparr>sample_time = 0, sample_cpu = 10, sample_memory = 20\<rparr>]"
  using update_metrics_fifo [of "initial_app 0" "[]" 10 20 None
     "fst (update_metrics 10 20 None (initial_app 0))" "snd (update_metrics 10 20 None (initial_app 0))"]
  by (simp add: initial_app_def last_n_def)

end
