(* ===== verification/Init.thy ===== *)
theory Init
  imports Metrics
begin

text \<open>
  The constructor \<open>__init__\<close> of \<open>SecurityMonitorGUI\<close> (src/alarm.py, lines 18--275):
  \<open>setup_system\<close>, \<open>create_window\<close>, \<open>create_gui\<close> (\<open>create_header\<close>,
  \<open>create_sidebar\<close>, \<open>create_main_content\<close> with \<open>create_metric_card\<close>,
  \<open>create_status_bar\<close>) and \<open>setup_charts\<close>. Every statement that calls Tk, the file
  system, logging or pygame is one library call of the fault oracle; a widget whose
  object the methods read later sets the fields of \<open>app\<close> that stand for it, and the
  frames, layout calls and labels nobody reads again are calls without a modelled
  effect (\<open>tk_calls n\<close>, \<open>n\<close> statements). The theorems: without faults the
  constructor builds exactly the state \<open>initial_app\<close> that the other theories start
  from, whatever the instance fields held before; the four metric cards sit in columns
  0 to 3, as \<open>update_metric_card\<close> expects; and a failure of the first library call
  leaves nothing built (used by theory System for the exit status of the process).
\<close>

section \<open>The process before the constructor\<close>

text \<open>
  A fresh process at time \<open>now\<close> with fault oracle \<open>fs\<close>: no window, no mixer, an empty
  durable log for the day, nothing queued. The instance attributes do not exist yet;
  their fields hold values the constructor overwrites.
\<close>

definition fresh_process :: "nat \<Rightarrow> exc option list \<Rightarrow> app" where
  "fresh_process now fs = \<lparr>
     monitoring_active = True, alert_active = True, incident_count = 1,
     system_metrics = [], last_check = 0, clock = now, faults = fs,
     cpu_label = 1, memory_label = 1, status_text = Status_active, status_fg = red,
     start_button = Face_stop, stop_alert_enabled = True, incident_label = 1,
     time_label = 1, sensitivity = 0, sound_var = False, metric_cards = [],
     log_text = [], log_tags = Map.empty, log_bg = '''', log_file = [],
     progress_mode = Determinate, progress_value = 1, progress_running = True,
     mixer_ready = False, music_loaded = False, music_playing = False, toasts = [],
     exports = Map.empty, after_queue = [], window_open = False, exit_status = None,
     monitor_thread = 0, splash_open = False, splash_size = (0, 0), splash_pos = (0, 0),
     splash_spinning = False, screen_size = (1920, 1080)\<rparr>"

section \<open>The constructor's methods\<close>

text \<open>Lines 24--44: \<open>os.makedirs\<close>, \<open>logging.basicConfig\<close>, \<open>mixer.init()\<close>, then the
  state variables; \<open>datetime.now()\<close> is the clock.\<close>

definition setup_system :: "(app, unit) py" where
  "setup_system = py_block [
     ext_call id,
     ext_call id,
     ext_call (\<lambda>s. s\<lparr>mixer_ready := True\<rparr>),
     py_modify (\<lambda>s. s\<lparr>monitoring_active := False, alert_active := False, incident_count := 0,
                        system_metrics := [], last_check := clock s\<rparr>)]"

text \<open>Lines 46--59: the window, its close protocol and three grid settings.\<close>

definition create_window :: "(app, unit) py" where
  "create_window = py_block [ext_call (\<lambda>s. s\<lparr>window_open := True\<rparr>), tk_calls 4]"

text \<open>Lines 68--108: frames and the title, then the CPU, RAM and status labels.\<close>

definition create_header :: "(app, unit) py" where
  "create_header = py_block [
     tk_calls 8,
     ext_call (\<lambda>s. s\<lparr>cpu_label := 0\<rparr>), tk_calls 1,
     ext_call (\<lambda>s. s\<lparr>memory_label := 0\<rparr>), tk_calls 1,
     ext_call (\<lambda>s. s\<lparr>status_text := Status_inactive, status_fg := ''''\<rparr>), tk_calls 1]"

text \<open>Lines 110--177: the two buttons (the dismiss button disabled), the statistics
  labels, the slider at 5 and the sound switch on.\<close>

definition create_sidebar :: "(app, unit) py" where
  "create_sidebar = py_block [
     tk_calls 4,
     ext_call (\<lambda>s. s\<lparr>start_button := Face_start\<rparr>), tk_calls 1,
     ext_call (\<lambda>s. s\<lparr>stop_alert_enabled := False\<rparr>), tk_calls 1,
     tk_calls 2,
     ext_call (\<lambda>s. s\<lparr>incident_label := 0\<rparr>), tk_calls 1,
     ext_call (\<lambda>s. s\<lparr>time_label := 0\<rparr>), tk_calls 1,
     tk_calls 3,
     ext_call (\<lambda>s. s\<lparr>sensitivity := 5\<rparr>), tk_calls 1,
     ext_call (\<lambda>s. s\<lparr>sound_var := True\<rparr>), tk_calls 2]"

text \<open>
  Lines 242--259: a card gridded in column \<open>column\<close> of the metrics frame, with its
  title and value labels. The cards are the frame's grid slaves by column; the
  constructor grids them in columns 0, 1, 2, 3 in that order, so gridding appends.
\<close>

definition create_metric_card :: "nat \<Rightarrow> (app, unit) py" where
  "create_metric_card column = py_block [
     tk_calls 1,
     ext_call (\<lambda>s. s\<lparr>metric_cards := metric_cards s @ [Card_placeholder]\<rparr>),
     tk_calls 2]"

text \<open>Lines 179--240: the metrics frame and its four cards, the log toolbar, the log
  widget with its background and its four tags.\<close>

definition create_main_content :: "(app, unit) py" where
  "create_main_content = py_block [
     tk_calls 4,
     ext_call (\<lambda>s. s\<lparr>metric_cards := []\<rparr>), tk_calls 1,
     tk_calls 4,
     create_metric_card 0, create_metric_card 1, create_metric_card 2, create_metric_card 3,
     tk_calls 6,
     ext_call (\<lambda>s. s\<lparr>log_text := [], log_tags := Map.empty, log_bg := log_base_bg\<rparr>), tk_calls 1,
     tk_calls 3,
     ext_call (\<lambda>s. s\<lparr>log_tags := (log_tags s)(''timestamp'' \<mapsto> ''#888888'')\<rparr>),
     ext_call (\<lambda>s. s\<lparr>log_tags := (log_tags s)(''info'' \<mapsto> ''#4CAF50'')\<rparr>),
     ext_call (\<lambda>s. s\<lparr>log_tags := (log_tags s)(''warning'' \<mapsto> ''#FFC107'')\<rparr>),
     ext_call (\<lambda>s. s\<lparr>log_tags := (log_tags s)(''alert'' \<mapsto> ''#F44336'')\<rparr>)]"

text \<open>Lines 261--271: the indeterminate progress bar, not started.\<close>

definition create_status_bar :: "(app, unit) py" where
  "create_status_bar = py_block [
     tk_calls 2,
     ext_call (\<lambda>s. s\<lparr>progress_mode := Indeterminate, progress_value := 0, progress_running := False\<rparr>),
     tk_calls 1]"

text \<open>Lines 61--66.\<close>

definition create_gui :: "(app, unit) py" where
  "create_gui = py_block [create_header, create_sidebar, create_main_content, create_status_bar]"

text \<open>Lines 273--275: the first metrics sample, with the readings \<open>cpu\<close>, \<open>mem\<close>, \<open>bat\<close>.\<close>

definition setup_charts :: "real \<Rightarrow> real \<Rightarrow> battery option \<Rightarrow> (app, unit) py" where
  "setup_charts cpu mem bat = update_metrics cpu mem bat"

text \<open>Lines 18--22.\<close>

definition init_instance :: "real \<Rightarrow> real \<Rightarrow> battery option \<Rightarrow> (app, unit) py" where
  "init_instance cpu mem bat = py_block [setup_system, create_window, create_gui, setup_charts cpu mem bat]"

section \<open>Properties\<close>

lemma init_instance_split:
  "init_instance cpu mem bat =
     py_then (py_block [setup_system, create_window, create_gui]) (setup_charts cpu mem bat)"
proof -
  have "init_instance cpu mem bat =
          py_block ([setup_system, create_window, create_gui] @ [setup_charts cpu mem bat])"
    by (simp only: init_instance_def append.simps)
  then show ?thesis by (simp only: py_block_append py_block_single)
qed

text \<open>The fields of a process that the constructor does not write: the durable log of
  the day, the export files, the Tk timer queue, the toasts, the exit status, the
  monitoring thread, the splash window, the music and the screen.\<close>

definition untouched_fresh :: "app \<Rightarrow> bool" where
  "untouched_fresh s \<longleftrightarrow> faults s = [] \<and> log_file s = [] \<and> exports s = Map.empty \<and>
     after_queue s = [] \<and> toasts s = [] \<and> exit_status s = None \<and> monitor_thread s = 0 \<and>
     \<not> splash_open s \<and> splash_size s = (0, 0) \<and> splash_pos s = (0, 0) \<and> \<not> splash_spinning s \<and>
     \<not> music_loaded s \<and> \<not> music_playing s"

lemma construct_no_faults:
  "untouched_fresh s \<Longrightarrow>
   py_block [setup_system, create_window, create_gui] s = (Inr (), (initial_app (clock s))\<lparr>screen_size := screen_size s\<rparr>)"
  unfolding untouched_fresh_def
  by (cases s) (simp add: setup_system_def create_window_def create_gui_def create_header_def
      create_sidebar_def create_main_content_def create_metric_card_def create_status_bar_def
      initial_app_def initial_tags_def)

lemma initial_app_screen [simp]: "(initial_app now)\<lparr>screen_size := (1920, 1080)\<rparr> = initial_app now"
  by (simp add: initial_app_def)

lemma fresh_process_clock [simp]: "clock (fresh_process now fs) = now"
  by (simp add: fresh_process_def)

lemma fresh_process_screen [simp]: "screen_size (fresh_process now fs) = (1920, 1080)"
  by (simp add: fresh_process_def)

lemma untouched_fresh_process [simp]: "untouched_fresh (fresh_process now [])"
  by (simp add: untouched_fresh_def fresh_process_def)

text \<open>C8: when no library call fails, the constructor builds the state \<open>initial_app\<close>
  (no monitoring, no alert, no incident, slider at 5, sound on, dismiss button disabled,
  four placeholder cards in columns 0 to 3, an empty log widget with its four tags, an
  idle progress bar, the mixer ready, the window open) whatever the instance fields held
  before, and then takes the first metrics sample from it.\<close>

theorem init_instance_builds_initial_state:
  "untouched_fresh s \<Longrightarrow>
   init_instance cpu mem bat s = update_metrics cpu mem bat ((initial_app (clock s))\<lparr>screen_size := screen_size s\<rparr>)"
proof -
  assume "untouched_fresh s"
  then have c: "py_block [setup_system, create_window, create_gui] s = (Inr (), (initial_app (clock s))\<lparr>screen_size := screen_size s\<rparr>)"
    by (rule construct_no_faults)
  show ?thesis unfolding init_instance_split py_then_apply c by (simp add: setup_charts_def)
qed

text \<open>A failure of the first library call (\<open>os.makedirs\<close> of the log directory)
  leaves the constructor with nothing built.\<close>

lemma init_instance_first_fault:
  "init_instance cpu mem bat (fresh_process now (Some e # fs)) = (Inl e, fresh_process now fs)"
  by (simp add: init_instance_def setup_system_def fresh_process_def fault_defs)

section \<open>Witnesses\<close>

theorem init_instance_builds_initial_state_witness:
  "init_instance 10 20 None (fresh_process 0 []) = update_metrics 10 20 None (initial_app 0)"
  using init_instance_builds_initial_state [OF untouched_fresh_process [of 0], of 10 20 None]
  by (simp add: fresh_process_def)

end
