(* ===== verification/System.thy ===== *)
theory System
  imports MonitorFaults Lifecycle Init
begin

text \<open>
  The whole program as a transition system (src/alarm.py). The Tk main loop runs one
  event handler or one due \<open>root.after\<close> callback at a time; each worker thread started
  by \<open>start_monitoring\<close> alternates between testing \<open>while self.monitoring_active\<close>
  (\<open>At_head\<close>) and running one iteration of \<open>check_security\<close> (\<open>In_body\<close>); the clock
  advances and the battery changes under the environment. Steps interleave at the
  granularity of one handler, one callback, one flag test or one iteration: the Tk
  calls a worker makes inside an iteration are not interleaved with the main loop's
  handlers. A thread
  whose handler raised is gone; an exception of a Tk callback is reported by Tk and
  otherwise ignored, so the step keeps the state the handler reached. The theorems: along
  every run the durable log only grows and the incident counter never decreases; and
  two reachable states that the spec excludes, two workers counting the same
  unplugging twice, and an alert raised after monitoring was stopped.
\<close>

section \<open>State and events\<close>

datatype worker_pc = At_head | In_body

text \<open>The threads by the number \<open>monitor_thread\<close> had when they were started; the
  battery as psutil would report it now, and how many times it changed.\<close>

record sys =
  gui :: app
  threads :: "nat \<rightharpoonup> worker \<times> worker_pc"
  battery_now :: "battery option"
  battery_changes :: nat

text \<open>The commands bound to the widgets (lines 54, 119--177, 207--219).\<close>

datatype ui_event =
    Click_toggle
  | Click_dismiss
  | Click_clear "string option"
  | Click_export
  | Close_window "string option"
  | Set_sensitivity real
  | Set_sound bool

definition ui_handler :: "ui_event \<Rightarrow> (app, unit) py" where
  "ui_handler ev = (case ev of
      Click_toggle \<Rightarrow> toggle_monitoring
    | Click_dismiss \<Rightarrow> stop_alert
    | Click_clear answer \<Rightarrow> clear_logs answer
    | Click_export \<Rightarrow> export_logs
    | Close_window answer \<Rightarrow> on_closing answer
    | Set_sensitivity v \<Rightarrow> py_modify (\<lambda>s. s\<lparr>sensitivity := v\<rparr>)
    | Set_sound b \<Rightarrow> py_modify (\<lambda>s. s\<lparr>sound_var := b\<rparr>))"

text \<open>The dismiss button is created disabled (line 130) and only \<open>trigger_alert\<close>
  enables it.\<close>

definition enabled :: "app \<Rightarrow> ui_event \<Rightarrow> bool" where
  "enabled g ev = (case ev of Click_dismiss \<Rightarrow> stop_alert_enabled g | _ \<Rightarrow> True)"

text \<open>The callbacks \<open>root.after\<close> queues; CPU and memory load are readings.\<close>

fun dispatch :: "callback \<Rightarrow> real \<times> real \<Rightarrow> battery option \<Rightarrow> (app, unit) py" where
  "dispatch Cb_update_metrics (cpu, mem) bat = update_metrics cpu mem bat"
| "dispatch Cb_flash_warning _ _ = flash_warning"
| "dispatch (Cb_animate_progress step) _ _ = animate_progress step"
| "dispatch Cb_finish_startup _ _ = finish_startup"

text \<open>
  Lines 628--637: \<open>SecurityMonitorGUI()\<close> (\<open>init_instance\<close>, with the first
  readings) and \<open>run\<close>, in a fresh process; an exception shows the error dialog and
  exits with status 1.
\<close>

definition main :: "exc option list \<Rightarrow> real \<times> real \<Rightarrow> battery option \<Rightarrow> nat \<Rightarrow> app" where
  "main fs rd bat now =
     (case py_then (init_instance (fst rd) (snd rd) bat) run (fresh_process now fs) of
        (Inl e, s) \<Rightarrow> s\<lparr>exit_status := Some 1\<rparr>
      | (Inr _, s) \<Rightarrow> s)"

definition boot :: "exc option list \<Rightarrow> real \<times> real \<Rightarrow> battery option \<Rightarrow> nat \<Rightarrow> sys" where
  "boot fs rd bat now =
     \<lparr>gui = main fs rd bat now, threads = Map.empty, battery_now = bat, battery_changes = 0\<rparr>"

section \<open>Steps\<close>

text \<open>A thread started by a handler (lines 461--463): \<open>check_security\<close> begins with its
  locals.\<close>

definition spawn :: "app \<Rightarrow> app \<Rightarrow> (nat \<rightharpoonup> worker \<times> worker_pc) \<Rightarrow> (nat \<rightharpoonup> worker \<times> worker_pc)" where
  "spawn g g' ts = (if monitor_thread g < monitor_thread g'
                    then ts(monitor_thread g' \<mapsto> (worker_start (clock g'), At_head)) else ts)"

definition ui_next :: "ui_event \<Rightarrow> sys \<Rightarrow> sys" where
  "ui_next ev S = (let g' = snd (ui_handler ev (gui S)) in
                   S\<lparr>gui := g', threads := spawn (gui S) g' (threads S)\<rparr>)"

text \<open>Tk removes a callback from its queue and runs it.\<close>

definition timer_next :: "nat \<times> callback \<Rightarrow> real \<times> real \<Rightarrow> sys \<Rightarrow> sys" where
  "timer_next tc rd S =
     S\<lparr>gui := snd (dispatch (snd tc) rd (battery_now S)
                    ((gui S)\<lparr>after_queue := remove1 tc (after_queue (gui S))\<rparr>))\<rparr>"

definition tick_next :: "nat \<Rightarrow> sys \<Rightarrow> sys" where
  "tick_next d S = S\<lparr>gui := (gui S)\<lparr>clock := clock (gui S) + d\<rparr>\<rparr>"

definition battery_next :: "battery option \<Rightarrow> sys \<Rightarrow> sys" where
  "battery_next b S = S\<lparr>battery_now := b, battery_changes := battery_changes S + 1\<rparr>"

text \<open>\<open>while self.monitoring_active:\<close> of thread \<open>i\<close> (line 340).\<close>

definition test_next :: "nat \<Rightarrow> sys \<Rightarrow> sys" where
  "test_next i S = (case threads S i of
      Some (w, At_head) \<Rightarrow>
        S\<lparr>threads := (if monitoring_active (gui S) then (threads S)(i \<mapsto> (w, In_body))
                      else (threads S)(i := None))\<rparr>
    | _ \<Rightarrow> S)"

text \<open>One iteration of thread \<open>i\<close> (lines 341--369), reading the battery as it is now.\<close>

definition body_next :: "nat \<Rightarrow> sys \<Rightarrow> sys" where
  "body_next i S = (case threads S i of
      Some (w, In_body) \<Rightarrow>
        (case check_security_iteration w (battery_now S) (gui S) of
           (Inr w', g) \<Rightarrow> S\<lparr>gui := g, threads := (threads S)(i \<mapsto> (w', At_head))\<rparr>
         | (Inl e, g) \<Rightarrow> S\<lparr>gui := g, threads := (threads S)(i := None)\<rparr>)
    | _ \<Rightarrow> S)"

text \<open>The process runs until \<open>sys.exit\<close>; its daemon threads end with it.\<close>

definition running :: "sys \<Rightarrow> bool" where
  "running S \<longleftrightarrow> exit_status (gui S) = None"

inductive sys_step :: "sys \<Rightarrow> sys \<Rightarrow> bool" where
  ui: "running S \<Longrightarrow> enabled (gui S) ev \<Longrightarrow> sys_step S (ui_next ev S)"
| timer: "running S \<Longrightarrow> tc \<in> set (after_queue (gui S)) \<Longrightarrow> fst tc \<le> clock (gui S) \<Longrightarrow>
    sys_step S (timer_next tc rd S)"
| tick: "running S \<Longrightarrow> sys_step S (tick_next d S)"
| battery: "running S \<Longrightarrow> sys_step S (battery_next b S)"
| test: "running S \<Longrightarrow> threads S i = Some (w, At_head) \<Longrightarrow> sys_step S (test_next i S)"
| body: "running S \<Longrightarrow> threads S i = Some (w, In_body) \<Longrightarrow> sys_step S (body_next i S)"

inductive reachable :: "sys \<Rightarrow> bool" where
  start: "reachable (boot fs rd bat now)"
| step: "reachable S \<Longrightarrow> sys_step S S' \<Longrightarrow> reachable S'"

section \<open>Durable file and incident counter along runs\<close>

lemma ui_handler_grows [grows_ops]: "keeps grows (ui_handler ev)"
  by (cases ev) (auto simp: ui_handler_def grows_def intro!: keeps_intros grows_ops)

lemma dispatch_grows [grows_ops]: "keeps grows (dispatch cb rd bat)"
  by (cases cb; cases rd) (simp_all add: grows_ops)

lemma gui_test_next [simp]: "gui (test_next i S) = gui S"
  by (simp add: test_next_def split: option.splits prod.splits worker_pc.splits)

lemma gui_body_next:
  "threads S i = Some (w, In_body) \<Longrightarrow>
   gui (body_next i S) = snd (check_security_iteration w (battery_now S) (gui S))"
  by (simp add: body_next_def split: prod.splits sum.splits)

lemma sys_step_grows: "sys_step S S' \<Longrightarrow> grows (gui S) (gui S')"
proof (induction rule: sys_step.induct)
  case (timer S tc rd)
  have "grows (gui S) ((gui S)\<lparr>after_queue := remove1 tc (after_queue (gui S))\<rparr>)"
    by (simp add: grows_def)
  then show ?case
    unfolding timer_next_def
    by (simp add: grows_trans [OF _ dispatch_grows [unfolded keeps_def, rule_format]])
next
  case (body S i w)
  then show ?case
    by (simp add: gui_body_next check_security_iteration_grows [unfolded keeps_def, rule_format])
qed (simp_all add: ui_next_def Let_def tick_next_def battery_next_def grows_def
                   ui_handler_grows [unfolded keeps_def, rule_format, unfolded grows_def])

lemma sys_steps_grows: "sys_step\<^sup>*\<^sup>* S S' \<Longrightarrow> grows (gui S) (gui S')"
  by (induction rule: rtranclp_induct) (auto intro: grows_trans sys_step_grows)

section \<open>Steps when no library call fails\<close>

text \<open>The start of the program, and the state components each step changes, when no
  library call fails.\<close>



lemma main_fault_free:
  "main [] (cpu, mem) bat now =
     (let s = snd (update_metrics cpu mem bat (initial_app now))
      in s\<lparr>splash_open := True, splash_size := (300, 200), splash_pos := (810, 440),
            splash_spinning := True, after_queue := after_queue s @ [(clock s + 2000, Cb_finish_startup)]\<rparr>)"
proof -
  have c: "py_block [setup_system, create_window, create_gui] (fresh_process now []) = (Inr (), initial_app now)"
    using construct_no_faults [OF untouched_fresh_process [of now]]
    by (simp only: fresh_process_clock fresh_process_screen initial_app_screen)
  show ?thesis
    unfolding main_def fst_conv snd_conv py_then_apply init_instance_split c
    by (simp add: setup_charts_def update_metrics_no_faults initial_app_def run_def show_splash_screen_def Let_def)
qed

lemma boot_fault_free [simp]:
  "faults (gui (boot [] rd bat now)) = []"
  "exit_status (gui (boot [] rd bat now)) = None"
  "monitoring_active (gui (boot [] rd bat now)) = False"
  "alert_active (gui (boot [] rd bat now)) = False"
  "stop_alert_enabled (gui (boot [] rd bat now)) = False"
  "monitor_thread (gui (boot [] rd bat now)) = 0"
  "clock (gui (boot [] rd bat now)) = now"
  "sensitivity (gui (boot [] rd bat now)) = 5"
  "incident_count (gui (boot [] rd bat now)) = 0"
  "threads (boot [] rd bat now) = Map.empty"
  "battery_now (boot [] rd bat now) = bat"
  "battery_changes (boot [] rd bat now) = 0"
  by (cases rd; simp add: boot_def main_fault_free update_metrics_no_faults initial_app_def Let_def)+

lemma iteration_state_frame [simp]:
  assumes "faults s = []"
  shows "exit_status (iteration_state w bat s) = exit_status s"
    and "monitor_thread (iteration_state w bat s) = monitor_thread s"
    and "stop_alert_enabled (iteration_state w bat s) =
           (if was_secure w \<and> \<not> secure_verdict bat (sensitivity s) then True
            else if \<not> was_secure w \<and> secure_verdict bat (sensitivity s) \<and> alert_active s then False
            else stop_alert_enabled s)"
  using assms by (simp_all add: iteration_state_def transition_state_def Let_def)


lemma start_step:
  assumes "faults (gui S) = []" and "\<not> monitoring_active (gui S)"
  defines "S' \<equiv> ui_next Click_toggle S"
  shows "faults (gui S') = []" "monitoring_active (gui S')"
    "threads S' = (threads S)(monitor_thread (gui S) + 1 \<mapsto> (worker_start (clock (gui S)), At_head))"
    "monitor_thread (gui S') = monitor_thread (gui S) + 1"
    "exit_status (gui S') = exit_status (gui S)" "clock (gui S') = clock (gui S)"
    "alert_active (gui S') = alert_active (gui S)"
    "stop_alert_enabled (gui S') = stop_alert_enabled (gui S)"
    "sensitivity (gui S') = sensitivity (gui S)"
    "incident_count (gui S') = incident_count (gui S)"
    "battery_now S' = battery_now S" "battery_changes S' = battery_changes S"
  using assms(1,2) unfolding S'_def
  by (simp_all add: ui_next_def Let_def ui_handler_def toggle_monitoring_def spawn_def)



lemma stop_monitoring_fields:
  assumes "faults g = []"
  shows "faults (snd (stop_monitoring g)) = [] \<and> \<not> monitoring_active (snd (stop_monitoring g)) \<and>
    monitor_thread (snd (stop_monitoring g)) = monitor_thread g \<and>
    exit_status (snd (stop_monitoring g)) = exit_status g \<and> clock (snd (stop_monitoring g)) = clock g \<and>
    \<not> alert_active (snd (stop_monitoring g)) \<and>
    stop_alert_enabled (snd (stop_monitoring g)) = (stop_alert_enabled g \<and> \<not> alert_active g) \<and>
    sensitivity (snd (stop_monitoring g)) = sensitivity g \<and>
    incident_count (snd (stop_monitoring g)) = incident_count g"
  using assms by (cases "alert_active g") (simp_all add: stop_monitoring_def)

lemma stop_step:
  assumes "faults (gui S) = []" and "monitoring_active (gui S)"
  defines "S' \<equiv> ui_next Click_toggle S"
  shows "faults (gui S') = []" "\<not> monitoring_active (gui S')"
    "threads S' = threads S"
    "monitor_thread (gui S') = monitor_thread (gui S)"
    "exit_status (gui S') = exit_status (gui S)" "clock (gui S') = clock (gui S)"
    "\<not> alert_active (gui S')"
    "stop_alert_enabled (gui S') = (stop_alert_enabled (gui S) \<and> \<not> alert_active (gui S))"
    "sensitivity (gui S') = sensitivity (gui S)"
    "incident_count (gui S') = incident_count (gui S)"
    "battery_now S' = battery_now S" "battery_changes S' = battery_changes S"
proof -
  have g: "gui S' = snd (stop_monitoring (gui S))" and t: "threads S' = spawn (gui S) (gui S') (threads S)"
    using assms(2) unfolding S'_def by (simp_all add: ui_next_def Let_def ui_handler_def toggle_monitoring_def)
  note f = stop_monitoring_fields [OF assms(1), folded g]
  from f show "faults (gui S') = []" "\<not> monitoring_active (gui S')"
    "monitor_thread (gui S') = monitor_thread (gui S)"
    "exit_status (gui S') = exit_status (gui S)" "clock (gui S') = clock (gui S)"
    "\<not> alert_active (gui S')"
    "stop_alert_enabled (gui S') = (stop_alert_enabled (gui S) \<and> \<not> alert_active (gui S))"
    "sensitivity (gui S') = sensitivity (gui S)"
    "incident_count (gui S') = incident_count (gui S)" by simp_all
  from f t show "threads S' = threads S" by (simp add: spawn_def)
  show "battery_now S' = battery_now S" "battery_changes S' = battery_changes S"
    unfolding S'_def by (simp_all add: ui_next_def Let_def)
qed

lemma test_step:
  assumes "threads S i = Some (w, At_head)"
  shows "threads (test_next i S) = (if monitoring_active (gui S) then (threads S)(i \<mapsto> (w, In_body))
                                     else (threads S)(i := None))"
    "battery_now (test_next i S) = battery_now S" "battery_changes (test_next i S) = battery_changes S"
  using assms by (simp_all add: test_next_def)

lemma body_step:
  assumes "threads S i = Some (w, In_body)" and "faults (gui S) = []"
  shows "gui (body_next i S) = iteration_state w (battery_now S) (gui S)"
    "threads (body_next i S) =
       (threads S)(i \<mapsto> (w\<lparr>was_secure := secure_verdict (battery_now S) (sensitivity (gui S))\<rparr>, At_head))"
    "battery_now (body_next i S) = battery_now S" "battery_changes (body_next i S) = battery_changes S"
  using assms by (simp_all add: body_next_def)


lemma reachable_ui: "reachable S \<Longrightarrow> running S \<Longrightarrow> enabled (gui S) ev \<Longrightarrow> reachable (ui_next ev S)"
  by (blast intro: reachable.step sys_step.ui)

lemma reachable_test:
  "reachable S \<Longrightarrow> running S \<Longrightarrow> threads S i = Some (w, At_head) \<Longrightarrow> reachable (test_next i S)"
  by (blast intro: reachable.step sys_step.test)

lemma reachable_body:
  "reachable S \<Longrightarrow> running S \<Longrightarrow> threads S i = Some (w, In_body) \<Longrightarrow> reachable (body_next i S)"
  by (blast intro: reachable.step sys_step.body)

text \<open>An iteration that sees the battery insecure after a secure reading.\<close>

lemma rising_step:
  assumes "threads S i = Some (w, In_body)" and "faults (gui S) = []" and "was_secure w"
    and "\<not> secure_verdict (battery_now S) (sensitivity (gui S))"
  shows "faults (gui (body_next i S)) = []" "running (body_next i S) = running S"
    "monitoring_active (gui (body_next i S)) = monitoring_active (gui S)"
    "alert_active (gui (body_next i S))"
    "incident_count (gui (body_next i S)) = incident_count (gui S) + 1"
    "sensitivity (gui (body_next i S)) = sensitivity (gui S)"
    "threads (body_next i S) = (threads S)(i \<mapsto> (w\<lparr>was_secure := False\<rparr>, At_head))"
    "battery_now (body_next i S) = battery_now S" "battery_changes (body_next i S) = battery_changes S"
  using body_step [OF assms(1,2)] assms(2-4) by (simp_all add: running_def)

text \<open>The program started with the battery unplugged, monitoring switched on.\<close>

lemma started_unplugged:
  defines "S1 \<equiv> ui_next Click_toggle (boot [] (0, 0) (Some low_unplugged) 0)"
  shows "faults (gui S1) = []" "monitoring_active (gui S1)" "running S1" "reachable S1"
    "monitor_thread (gui S1) = 1" "threads S1 = [1 \<mapsto> (worker_start 0, At_head)]"
    "clock (gui S1) = 0" "incident_count (gui S1) = 0" "sensitivity (gui S1) = 5"
    "battery_now S1 = Some low_unplugged" "battery_changes S1 = 0"
  using start_step [of "boot [] (0, 0) (Some low_unplugged) 0"]
    reachable_ui [OF reachable.start, of "[]" "(0, 0)" "Some low_unplugged" 0 Click_toggle]
  unfolding S1_def running_def by (simp_all add: enabled_def)

section \<open>Properties\<close>

text \<open>C4: along every run of the program, whatever the user does, whichever callbacks and
  worker iterations interleave and whichever library calls fail, the durable log file is
  only appended to and the incident counter never decreases (spec section 3: the log is
  append-only, the counter is never decremented).\<close>

theorem run_log_grows:
  "sys_step\<^sup>*\<^sup>* S S' \<Longrightarrow>
   prefix (log_file (gui S)) (log_file (gui S')) \<and> incident_count (gui S) \<le> incident_count (gui S')"
  using sys_steps_grows by (simp add: grows_def)

text \<open>C5: a second worker thread runs beside the first: the user stops and restarts
  monitoring while the first worker sleeps, the first worker finds the flag set again and
  goes on, and with the battery unplugged from the start and never changed, the two
  workers count the one unplugging twice (spec: a single background worker, and the
  counter equals the number of Secure to Compromised edges, here one).\<close>

theorem two_workers_count_twice:
  "\<exists>S. reachable S \<and> battery_changes S = 0 \<and> battery_now S = Some low_unplugged \<and>
       threads S 1 \<noteq> None \<and> threads S 2 \<noteq> None \<and> incident_count (gui S) = 2"
proof -
  define S1 where "S1 = ui_next Click_toggle (boot [] (0, 0) (Some low_unplugged) 0)"
  define S2 where "S2 = ui_next Click_toggle S1"
  define S3 where "S3 = ui_next Click_toggle S2"
  define S4 where "S4 = test_next 1 S3"
  define S5 where "S5 = body_next 1 S4"
  define S6 where "S6 = test_next 2 S5"
  define S7 where "S7 = body_next 2 S6"
  note f1 = started_unplugged [folded S1_def]
  have f2: "faults (gui S2) = []" "\<not> monitoring_active (gui S2)" "running S2" "reachable S2"
    "monitor_thread (gui S2) = 1" "threads S2 = [1 \<mapsto> (worker_start 0, At_head)]" "clock (gui S2) = 0"
    "incident_count (gui S2) = 0" "sensitivity (gui S2) = 5" "battery_now S2 = Some low_unplugged"
    "battery_changes S2 = 0"
    using stop_step [of S1] f1 reachable_ui [of S1 Click_toggle]
    unfolding S2_def running_def by (simp_all add: enabled_def)
  have f3: "faults (gui S3) = []" "monitoring_active (gui S3)" "running S3" "reachable S3"
    "threads S3 = [1 \<mapsto> (worker_start 0, At_head), 2 \<mapsto> (worker_start 0, At_head)]"
    "incident_count (gui S3) = 0" "sensitivity (gui S3) = 5" "battery_now S3 = Some low_unplugged"
    "battery_changes S3 = 0"
    using start_step [of S2] f2 reachable_ui [of S2 Click_toggle]
    unfolding S3_def running_def by (simp_all add: numeral_2_eq_2 enabled_def)
  have f4: "faults (gui S4) = []" "running S4" "monitoring_active (gui S4)" "reachable S4"
    "threads S4 1 = Some (worker_start 0, In_body)" "threads S4 2 = Some (worker_start 0, At_head)"
    "incident_count (gui S4) = 0" "sensitivity (gui S4) = 5" "battery_now S4 = Some low_unplugged"
    "battery_changes S4 = 0"
    using test_step [of S3 1] f3 reachable_test [of S3 1 "worker_start 0"]
    unfolding S4_def running_def by simp_all
  have f5: "faults (gui S5) = []" "running S5" "monitoring_active (gui S5)" "reachable S5"
    "threads S5 2 = Some (worker_start 0, At_head)" "threads S5 1 \<noteq> None"
    "incident_count (gui S5) = 1" "sensitivity (gui S5) = 5" "battery_now S5 = Some low_unplugged"
    "battery_changes S5 = 0"
    using rising_step [of S4 1 "worker_start 0"] f4 reachable_body [of S4 1 "worker_start 0"]
    unfolding S5_def by (simp_all add: worker_start_def low_unplugged_def plugged_truthy_def threshold_def)
  have f6: "faults (gui S6) = []" "running S6" "reachable S6"
    "threads S6 2 = Some (worker_start 0, In_body)" "threads S6 1 \<noteq> None"
    "incident_count (gui S6) = 1" "sensitivity (gui S6) = 5" "battery_now S6 = Some low_unplugged"
    "battery_changes S6 = 0"
    using test_step [of S5 2] f5 reachable_test [of S5 2 "worker_start 0"]
    unfolding S6_def running_def by simp_all
  have "reachable S7" "threads S7 1 \<noteq> None" "threads S7 2 \<noteq> None" "incident_count (gui S7) = 2"
    "battery_now S7 = Some low_unplugged" "battery_changes S7 = 0"
    using rising_step [of S6 2 "worker_start 0"] f6 reachable_body [of S6 2 "worker_start 0"]
    unfolding S7_def by (simp_all add: worker_start_def low_unplugged_def plugged_truthy_def threshold_def)
  then show ?thesis by blast
qed

text \<open>C6: an alert can be raised after monitoring is stopped: the worker is in its
  iteration when the user stops monitoring, raises the alert, then finds the flag false
  and ends; the alarm stays on with monitoring off and no worker left to end it (spec
  section 4: \<open>stop()\<close> terminates the loop and dismisses an active alert).\<close>

theorem alert_outlives_stop:
  "\<exists>S. reachable S \<and> \<not> monitoring_active (gui S) \<and> alert_active (gui S) \<and>
       threads S = Map.empty \<and> battery_changes S = 0"
proof -
  define S1 where "S1 = ui_next Click_toggle (boot [] (0, 0) (Some low_unplugged) 0)"
  define S2 where "S2 = test_next 1 S1"
  define S3 where "S3 = ui_next Click_toggle S2"
  define S4 where "S4 = body_next 1 S3"
  define S5 where "S5 = test_next 1 S4"
  note f1 = started_unplugged [folded S1_def]
  have f2: "faults (gui S2) = []" "monitoring_active (gui S2)" "running S2" "reachable S2"
    "threads S2 = [1 \<mapsto> (worker_start 0, In_body)]" "sensitivity (gui S2) = 5"
    "battery_now S2 = Some low_unplugged" "battery_changes S2 = 0"
    using test_step [of S1 1] f1 reachable_test [of S1 1 "worker_start 0"]
    unfolding S2_def running_def by simp_all
  have f3: "faults (gui S3) = []" "\<not> monitoring_active (gui S3)" "running S3" "reachable S3"
    "threads S3 = [1 \<mapsto> (worker_start 0, In_body)]" "sensitivity (gui S3) = 5"
    "battery_now S3 = Some low_unplugged" "battery_changes S3 = 0"
    using stop_step [of S2] f2 reachable_ui [of S2 Click_toggle]
    unfolding S3_def running_def by (simp_all add: enabled_def)
  have f4: "\<not> monitoring_active (gui S4)" "running S4" "alert_active (gui S4)" "reachable S4"
    "threads S4 = [1 \<mapsto> ((worker_start 0)\<lparr>was_secure := False\<rparr>, At_head)]" "battery_changes S4 = 0"
    using rising_step [of S3 1 "worker_start 0"] f3 reachable_body [of S3 1 "worker_start 0"]
    unfolding S4_def by (simp_all add: worker_start_def low_unplugged_def plugged_truthy_def threshold_def)
  have "reachable S5" "\<not> monitoring_active (gui S5)" "alert_active (gui S5)"
    "threads S5 = Map.empty" "battery_changes S5 = 0"
    using test_step [of S4 1] f4 reachable_test [of S4 1 "(worker_start 0)\<lparr>was_secure := False\<rparr>"]
    unfolding S5_def by simp_all
  then show ?thesis by blast
qed

section \<open>Witnesses\<close>

theorem run_log_grows_witness:
  "prefix (log_file (gui (boot [] (0, 0) None 0)))
          (log_file (gui (ui_next Click_toggle (boot [] (0, 0) None 0)))) \<and>
   incident_count (gui (boot [] (0, 0) None 0))
     \<le> incident_count (gui (ui_next Click_toggle (boot [] (0, 0) None 0)))"
proof -
  have "sys_step (boot [] (0, 0) None 0) (ui_next Click_toggle (boot [] (0, 0) None 0))"
    by (rule sys_step.ui) (simp_all add: running_def enabled_def)
  then show ?thesis by (rule run_log_grows [OF r_into_rtranclp])
qed

end
