(* ===== verification/Progress.thy ===== *)
theory Progress
  imports System
begin

text \<open>
  Properties of whole runs of the program model of theory System (src/alarm.py). The
  reachable states are well formed: the live worker threads are finitely many, each
  numbered by the \<open>start_monitoring\<close> that started it, and the metrics history stays
  within its 100 samples. Progress: once monitoring is off, every worker can run to its
  end (an iteration at most, then the flag test), so a run exists in which no worker is
  left; this is the \<open>stop()\<close> of spec section 4 seen from the threads. Without
  library faults the alert never stops flashing while it is active; one Tk error in the
  flashing callback ends the flashing, and one in the metrics callback ends the
  sampling for good: no later step queues it again. And the error
  path of the \<open>__main__\<close> block (lines 628--637): a constructor that raises ends the
  process with status 1 before any event is handled.
\<close>

section \<open>Definitions\<close>

text \<open>The iteration neither ends the process nor switches monitoring.\<close>

definition same_run_state :: "app \<Rightarrow> app \<Rightarrow> bool" where
  "same_run_state s t \<longleftrightarrow> exit_status t = exit_status s \<and> monitoring_active t = monitoring_active s"

text \<open>Well-formed program states.\<close>

definition wf_sys :: "sys \<Rightarrow> bool" where
  "wf_sys S \<longleftrightarrow> finite (dom (threads S)) \<and>
     (\<forall>i \<in> dom (threads S). 0 < i \<and> i \<le> monitor_thread (gui S)) \<and>
     length (system_metrics (gui S)) \<le> 100"

text \<open>A flashing step is queued; the alert is not active without one; the queue only
  gains entries and the alert flag is unchanged.\<close>

definition flash_pending :: "app \<Rightarrow> bool" where
  "flash_pending g \<longleftrightarrow> (\<exists>t. (t, Cb_flash_warning) \<in> set (after_queue g))"

definition flashing_ok :: "app \<Rightarrow> bool" where
  "flashing_ok g \<longleftrightarrow> (alert_active g \<longrightarrow> flash_pending g)"

definition queue_kept :: "app \<Rightarrow> app \<Rightarrow> bool" where
  "queue_kept s t \<longleftrightarrow> set (after_queue s) \<subseteq> set (after_queue t) \<and> alert_active t = alert_active s"

text \<open>No metrics refresh is queued; a step that finds none queued leaves none queued.\<close>

definition no_refresh :: "app \<Rightarrow> bool" where
  "no_refresh g \<longleftrightarrow> Cb_update_metrics \<notin> snd ` set (after_queue g)"

definition refresh_kept :: "app \<Rightarrow> app \<Rightarrow> bool" where
  "refresh_kept s t \<longleftrightarrow> (no_refresh s \<longrightarrow> no_refresh t)"

section \<open>Frame lemmas\<close>

lemma same_run_state_trans: "same_run_state s t \<Longrightarrow> same_run_state t u \<Longrightarrow> same_run_state s u"
  by (simp add: same_run_state_def)

lemma log_event_same_run_state: "keeps same_run_state (log_event msg level)"
  unfolding log_event_def
  by (auto intro!: keeps_intros intro: same_run_state_trans simp: same_run_state_def split: prod.splits)

lemma alert_same_run_state:
  "keeps same_run_state flash_warning" "keeps same_run_state (trigger_alert msg)" "keeps same_run_state stop_alert"
  by (auto simp: flash_warning_def trigger_alert_def stop_alert_def same_run_state_def
      intro!: keeps_intros log_event_same_run_state intro: same_run_state_trans)

lemma check_security_iteration_same_run_state: "keeps same_run_state (check_security_iteration w bat)"
proof (rule keeps_check_security_iteration)
  show "keeps same_run_state (security_transition a b)" for a b
    unfolding security_transition_def
    by (auto intro!: keeps_intros log_event_same_run_state alert_same_run_state
        intro: same_run_state_trans simp: same_run_state_def)
  show "keeps same_run_state (read_security bat)"
    unfolding read_security_def
    by (auto intro!: keeps_intros intro: same_run_state_trans simp: same_run_state_def split: option.splits)
  show "keeps same_run_state (monitor_error e)" for e
    unfolding monitor_error_def
    by (auto intro!: keeps_intros log_event_same_run_state intro: same_run_state_trans simp: same_run_state_def)
qed (auto simp: same_run_state_def)

lemma history_bounded_trans: "history_bounded s t \<Longrightarrow> history_bounded t u \<Longrightarrow> history_bounded s u"
  by (simp add: history_bounded_def)

lemma init_instance_history: "keeps history_bounded (init_instance cpu mem bat)"
proof -
  have u: "keeps history_bounded (update_metrics cpu mem bat)"
    by (rule keeps_mono [OF update_metrics_grows]) (simp add: grows_def history_bounded_def)
  show ?thesis
    unfolding init_instance_def setup_system_def create_window_def create_gui_def create_header_def
      create_sidebar_def create_main_content_def create_metric_card_def create_status_bar_def setup_charts_def
    by (auto intro!: keeps_intros keeps_tk_calls u intro: history_bounded_trans simp: history_bounded_def)
qed


section \<open>Well-formed reachable states\<close>


lemma main_history: "length (system_metrics (main fs rd bat now)) \<le> 100"
proof -
  have "keeps history_bounded (py_then (init_instance (fst rd) (snd rd) bat) run)"
    by (intro keeps_then init_instance_history keeps_mono [OF run_grows])
       (auto simp: history_bounded_def grows_def)
  moreover obtain r t where rt: "py_then (init_instance (fst rd) (snd rd) bat) run (fresh_process now fs) = (r, t)"
    by fastforce
  ultimately have "length (system_metrics t) \<le> 100"
    by (auto dest: keepsD simp: history_bounded_def fresh_process_def)
  then show ?thesis
    unfolding main_def rt by (cases r) simp_all
qed

lemma sys_step_threads:
  "sys_step S S' \<Longrightarrow> j \<in> dom (threads S') \<Longrightarrow>
   j \<in> dom (threads S) \<or> (j = monitor_thread (gui S') \<and> monitor_thread (gui S) < monitor_thread (gui S'))"
proof (induction rule: sys_step.induct)
  case (ui S ev)
  then show ?case by (auto simp: ui_next_def Let_def spawn_def split: if_splits)
next
  case (test S i w)
  then show ?case by (auto simp: test_next_def split: if_splits)
next
  case (body S i w)
  then show ?case by (auto simp: body_next_def split: prod.splits sum.splits if_splits)
qed (auto simp: timer_next_def tick_next_def battery_next_def)

lemma sys_step_wf: "sys_step S S' \<Longrightarrow> wf_sys S \<Longrightarrow> wf_sys S'"
proof -
  assume step: "sys_step S S'" and wf: "wf_sys S"
  have g: "monitor_thread (gui S) \<le> monitor_thread (gui S')"
    "length (system_metrics (gui S)) \<le> 100 \<longrightarrow> length (system_metrics (gui S')) \<le> 100"
    using sys_step_grows [OF step] by (simp_all add: grows_def)
  have "dom (threads S') \<subseteq> dom (threads S) \<union> {monitor_thread (gui S')}"
    using sys_step_threads [OF step] by blast
  moreover have "0 < i \<and> i \<le> monitor_thread (gui S')" if "i \<in> dom (threads S')" for i
  proof (cases "i \<in> dom (threads S)")
    case True
    with wf have "0 < i \<and> i \<le> monitor_thread (gui S)" by (simp add: wf_sys_def)
    with g(1) show ?thesis by linarith
  next
    case False
    with sys_step_threads [OF step that] show ?thesis by simp
  qed
  ultimately show ?thesis
    using wf g(2) by (auto simp: wf_sys_def intro: finite_subset)
qed

lemma reachable_wf: "reachable S \<Longrightarrow> wf_sys S"
proof (induction rule: reachable.induct)
  case (start fs rd bat now)
  then show ?case by (simp add: wf_sys_def boot_def main_history)
next
  case (step S S')
  then show ?case using sys_step_wf [OF step.hyps(2)] by blast
qed


section \<open>Workers end after monitoring is switched off\<close>


lemma end_thread:
  assumes run: "running S" and off: "\<not> monitoring_active (gui S)" and t: "threads S i = Some (w, pc)"
  shows "\<exists>S'. sys_step\<^sup>*\<^sup>* S S' \<and> threads S' = (threads S)(i := None) \<and> running S' \<and>
              \<not> monitoring_active (gui S')"
proof (cases pc)
  case At_head
  with run t have "sys_step S (test_next i S)" by (blast intro: sys_step.test)
  moreover have "threads (test_next i S) = (threads S)(i := None)"
    using t off At_head by (simp add: test_next_def)
  ultimately show ?thesis using run off by (auto simp: running_def)
next
  case In_body
  obtain r g where it: "check_security_iteration w (battery_now S) (gui S) = (r, g)"
    by fastforce
  have same: "exit_status g = exit_status (gui S)" "monitoring_active g = monitoring_active (gui S)"
    using keepsD [OF check_security_iteration_same_run_state it] by (simp_all add: same_run_state_def)
  have step1: "sys_step S (body_next i S)"
    using run t In_body by (blast intro: sys_step.body)
  show ?thesis
  proof (cases r)
    case (Inl e)
    then have "body_next i S = S\<lparr>gui := g, threads := (threads S)(i := None)\<rparr>"
      using t In_body it by (simp add: body_next_def)
    with step1 same run off show ?thesis by (auto simp: running_def)
  next
    case (Inr w')
    let ?S1 = "S\<lparr>gui := g, threads := (threads S)(i \<mapsto> (w', At_head))\<rparr>"
    have b: "body_next i S = ?S1"
      using t In_body it Inr by (simp add: body_next_def)
    have "sys_step ?S1 (test_next i ?S1)"
      using same run by (intro sys_step.test [where w = w']) (simp_all add: running_def)
    with step1 [unfolded b] have "sys_step\<^sup>*\<^sup>* S (test_next i ?S1)"
      by (rule rtranclp.rtrancl_into_rtrancl [OF r_into_rtranclp])
    moreover have "threads (test_next i ?S1) = (threads S)(i := None)"
      using same off by (simp add: test_next_def)
    ultimately show ?thesis using same run off by (auto simp: running_def)
  qed
qed

lemma end_threads:
  "finite D \<Longrightarrow> dom (threads S) = D \<Longrightarrow> running S \<Longrightarrow> \<not> monitoring_active (gui S) \<Longrightarrow>
   \<exists>S'. sys_step\<^sup>*\<^sup>* S S' \<and> threads S' = Map.empty \<and> running S' \<and> \<not> monitoring_active (gui S')"
proof (induction D arbitrary: S rule: finite_induct)
  case empty
  then show ?case by blast
next
  case (insert x F)
  then have "x \<in> dom (threads S)" by simp
  then obtain w pc where "threads S x = Some (w, pc)" by auto
  with insert.prems obtain S1 where S1: "sys_step\<^sup>*\<^sup>* S S1" "threads S1 = (threads S)(x := None)"
    "running S1" "\<not> monitoring_active (gui S1)"
    using end_thread by blast
  have "dom (threads S1) = F" using S1(2) insert by auto
  with S1 insert.IH obtain S2 where "sys_step\<^sup>*\<^sup>* S1 S2" "threads S2 = Map.empty" "running S2"
    "\<not> monitoring_active (gui S2)" by blast
  with S1(1) show ?case by (blast intro: rtranclp_trans)
qed

section \<open>The alert keeps flashing\<close>

lemma queue_kept_trans: "queue_kept s t \<Longrightarrow> queue_kept t u \<Longrightarrow> queue_kept s u"
  by (auto simp: queue_kept_def)

lemma queue_kept_flashing: "queue_kept s t \<Longrightarrow> flashing_ok s \<Longrightarrow> flashing_ok t"
  by (auto simp: queue_kept_def flashing_ok_def flash_pending_def)

lemma log_event_queue_kept: "keeps queue_kept (log_event msg level)"
  unfolding log_event_def
  by (auto intro!: keeps_intros intro: queue_kept_trans simp: queue_kept_def split: prod.splits)

lemma dispatch_queue_kept: "cb \<noteq> Cb_flash_warning \<Longrightarrow> keeps queue_kept (dispatch cb rd bat)"
proof (cases cb)
  case Cb_update_metrics
  then show ?thesis
    by (cases rd) (auto simp: update_metrics_def py_block.simps py_then_modify_modify queue_kept_def
        intro!: keeps_intros update_metric_card_keeps intro: queue_kept_trans split: option.splits)
next
  case (Cb_animate_progress step)
  then show ?thesis
    by (auto intro!: keeps_intros intro: queue_kept_trans simp: queue_kept_def animate_progress_def)
next
  case Cb_finish_startup
  then show ?thesis
    by (auto intro!: keeps_intros log_event_queue_kept intro: queue_kept_trans
        simp: queue_kept_def finish_startup_def)
qed simp

lemma ui_handler_flashing:
  "faults g = [] \<Longrightarrow> flashing_ok g \<Longrightarrow> flashing_ok (snd (ui_handler ev g))"
proof (cases ev)
  case Click_toggle
  moreover assume "faults g = []" "flashing_ok g"
  ultimately show ?thesis
    by (cases "alert_active g"; auto simp: ui_handler_def toggle_monitoring_def stop_monitoring_def
        flashing_ok_def flash_pending_def)
next
  case (Click_clear answer)
  moreover assume "faults g = []" "flashing_ok g"
  ultimately show ?thesis
    by (simp add: ui_handler_def clear_logs_def flashing_ok_def flash_pending_def)
next
  case (Close_window answer)
  moreover assume "faults g = []" "flashing_ok g"
  ultimately show ?thesis
    by (cases "alert_active g"; simp add: ui_handler_def on_closing_def flashing_ok_def)
qed (simp_all add: ui_handler_def export_logs_def flashing_ok_def flash_pending_def)

lemma iteration_state_flashing:
  "faults s = [] \<Longrightarrow> flashing_ok s \<Longrightarrow> flashing_ok (iteration_state w bat s)"
  by (auto simp: iteration_state_def transition_state_def Let_def flashing_ok_def flash_pending_def)

lemma timer_flashing:
  assumes "faults (gui S) = []" "flashing_ok (gui S)" "tc \<in> set (after_queue (gui S))"
  shows "flashing_ok (gui (timer_next tc rd S))"
proof (cases "snd tc = Cb_flash_warning")
  case True
  with assms(1) show ?thesis
    by (auto simp: timer_next_def flashing_ok_def flash_pending_def)
next
  case False
  let ?g = "(gui S)\<lparr>after_queue := remove1 tc (after_queue (gui S))\<rparr>"
  have "(t, Cb_flash_warning) \<noteq> tc" for t using False by auto
  then have "flashing_ok ?g"
    using assms(2) by (auto simp: flashing_ok_def flash_pending_def in_set_remove1)
  moreover have "queue_kept ?g (snd (dispatch (snd tc) rd (battery_now S) ?g))"
    using dispatch_queue_kept [OF False] by (simp add: keeps_def)
  ultimately show ?thesis by (simp add: timer_next_def queue_kept_flashing)
qed

lemma sys_step_flashing:
  "sys_step S S' \<Longrightarrow> faults (gui S) = [] \<Longrightarrow> flashing_ok (gui S) \<Longrightarrow> flashing_ok (gui S')"
proof (induction rule: sys_step.induct)
  case (ui S ev)
  then show ?case by (simp add: ui_next_def Let_def ui_handler_flashing)
next
  case (timer S tc rd)
  then show ?case by (simp add: timer_flashing)
next
  case (body S i w)
  then show ?case by (simp add: body_step iteration_state_flashing)
qed (simp_all add: tick_next_def battery_next_def flashing_ok_def flash_pending_def)

lemma fault_free_flashing:
  "sys_step\<^sup>*\<^sup>* (boot [] rd bat now) S \<Longrightarrow> flashing_ok (gui S)"
proof (induction rule: rtranclp_induct)
  case base
  then show ?case by (simp add: flashing_ok_def)
next
  case (step S S')
  have "faults (gui S) = []"
    using sys_steps_grows [OF step.hyps(1)] by (simp add: grows_def)
  with step show ?case by (blast intro: sys_step_flashing)
qed

section \<open>The metrics refresh is never queued again\<close>

text \<open>Only \<open>update_metrics\<close> queues \<open>update_metrics\<close>: every handler, every other callback
  and every worker iteration keeps a queue without it so, whatever fails.\<close>

lemma refresh_kept_trans: "refresh_kept s t \<Longrightarrow> refresh_kept t u \<Longrightarrow> refresh_kept s u"
  by (simp add: refresh_kept_def)

lemmas refresh_kept_simps = refresh_kept_def no_refresh_def

lemma log_event_refresh_kept: "keeps refresh_kept (log_event msg level)"
  unfolding log_event_def
  by (auto intro!: keeps_intros intro: refresh_kept_trans simp: refresh_kept_simps split: prod.splits)

lemma alert_refresh_kept:
  "keeps refresh_kept flash_warning" "keeps refresh_kept (trigger_alert msg)" "keeps refresh_kept stop_alert"
  by (auto simp: flash_warning_def trigger_alert_def stop_alert_def refresh_kept_simps
      intro!: keeps_intros log_event_refresh_kept intro: refresh_kept_trans)

lemma ui_handler_refresh_kept: "keeps refresh_kept (ui_handler ev)"
  apply (cases ev)
  apply (auto simp: ui_handler_def refresh_kept_simps toggle_monitoring_def start_monitoring_def stop_monitoring_def
     animate_startup_def animate_progress_def clear_logs_def export_logs_def on_closing_def shutdown_def
      intro!: keeps_intros log_event_refresh_kept alert_refresh_kept intro: refresh_kept_trans split: option.splits)
  done

lemma dispatch_refresh_kept: "cb \<noteq> Cb_update_metrics \<Longrightarrow> keeps refresh_kept (dispatch cb rd bat)"
proof (cases cb)
  case (Cb_animate_progress step)
  then show ?thesis
    by (auto intro!: keeps_intros intro: refresh_kept_trans simp: refresh_kept_simps animate_progress_def)
next
  case Cb_finish_startup
  then show ?thesis
    by (auto intro!: keeps_intros log_event_refresh_kept intro: refresh_kept_trans
        simp: refresh_kept_simps finish_startup_def)
qed (simp_all add: alert_refresh_kept)

lemma check_security_iteration_refresh_kept: "keeps refresh_kept (check_security_iteration w bat)"
proof (rule keeps_check_security_iteration)
  show "keeps refresh_kept (security_transition a b)" for a b
    unfolding security_transition_def
    by (auto intro!: keeps_intros log_event_refresh_kept alert_refresh_kept
        intro: refresh_kept_trans simp: refresh_kept_simps)
  show "keeps refresh_kept (read_security bat)"
    unfolding read_security_def
    by (auto intro!: keeps_intros intro: refresh_kept_trans simp: refresh_kept_simps split: option.splits)
  show "keeps refresh_kept (monitor_error e)" for e
    unfolding monitor_error_def
    by (auto intro!: keeps_intros log_event_refresh_kept intro: refresh_kept_trans simp: refresh_kept_simps)
qed (auto simp: refresh_kept_simps)

lemma sys_step_no_refresh: "sys_step S S' \<Longrightarrow> no_refresh (gui S) \<Longrightarrow> no_refresh (gui S')"
proof (induction rule: sys_step.induct)
  case (ui S ev)
  then show ?case
    using ui_handler_refresh_kept [unfolded keeps_def, rule_format]
    by (simp add: ui_next_def Let_def refresh_kept_def)
next
  case (timer S tc rd)
  let ?g = "(gui S)\<lparr>after_queue := remove1 tc (after_queue (gui S))\<rparr>"
  have "snd tc \<noteq> Cb_update_metrics"
    using timer.hyps(2) timer.prems by (force simp: no_refresh_def)
  moreover have "no_refresh ?g"
    using timer.prems by (auto simp: no_refresh_def dest: set_remove1_subset [THEN subsetD])
  ultimately show ?case
    using dispatch_refresh_kept [unfolded keeps_def, rule_format]
    by (simp add: timer_next_def refresh_kept_def)
next
  case (body S i w)
  then show ?case
    using check_security_iteration_refresh_kept [unfolded keeps_def, rule_format]
    by (simp add: gui_body_next refresh_kept_def)
qed (simp_all add: tick_next_def battery_next_def no_refresh_def)

lemma sys_steps_no_refresh: "sys_step\<^sup>*\<^sup>* S S' \<Longrightarrow> no_refresh (gui S) \<Longrightarrow> no_refresh (gui S')"
  by (induction rule: rtranclp_induct) (auto intro: sys_step_no_refresh)

lemma no_refresh_remove1:
  "filter (\<lambda>x. snd x = Cb_update_metrics) q = [(t, Cb_update_metrics)] \<Longrightarrow>
   Cb_update_metrics \<notin> snd ` set (remove1 (t, Cb_update_metrics) q)"
  by (induction q) (auto simp: filter_empty_conv split: if_splits)

lemma boot_queue: "after_queue (gui (boot [] (cpu, mem) bat 0)) = [(1000, Cb_update_metrics), (2000, Cb_finish_startup)]"
  by (simp add: boot_def main_fault_free update_metrics_no_faults initial_app_def Let_def)

section \<open>Properties\<close>

text \<open>C9: every reachable state of the program is well formed: finitely many live worker
  threads, each numbered between 1 and the number of threads started so far, and a
  metrics history of at most 100 samples.\<close>

theorem reachable_state_wellformed:
  "reachable S \<Longrightarrow> finite (dom (threads S)) \<and>
     (\<forall>i \<in> dom (threads S). 0 < i \<and> i \<le> monitor_thread (gui S)) \<and>
     length (system_metrics (gui S)) \<le> 100"
  using reachable_wf by (simp add: wf_sys_def)

text \<open>C7: once monitoring is switched off in a reachable state of the running program,
  there is a run in which every worker thread ends: a worker at its flag test leaves the
  loop, one in its iteration finishes it (or raises out of it) and then leaves (spec
  section 4: \<open>stop()\<close> terminates the loop).\<close>

theorem workers_end_after_stop:
  "reachable S \<Longrightarrow> running S \<Longrightarrow> \<not> monitoring_active (gui S) \<Longrightarrow>
   \<exists>S'. sys_step\<^sup>*\<^sup>* S S' \<and> threads S' = Map.empty"
proof -
  assume "reachable S" "running S" "\<not> monitoring_active (gui S)"
  moreover from \<open>reachable S\<close> have "finite (dom (threads S))"
    by (simp add: reachable_wf [unfolded wf_sys_def])
  ultimately show ?thesis using end_threads [of "dom (threads S)" S] by blast
qed

text \<open>C14: when the first library call of the constructor raises (the log directory cannot
  be created), the process exits with status 1 with no window open and nothing logged,
  and no event, callback or thread step ever runs.\<close>

theorem init_failure_exits:
  "exit_status (gui (boot (Some e # fs) rd bat now)) = Some 1 \<and>
   \<not> window_open (gui (boot (Some e # fs) rd bat now)) \<and>
   log_file (gui (boot (Some e # fs) rd bat now)) = [] \<and>
   (\<forall>S'. \<not> sys_step (boot (Some e # fs) rd bat now) S')"
proof -
  have g: "gui (boot (Some e # fs) rd bat now) = (fresh_process now fs)\<lparr>exit_status := Some 1\<rparr>"
    by (simp add: boot_def main_def init_instance_first_fault)
  then have "\<not> running (boot (Some e # fs) rd bat now)" by (simp add: running_def)
  then have "\<not> sys_step (boot (Some e # fs) rd bat now) S'" for S'
    by (auto elim: sys_step.cases)
  with g show ?thesis by (simp add: fresh_process_def)
qed

text \<open>C10: in every run that starts with no library faults, while the alert is active a
  flashing step is queued: the visual alarm of spec section 4.3 never stops on its own.\<close>

theorem fault_free_alert_keeps_flashing:
  "sys_step\<^sup>*\<^sup>* (boot [] rd bat now) S \<Longrightarrow> alert_active (gui S) \<Longrightarrow>
   \<exists>t. (t, Cb_flash_warning) \<in> set (after_queue (gui S))"
  using fault_free_flashing by (auto simp: flashing_ok_def flash_pending_def)

text \<open>C15: one Tk error in the flashing callback ends the flashing for good: when the
  \<open>configure\<close> of the status label (line 400) raises, the callback stops before its
  \<open>root.after(500, self.flash_warning)\<close> (line 407), Tk reports and drops the
  exception, and the alert stays active with no flashing step queued.\<close>

theorem flash_error_ends_flashing:
  assumes "running S" "alert_active (gui S)" "after_queue (gui S) = [(t, Cb_flash_warning)]"
    "t \<le> clock (gui S)" "faults (gui S) = [None, Some e]"
  shows "sys_step S (timer_next (t, Cb_flash_warning) rd S) \<and>
         alert_active (gui (timer_next (t, Cb_flash_warning) rd S)) \<and>
         after_queue (gui (timer_next (t, Cb_flash_warning) rd S)) = []"
proof -
  have "sys_step S (timer_next (t, Cb_flash_warning) rd S)"
    using assms by (intro sys_step.timer) simp_all
  moreover have "alert_active (gui (timer_next (t, Cb_flash_warning) rd S)) \<and>
         after_queue (gui (timer_next (t, Cb_flash_warning) rd S)) = []"
    using assms by (simp add: timer_next_def flash_warning_def fault_defs)
  ultimately show ?thesis by blast
qed

text \<open>C16: when a library call of the metrics callback raises before its re-queue (here
  the \<open>configure\<close> of the CPU label, line 283), Tk drops the exception and the
  callback is not queued again: no later step of the program, whatever the user, the
  workers or the other callbacks do, queues it, so the metrics are never refreshed
  again (the spec's periodic sampling stops).\<close>

theorem metrics_error_ends_refresh:
  assumes "running S" "(t, Cb_update_metrics) \<in> set (after_queue (gui S))" "t \<le> clock (gui S)"
    "filter (\<lambda>x. snd x = Cb_update_metrics) (after_queue (gui S)) = [(t, Cb_update_metrics)]"
    "faults (gui S) = None # None # Some e # fs"
  shows "sys_step S (timer_next (t, Cb_update_metrics) rd S) \<and>
    (\<forall>S'. sys_step\<^sup>*\<^sup>* (timer_next (t, Cb_update_metrics) rd S) S' \<longrightarrow>
          Cb_update_metrics \<notin> snd ` set (after_queue (gui S')))"
proof -
  have "after_queue (gui (timer_next (t, Cb_update_metrics) rd S)) =
        remove1 (t, Cb_update_metrics) (after_queue (gui S))"
    using assms(5) by (cases rd) (simp add: timer_next_def update_metrics_def fault_defs)
  then have "no_refresh (gui (timer_next (t, Cb_update_metrics) rd S))"
    using no_refresh_remove1 [OF assms(4)] by (simp add: no_refresh_def)
  then show ?thesis
    using assms(1-3) sys_steps_no_refresh by (auto intro: sys_step.timer simp: no_refresh_def)
qed

section \<open>Witnesses\<close>

theorem reachable_state_wellformed_witness:
  "finite (dom (threads (ui_next Click_toggle (boot [] (0, 0) (Some low_unplugged) 0)))) \<and>
   0 < (1::nat) \<and> 1 \<le> monitor_thread (gui (ui_next Click_toggle (boot [] (0, 0) (Some low_unplugged) 0))) \<and>
   length (system_metrics (gui (ui_next Click_toggle (boot [] (0, 0) (Some low_unplugged) 0)))) \<le> 100"
  using reachable_state_wellformed [OF started_unplugged(4)] started_unplugged(6)
  by simp

theorem workers_end_after_stop_witness:
  "\<exists>S'. sys_step\<^sup>*\<^sup>* (ui_next Click_toggle (ui_next Click_toggle (boot [] (0, 0) (Some low_unplugged) 0))) S' \<and>
        threads S' = Map.empty"
proof -
  let ?S1 = "ui_next Click_toggle (boot [] (0, 0) (Some low_unplugged) 0)"
  note s1 = started_unplugged
  have "reachable (ui_next Click_toggle ?S1)"
    using reachable_ui [OF s1(4) s1(3)] by (simp add: enabled_def)
  moreover have "running (ui_next Click_toggle ?S1)" "\<not> monitoring_active (gui (ui_next Click_toggle ?S1))"
    using stop_step [of ?S1] s1 by (simp_all add: running_def)
  ultimately show ?thesis by (rule workers_end_after_stop)
qed

theorem fault_free_alert_keeps_flashing_witness:
  "\<exists>t. (t, Cb_flash_warning) \<in> set (after_queue (gui
      (body_next 1 (test_next 1 (ui_next Click_toggle (boot [] (0, 0) (Some low_unplugged) 0))))))"
proof -
  let ?B = "boot [] (0, 0) (Some low_unplugged) 0"
  let ?S1 = "ui_next Click_toggle ?B"
  let ?S2 = "test_next 1 ?S1"
  note s1 = started_unplugged
  have t2: "threads ?S2 1 = Some (worker_start 0, In_body)" "running ?S2" "faults (gui ?S2) = []"
    "sensitivity (gui ?S2) = 5" "battery_now ?S2 = Some low_unplugged"
    using test_step [of ?S1 1] s1 by (simp_all add: running_def)
  have "sys_step ?B ?S1" by (rule sys_step.ui) (simp_all add: running_def enabled_def)
  moreover have "sys_step ?S1 ?S2"
    using s1 by (intro sys_step.test [where w = "worker_start 0"]) simp_all
  moreover have "sys_step ?S2 (body_next 1 ?S2)"
    using t2 by (intro sys_step.body [where w = "worker_start 0"]) simp_all
  ultimately have "sys_step\<^sup>*\<^sup>* ?B (body_next 1 ?S2)"
    by (meson converse_rtranclp_into_rtranclp r_into_rtranclp)
  moreover have "alert_active (gui (body_next 1 ?S2))"
    using rising_step [of ?S2 1 "worker_start 0"] t2
    by (simp add: worker_start_def low_unplugged_def plugged_truthy_def threshold_def)
  ultimately show ?thesis by (rule fault_free_alert_keeps_flashing)
qed

theorem flash_error_ends_flashing_witness:
  "sys_step ((boot [] (0, 0) None 0)\<lparr>gui := (gui (boot [] (0, 0) None 0))\<lparr>alert_active := True,
       after_queue := [(0, Cb_flash_warning)], faults := [None, Some Tcl_error]\<rparr>\<rparr>)
     (timer_next (0, Cb_flash_warning) (0, 0) ((boot [] (0, 0) None 0)\<lparr>gui := (gui (boot [] (0, 0) None 0))\<lparr>alert_active := True,
       after_queue := [(0, Cb_flash_warning)], faults := [None, Some Tcl_error]\<rparr>\<rparr>)) \<and>
   alert_active (gui (timer_next (0, Cb_flash_warning) (0, 0) ((boot [] (0, 0) None 0)\<lparr>gui := (gui (boot [] (0, 0) None 0))\<lparr>alert_active := True,
       after_queue := [(0, Cb_flash_warning)], faults := [None, Some Tcl_error]\<rparr>\<rparr>))) \<and>
   after_queue (gui (timer_next (0, Cb_flash_warning) (0, 0) ((boot [] (0, 0) None 0)\<lparr>gui := (gui (boot [] (0, 0) None 0))\<lparr>alert_active := True,
       after_queue := [(0, Cb_flash_warning)], faults := [None, Some Tcl_error]\<rparr>\<rparr>))) = []"
  by (rule flash_error_ends_flashing) (simp_all add: running_def)

theorem metrics_error_ends_refresh_witness:
  "sys_step ((boot [] (0, 0) None 0)\<lparr>gui := (gui (boot [] (0, 0) None 0))\<lparr>clock := 1000,
       faults := [None, None, Some Tcl_error]\<rparr>\<rparr>)
     (timer_next (1000, Cb_update_metrics) (0, 0) ((boot [] (0, 0) None 0)\<lparr>gui := (gui (boot [] (0, 0) None 0))\<lparr>clock := 1000,
       faults := [None, None, Some Tcl_error]\<rparr>\<rparr>)) \<and>
   Cb_update_metrics \<notin> snd ` set (after_queue (gui (timer_next (1000, Cb_update_metrics) (0, 0)
     ((boot [] (0, 0) None 0)\<lparr>gui := (gui (boot [] (0, 0) None 0))\<lparr>clock := 1000,
       faults := [None, None, Some Tcl_error]\<rparr>\<rparr>))))"
  using metrics_error_ends_refresh [of "(boot [] (0, 0) None 0)\<lparr>gui := (gui (boot [] (0, 0) None 0))\<lparr>clock := 1000,
       faults := [None, None, Some Tcl_error]\<rparr>\<rparr>" 1000 Tcl_error "[]" "(0, 0)"]
  by (simp add: running_def boot_queue)

end
