(* ===== verification/Spec2Isabelle.thy ===== *)
theory Spec2Isabelle
  imports Progress
begin

text \<open>
  \<^bold>\<open>A verification library for Computer-Alarm (src/alarm.py).\<close>

  \<^bold>\<open>The program.\<close> One Python class, \<open>SecurityMonitorGUI\<close>, builds a Tk window and
  runs two activities that share its fields: the Tk main loop, which runs the button
  commands and the \<open>root.after\<close> callbacks (the metrics sampler \<open>update_metrics\<close>, the
  alert's flashing \<open>flash_warning\<close>, the startup animation and \<open>finish_startup\<close>), and
  a worker thread per \<open>start_monitoring\<close>, which runs \<open>check_security\<close>: once a
  second it reads the battery through psutil, judges it against the slider's
  sensitivity, and on an edge of the verdict counts an incident and raises the alert
  (\<open>trigger_alert\<close>) or logs the return to normal and dismisses it (\<open>stop_alert\<close>).
  Every event goes through \<open>log_event\<close> to a Text widget and to a durable log file.

  \<^bold>\<open>How the code is modelled.\<close> A shallow embedding. The instance is the record
  \<open>app\<close> (theory App) with one field per attribute the methods read or write, widgets
  included (their text, colour or state). A method is a function of type
  \<open>(app, 'a) py = app \<Rightarrow> (exc + 'a) \<times> app\<close> (theory Prelude): Python's
  statements become \<open>py_block\<close>, \<open>py_bind\<close>, \<open>py_if\<close>, \<open>py_when\<close> and
  \<open>py_try\<close>, and a raise returns \<open>Inl\<close> with the state reached so far, as Python keeps
  every assignment made before the exception. Each call into Tk, pygame, psutil or the
  file system is \<open>ext_call\<close> or \<open>ext_read\<close>: it consumes one entry of the fault oracle
  \<open>faults\<close>, a list of \<open>exc option\<close>, and raises when that entry is \<open>Some e\<close>. The
  empty oracle is the run in which nothing fails; a concrete oracle places a failure at
  a chosen call. Sensor readings are parameters (\<open>battery option\<close>, CPU and memory
  load as reals); \<open>sleep\<close> advances the clock in milliseconds.

  \<^bold>\<open>Theories, in import order.\<close>
  \<^item> Prelude: the exception type, the statement combinators and their evaluation
    equations (\<open>py_simps\<close>), and the \<open>keeps\<close> library: \<open>keeps R m\<close> says that every
    run of \<open>m\<close>, raising or not, ends in a state related by \<open>R\<close> to its start, with
    introduction rules (\<open>keeps_intros\<close>) for every combinator.
  \<^item> App: \<open>app\<close>, \<open>initial_app\<close> (the state \<open>__init__\<close> builds before its first
    metrics sample, proved so in Init), \<open>fault_point\<close>, \<open>ext_call\<close>, \<open>ext_read\<close>,
    \<open>sleep\<close>, \<open>after\<close>.
  \<^item> Policy: \<open>threshold\<close> and \<open>secure_verdict\<close> (lines 342--347).
  \<^item> EventLog: \<open>log_event\<close> (506--529), \<open>clear_logs\<close> (325--333),
    \<open>export_logs\<close> (312--323: the truncating \<open>open\<close>, the read of the widget and the
    write are three library calls), and \<open>grows\<close>: the durable file only grows, the incident
    counter never decreases and the oracle is only consumed; every method keeps it
    (facts \<open>grows_ops\<close>, proved in the theory of each method).
  \<^item> Alert: \<open>flash_warning\<close> (394--407), \<open>trigger_alert\<close> (371--392),
    \<open>stop_alert\<close> (409--426). What \<open>cget\<close> hands back to Python is the datatype
    \<open>tcl_value\<close>: the ttk status label's colour is a \<open>Tcl_Obj\<close>, which Python's
    \<open>!=\<close> never finds equal to a string, so the flashing keeps the label red while
    the log background (a \<open>str\<close> from the classic Text widget) alternates.
  \<^item> Monitor: the worker's locals \<open>worker\<close>, \<open>read_security\<close>,
    \<open>security_transition\<close>, \<open>monitor_error\<close>, one loop iteration
    \<open>check_security_iteration\<close> and the loop \<open>check_security_loop\<close> /
    \<open>check_security\<close> (335--369); the loop runs over a finite list of readings, one per
    iteration, which bounds the iterations a theorem looks at.
  \<^item> SecuritySpec: the spec's state machine (status, incident counter, alert flag) and
    the refinement: without library faults one iteration is one step of the machine,
    and the loop is the machine run over the same readings; hence the incident count
    is the number of Secure-to-Compromised edges and a run of compromised samples
    counts one incident.
  \<^item> MonitorFaults: the loop under concrete fault oracles: a failed sensor read backs
    off; a Tk error while reporting an incident counts it twice; an error after the
    alarm started leaves it on; an error in the except handler ends the thread.
  \<^item> Lifecycle: \<open>toggle_monitoring\<close>, \<open>start_monitoring\<close>, \<open>stop_monitoring\<close>
    (428--504), the startup animation (466--477, with \<open>animate_chain\<close>, the chain of
    its callbacks, a \<open>function\<close> whose termination measure is \<open>100 - step\<close>),
    \<open>on_closing\<close> and its shutdown (531--554), \<open>run\<close>, \<open>show_splash_screen\<close>
    (its size and its centring on the screen with floor division, a bounds lemma: the
    splash lies on any screen of at least 300 by 200 pixels, centred to the pixel),
    \<open>finish_startup\<close> (556--626).
  \<^item> Metrics: \<open>update_metric_card\<close> and \<open>update_metrics\<close> (277--310): the history
    never exceeds 100 samples and is the last 100 samples taken, oldest first.
  \<^item> Init: the constructor statement by statement: \<open>setup_system\<close> (24--44),
    \<open>create_window\<close>, \<open>create_gui\<close> and the \<open>create_*\<close> methods (46--270),
    \<open>setup_charts\<close>, \<open>init_instance\<close> (18--22), run in \<open>fresh_process\<close>; without
    faults it builds exactly \<open>initial_app\<close>, whatever the instance fields held.
  \<^item> System: the program as a transition system. \<open>sys\<close> holds the instance, the live
    worker threads (their locals and whether they are at the loop test or in an
    iteration) and the battery. \<open>sys_step\<close> interleaves a button command
    (\<open>ui_handler\<close>), a due \<open>after\<close> callback (\<open>dispatch\<close>), a flag test or an
    iteration of a worker, the clock and battery changes; \<open>boot\<close> and \<open>main\<close> model
    lines 628--637. Along every run the durable log only grows; and two reachable
    states the spec excludes: two workers counting one unplugging twice, and an alert
    raised after monitoring was stopped.
  \<^item> Progress: properties of runs. Reachable states are well formed (finitely many
    workers, numbered by the thread that started them; the history within 100); once
    monitoring is off every worker can run to its end, at most one iteration and one
    flag test each (induction over the finite set of live threads); a constructor
    that raises ends the process with status 1 before any event; a Tk error in the
    flashing callback ends the flashing, and one in the metrics callback ends the
    sampling: no step of any later run queues it again.

  \<^bold>\<open>What the theorems show.\<close> The claims of the development are the theorems
  each preceded by a text block that names it (C1, C2, ...) and states it in words:
  functional behaviour of each method without faults, its behaviour under a failing
  call, the refinement of the spec's state machine, the equivalence of the constructor
  with \<open>initial_app\<close>, invariants kept by every method whatever fails (\<open>keeps\<close>), and
  the safety, well-formedness, progress and reachability facts of the interleaving
  model. Each theorem with hypotheses has a
  witness theorem that applies it to a concrete state.

  \<^bold>\<open>Not modelled.\<close> The layout and styling arguments of the widget calls
  (fonts, paddings, styles; each call is a library call without a modelled effect, and
  the card titles and values are one placeholder constructor; the splash window's
  labels and frame likewise, its size and position are modelled); the text of messages and toasts (constructors of
  \<open>message\<close> and \<open>toast\<close>); the timestamps' formatting beyond the second of the day;
  the pixel-level behaviour of Tk and pygame, which are the fault oracle. Python's
  threads are interleaved at the granularity of one iteration of the worker and one Tk
  callback: the memory model of CPython under the GIL is not modelled, and
  \<open>time.sleep\<close> is part of the iteration it ends. In the program the worker's Tk
  calls (\<open>trigger_alert\<close>, \<open>stop_alert\<close>, \<open>log_event\<close> from the thread) are
  marshalled to the main loop one by one, so a button command can run between two
  statements of an iteration (for instance between \<open>alert_active = True\<close> and the
  enabling of the dismiss button). The model runs an iteration as one step: the states
  inside it are not states of the model, and the theorems about every run (the log
  only grows, reachable states are well formed, the flashing and the sampling) speak of
  the states between steps.
\<close>

end
